theory Spec2Isabelle
  imports Main
begin

section \<open>Mesh construction of pyembree: TriangleMesh and ElementMesh\<close>

text \<open>
  The development embeds \<^verbatim>\<open>src/pyembree/mesh_construction.pyx\<close>: the two Cython
  extension classes \<^verbatim>\<open>TriangleMesh\<close> and \<^verbatim>\<open>ElementMesh\<close>, their constructors and the
  four builders \<^verbatim>\<open>_build_from_flat\<close>, \<^verbatim>\<open>_build_from_indices\<close>, \<^verbatim>\<open>_build_from_quads\<close> and
  \<^verbatim>\<open>_build_from_triangles\<close>.

  Scope of the model.
  \<^item> A NumPy array is its shape and its elements, read by multi-index.
  \<^item> The builders take their arrays as \<^verbatim>\<open>np.ndarray\<close> objects with no element type: an
    element is read as a Python object and converted to the C type of the field it is
    assigned to. For a \<^verbatim>\<open>Vertex\<close> field this is the conversion to a C \<^verbatim>\<open>float\<close>. The
    source does not contain it (Cython generates the call, the C compiler narrows the
    double), so it is a parameter \<open>as_float\<close> of every builder: a function from the
    elements of the vertex array, of type \<open>'a\<close>, to an error or a single-precision value,
    of type \<open>'f\<close>. For a \<^verbatim>\<open>Triangle\<close> field it is the conversion of an integer to a C
    \<^verbatim>\<open>int\<close>, \<open>as_c_int\<close>, which raises OverflowError when the integer does not fit. An
    index array holds integers.
  \<^item> The counters declared \<^verbatim>\<open>cdef int\<close> are 32-bit two's complement: every value stored
    in one goes through \<open>c_int\<close>. For the conversion of an array dimension to a C int this
    is what the compilers do. Signed overflow in arithmetic is undefined in C; the model
    gives it the two's complement result. No theorem on inputs of the documented shapes,
    and no counterexample, involves arithmetic that overflows.
  \<^item> An exception ends the builder at the statement that raises it; the model returns
    it together with the state reached. What the constructor does with an exception of a
    \<^verbatim>\<open>cdef void\<close> builder depends on the Cython version (it is propagated, or printed
    and dropped); the state is the same, and a construction is said to fail when its
    builder raised.
  \<^item> A C-level read or write the source does not check (the dimension of an array of too
    small a rank, a buffer slot outside the declared count) has no defined result; the
    model stops there with \<open>UndefinedBehaviour\<close>.
\<close>

subsection \<open>C integers\<close>

definition c_int :: "int \<Rightarrow> int" where
  "c_int v = (v + 2 ^ 31) mod 2 ^ 32 - 2 ^ 31"

definition INT_MAX :: int where
  "INT_MAX = 2 ^ 31 - 1"

definition INT_MIN :: int where
  "INT_MIN = - (2 ^ 31)"

subsection \<open>NumPy arrays\<close>

datatype error = IndexError | TypeError | OverflowError | NotImplementedError | UndefinedBehaviour

record 'a ndarray =
  shape :: "nat list"
  item :: "nat list \<Rightarrow> 'a"

text \<open>One integer index against one dimension: negative indices count from the end.\<close>

definition norm_index :: "int \<Rightarrow> nat \<Rightarrow> nat option" where
  "norm_index i n =
     (if 0 \<le> i \<and> i < int n then Some (nat i)
      else if - int n \<le> i \<and> i < 0 then Some (nat (i + int n))
      else None)"

fun resolve :: "int list \<Rightarrow> nat list \<Rightarrow> nat list option" where
  "resolve [] ns = Some []"
| "resolve (i # is) [] = None"
| "resolve (i # is) (n # ns) =
     (case norm_index i n of
        None \<Rightarrow> None
      | Some k \<Rightarrow> (case resolve is ns of None \<Rightarrow> None | Some ks \<Rightarrow> Some (k # ks)))"

text \<open>
  \<^verbatim>\<open>a[i, j, k]\<close> (and \<^verbatim>\<open>a[i][k]\<close>, which meets the same checks in the same order) read
  into a C scalar. Too many indices, or an index out of range, raise IndexError. Too few
  indices give a sub-array, which converts to a scalar only when it has one element.
\<close>

definition getitem :: "'a ndarray \<Rightarrow> int list \<Rightarrow> error + 'a" where
  "getitem a idx =
     (case resolve idx (shape a) of
        None \<Rightarrow> Inl IndexError
      | Some ks \<Rightarrow>
          (let rest = drop (length idx) (shape a)
           in if list_all (\<lambda>n. n = 1) rest
              then Inr (item a (ks @ map (\<lambda>n. 0) rest))
              else Inl TypeError))"

text \<open>
  \<^verbatim>\<open>a.shape[k]\<close> on a variable typed \<^verbatim>\<open>np.ndarray\<close> is a C read of the dimensions
  block: nothing checks \<open>k\<close> against the rank.
\<close>

definition shape_at :: "'a ndarray \<Rightarrow> nat \<Rightarrow> error + nat" where
  "shape_at a k = (if k < length (shape a) then Inr (shape a ! k) else Inl UndefinedBehaviour)"

subsection \<open>Conversions of elements\<close>

text \<open>
  An assignment \<^verbatim>\<open>triangles[k].v0 = arr[i][n]\<close> converts the element, a Python integer,
  to the C \<^verbatim>\<open>int\<close> of the field: the value when it fits, OverflowError otherwise.
\<close>

definition as_c_int :: "int \<Rightarrow> error + int" where
  "as_c_int v = (if INT_MIN \<le> v \<and> v \<le> INT_MAX then Inr v else Inl OverflowError)"

text \<open>
  An assignment \<^verbatim>\<open>vertices[k].x = arr[i, n]\<close> converts the element to the C \<^verbatim>\<open>float\<close> of
  the field: an error when the object has no such conversion, the nearest
  single-precision value otherwise. The builders take this conversion as their first
  argument.
\<close>

type_synonym ('a, 'f) conversion = "'a \<Rightarrow> error + 'f"

subsection \<open>The scene and its buffers\<close>

datatype buffer_kind = RTC_VERTEX_BUFFER | RTC_INDEX_BUFFER

datatype pointer = BufferPtr nat buffer_kind

datatype vertex_field = X | Y | Z

datatype triangle_field = V0 | V1 | V2

text \<open>
  Modelled from the spec: the structs \<^verbatim>\<open>Vertex\<close> and \<^verbatim>\<open>Triangle\<close>, declared in
  \<^verbatim>\<open>rtcore.pxd\<close>, which is not among the sources: three single-precision coordinates
  \<open>x\<close>, \<open>y\<close>, \<open>z\<close>, and three indices \<open>v0\<close>, \<open>v1\<close>, \<open>v2\<close>. The spec calls the indices
  unsigned; the fields are C \<^verbatim>\<open>int\<close>s, as the counters the flat builder assigns to them
  (line 82) and as pyembree declares them, so that an index from \<open>2\<^sup>3\<^sup>1\<close> on does not
  convert. A field of a mapped buffer holds nothing until it is written.
\<close>

datatype 'f Vertex = Vertex (Vertex_x: "'f option") (Vertex_y: "'f option") (Vertex_z: "'f option")

datatype Triangle = Triangle (Triangle_v0: "int option") (Triangle_v1: "int option")
  (Triangle_v2: "int option")

fun set_vertex_field :: "vertex_field \<Rightarrow> 'f \<Rightarrow> 'f Vertex \<Rightarrow> 'f Vertex" where
  "set_vertex_field X v (Vertex a b c) = Vertex (Some v) b c"
| "set_vertex_field Y v (Vertex a b c) = Vertex a (Some v) c"
| "set_vertex_field Z v (Vertex a b c) = Vertex a b (Some v)"

fun set_triangle_field :: "triangle_field \<Rightarrow> int \<Rightarrow> Triangle \<Rightarrow> Triangle" where
  "set_triangle_field V0 v (Triangle a b c) = Triangle (Some v) b c"
| "set_triangle_field V1 v (Triangle a b c) = Triangle a (Some v) c"
| "set_triangle_field V2 v (Triangle a b c) = Triangle a b (Some v)"

text \<open>
  The calls and writes that reach the scene, in the order they happen. The log is
  ghost state: no operation reads it. A geometry records the two counts as the C ints
  the builder passed.
\<close>

datatype event =
    NewTriangleMesh nat int int
  | MapBuffer nat buffer_kind
  | WriteBuffer nat buffer_kind nat
  | UnmapBuffer nat buffer_kind

record 'f geometry =
  numTriangles :: int
  numVertices :: int
  vertex_buffer :: "nat \<Rightarrow> 'f Vertex"
  index_buffer :: "nat \<Rightarrow> Triangle"
  mapped :: "buffer_kind \<Rightarrow> bool"

record 'f EmbreeScene =
  geom_count :: nat
  geoms :: "nat \<Rightarrow> 'f geometry"
  trace :: "event list"

text \<open>The three C attributes of a \<^verbatim>\<open>TriangleMesh\<close> object; zero until the builder sets them.\<close>

record TriangleMesh =
  self_vertices :: "pointer option"
  self_indices :: "pointer option"
  self_mesh :: nat

text \<open>
  What a constructor call can reach: the caller's two array objects, the scene, and the
  object under construction.
\<close>

record ('a, 'f) world =
  vertices_arg :: "'a ndarray"
  indices_arg :: "int ndarray option"
  scene :: "'f EmbreeScene"
  self :: TriangleMesh

definition log_event :: "event \<Rightarrow> ('a, 'f) world \<Rightarrow> ('a, 'f) world" where
  "log_event ev w = w\<lparr>scene := (scene w)\<lparr>trace := trace (scene w) @ [ev]\<rparr>\<rparr>"

definition upd_geom :: "nat \<Rightarrow> ('f geometry \<Rightarrow> 'f geometry) \<Rightarrow> ('a, 'f) world \<Rightarrow> ('a, 'f) world" where
  "upd_geom m f w = w\<lparr>scene := (scene w)\<lparr>geoms := (geoms (scene w))(m := f (geoms (scene w) m))\<rparr>\<rparr>"

definition the_geom :: "('a, 'f) world \<Rightarrow> nat \<Rightarrow> 'f geometry" where
  "the_geom w m = geoms (scene w) m"

definition new_geometry :: "int \<Rightarrow> int \<Rightarrow> 'f geometry" where
  "new_geometry nt nv =
     \<lparr>numTriangles = nt, numVertices = nv,
      vertex_buffer = (\<lambda>k. Vertex None None None),
      index_buffer = (\<lambda>k. Triangle None None None),
      mapped = (\<lambda>k. False)\<rparr>"

text \<open>
  Modelled from the spec: the scene's three operations, declared in
  \<^verbatim>\<open>rtcore_geometry.pxd\<close> and implemented by the ray-tracing engine, neither under
  \<^verbatim>\<open>src/\<close>. Allocation returns a handle not in use and a slot with the declared
  counts; acquiring a buffer returns a pointer to it; releasing publishes it.
\<close>

definition rtcNewTriangleMesh :: "int \<Rightarrow> int \<Rightarrow> ('a, 'f) world \<Rightarrow> nat \<times> ('a, 'f) world" where
  "rtcNewTriangleMesh nt nv w =
     (let m = geom_count (scene w);
          w1 = w\<lparr>scene := (scene w)\<lparr>geom_count := Suc m\<rparr>\<rparr>
      in (m, log_event (NewTriangleMesh m nt nv) (upd_geom m (\<lambda>g. new_geometry nt nv) w1)))"

definition rtcMapBuffer :: "nat \<Rightarrow> buffer_kind \<Rightarrow> ('a, 'f) world \<Rightarrow> pointer \<times> ('a, 'f) world" where
  "rtcMapBuffer m kind w =
     (BufferPtr m kind,
      log_event (MapBuffer m kind) (upd_geom m (\<lambda>g. g\<lparr>mapped := (mapped g)(kind := True)\<rparr>) w))"

definition rtcUnmapBuffer :: "nat \<Rightarrow> buffer_kind \<Rightarrow> ('a, 'f) world \<Rightarrow> ('a, 'f) world" where
  "rtcUnmapBuffer m kind w =
     log_event (UnmapBuffer m kind) (upd_geom m (\<lambda>g. g\<lparr>mapped := (mapped g)(kind := False)\<rparr>) w)"

subsection \<open>Statements\<close>

type_synonym 'w stmt = "'w \<Rightarrow> error option \<times> 'w"

definition seq :: "'w stmt \<Rightarrow> 'w stmt \<Rightarrow> 'w stmt" where
  "seq f g w = (case f w of (None, w') \<Rightarrow> g w' | (Some e, w') \<Rightarrow> (Some e, w'))"

fun block :: "'w stmt list \<Rightarrow> 'w stmt" where
  "block [] w = (None, w)"
| "block (f # fs) w = seq f (block fs) w"

definition call :: "('w \<Rightarrow> 'w) \<Rightarrow> 'w stmt" where
  "call f w = (None, f w)"

fun for_in :: "nat list \<Rightarrow> (nat \<Rightarrow> 'w stmt) \<Rightarrow> 'w stmt" where
  "for_in [] body w = (None, w)"
| "for_in (i # is) body w = seq (body i) (for_in is body) w"

text \<open>\<^verbatim>\<open>for i in range(n)\<close> with \<open>i\<close> and \<open>n\<close> C ints: no iteration when \<open>n \<le> 0\<close>.\<close>

definition for_range :: "int \<Rightarrow> (int \<Rightarrow> 'w stmt) \<Rightarrow> 'w stmt" where
  "for_range n body = for_in [0..<nat n] (\<lambda>i. body (int i))"

text \<open>Writes through a pointer returned by \<open>rtcMapBuffer\<close>: \<^verbatim>\<open>p[k].f = v\<close>.\<close>

definition write_vertex :: "pointer \<Rightarrow> int \<Rightarrow> vertex_field \<Rightarrow> 'f \<Rightarrow> ('a, 'f) world stmt" where
  "write_vertex p k f v w =
     (case p of BufferPtr m kind \<Rightarrow>
        if kind = RTC_VERTEX_BUFFER \<and> 0 \<le> k \<and> k < numVertices (the_geom w m)
        then (None, log_event (WriteBuffer m kind (nat k))
                (upd_geom m (\<lambda>g. g\<lparr>vertex_buffer :=
                   (vertex_buffer g)(nat k := set_vertex_field f v (vertex_buffer g (nat k)))\<rparr>) w))
        else (Some UndefinedBehaviour, w))"

definition write_triangle :: "pointer \<Rightarrow> int \<Rightarrow> triangle_field \<Rightarrow> int \<Rightarrow> ('a, 'f) world stmt" where
  "write_triangle p k f v w =
     (case p of BufferPtr m kind \<Rightarrow>
        if kind = RTC_INDEX_BUFFER \<and> 0 \<le> k \<and> k < numTriangles (the_geom w m)
        then (None, log_event (WriteBuffer m kind (nat k))
                (upd_geom m (\<lambda>g. g\<lparr>index_buffer :=
                   (index_buffer g)(nat k := set_triangle_field f v (index_buffer g (nat k)))\<rparr>) w))
        else (Some UndefinedBehaviour, w))"

text \<open>
  \<^verbatim>\<open>vertices[k].f = arr[idx]\<close>: the element is read, then converted to a C float, then
  stored. The read and the conversion can each raise; nothing is stored then.
\<close>

definition store_vertex ::
  "('a, 'f) conversion \<Rightarrow> pointer \<Rightarrow> int \<Rightarrow> vertex_field \<Rightarrow> int list \<Rightarrow> ('a, 'f) world stmt" where
  "store_vertex as_float p k f idx w =
     (case getitem (vertices_arg w) idx of
        Inl e \<Rightarrow> (Some e, w)
      | Inr v \<Rightarrow>
          (case as_float v of
             Inl e \<Rightarrow> (Some e, w)
           | Inr x \<Rightarrow> write_vertex p k f x w))"

text \<open>
  \<^verbatim>\<open>triangles[k].f = arr[i][n]\<close>, with \<open>arr\<close> the caller's index array: the element is
  read, then converted to a C int, then stored.
\<close>

definition store_triangle :: "pointer \<Rightarrow> int \<Rightarrow> triangle_field \<Rightarrow> int list \<Rightarrow> ('a, 'f) world stmt" where
  "store_triangle p k f idx w =
     (case indices_arg w of
        None \<Rightarrow> (Some TypeError, w)
      | Some arr \<Rightarrow>
          (case getitem arr idx of
             Inl e \<Rightarrow> (Some e, w)
           | Inr v \<Rightarrow>
               (case as_c_int v of
                  Inl e \<Rightarrow> (Some e, w)
                | Inr c \<Rightarrow> write_triangle p k f c w)))"

definition set_self :: "pointer \<Rightarrow> pointer \<Rightarrow> nat \<Rightarrow> ('a, 'f) world \<Rightarrow> ('a, 'f) world" where
  "set_self vertices triangles m w =
     w\<lparr>self := \<lparr>self_vertices = Some vertices, self_indices = Some triangles, self_mesh = m\<rparr>\<rparr>"

subsection \<open>TriangleMesh\<close>

text \<open>
  \<^verbatim>\<open>_build_from_flat(self, scene, tri_vertices)\<close>, lines 59 to 89. The first \<^verbatim>\<open>cdef int\<close>
  declarations and the allocation come before any loop; \<open>flat_vertex_fill\<close> and
  \<open>flat_index_fill\<close> are the two loops.
\<close>

definition flat_vertex_fill :: "('a, 'f) conversion \<Rightarrow> pointer \<Rightarrow> int \<Rightarrow> ('a, 'f) world stmt" where
  "flat_vertex_fill as_float vertices nt =
     for_range nt (\<lambda>i. for_range 3 (\<lambda>j. block [
       store_vertex as_float vertices (c_int (c_int (i * 3) + j)) X [i, j, 0],
       store_vertex as_float vertices (c_int (c_int (i * 3) + j)) Y [i, j, 1],
       store_vertex as_float vertices (c_int (c_int (i * 3) + j)) Z [i, j, 2]]))"

definition flat_index_fill :: "pointer \<Rightarrow> int \<Rightarrow> ('a, 'f) world stmt" where
  "flat_index_fill triangles nt =
     for_range nt (\<lambda>i. block [
       write_triangle triangles i V0 (c_int (c_int (i * 3) + 0)),
       write_triangle triangles i V1 (c_int (c_int (i * 3) + 1)),
       write_triangle triangles i V2 (c_int (c_int (i * 3) + 2))])"

definition build_from_flat :: "('a, 'f) conversion \<Rightarrow> ('a, 'f) world stmt" where
  "build_from_flat as_float w =
     (case shape_at (vertices_arg w) 0 of
        Inl e \<Rightarrow> (Some e, w)
      | Inr n0 \<Rightarrow>
          (let nt = c_int (int n0);
               (mesh, w1) = rtcNewTriangleMesh nt (c_int (nt * 3)) w;
               (vertices, w2) = rtcMapBuffer mesh RTC_VERTEX_BUFFER w1
           in seq (flat_vertex_fill as_float vertices nt)
               (seq (call (rtcUnmapBuffer mesh RTC_VERTEX_BUFFER))
                 (\<lambda>w4. let (triangles, w5) = rtcMapBuffer mesh RTC_INDEX_BUFFER w4
                       in block [
                            flat_index_fill triangles nt,
                            call (rtcUnmapBuffer mesh RTC_INDEX_BUFFER),
                            call (set_self vertices triangles mesh)] w5)) w2))"

text \<open>
  The vertex loop shared, statement for statement, by \<^verbatim>\<open>_build_from_indices\<close> (lines
  106 to 109), \<^verbatim>\<open>_build_from_quads\<close> (189 to 192) and \<^verbatim>\<open>_build_from_triangles\<close>
  (271 to 274).
\<close>

definition copy_vertices :: "('a, 'f) conversion \<Rightarrow> pointer \<Rightarrow> int \<Rightarrow> ('a, 'f) world stmt" where
  "copy_vertices as_float vertices nv =
     for_range nv (\<lambda>i. block [
       store_vertex as_float vertices i X [i, 0],
       store_vertex as_float vertices i Y [i, 1],
       store_vertex as_float vertices i Z [i, 2]])"

text \<open>\<^verbatim>\<open>_build_from_indices(self, scene, tri_vertices, tri_indices)\<close>, lines 91 to 125.\<close>

definition indices_index_fill :: "pointer \<Rightarrow> int \<Rightarrow> ('a, 'f) world stmt" where
  "indices_index_fill triangles nt =
     for_range nt (\<lambda>i. block [
       store_triangle triangles i V0 [i, 0],
       store_triangle triangles i V1 [i, 1],
       store_triangle triangles i V2 [i, 2]])"

text \<open>
  The three builders that take an index array differ in the triangle count they
  declare and in the loop that fills the index buffer: \<open>build_indexed\<close> is their common
  frame, with the count \<open>count ne\<close> and the loop \<open>fill\<close> as it stands in each.
\<close>

definition build_indexed ::
  "('a, 'f) conversion \<Rightarrow> (int \<Rightarrow> int) \<Rightarrow> (pointer \<Rightarrow> int \<Rightarrow> ('a, 'f) world stmt)
     \<Rightarrow> ('a, 'f) world stmt" where
  "build_indexed as_float count fill w =
     (case shape_at (vertices_arg w) 0 of
        Inl e \<Rightarrow> (Some e, w)
      | Inr n0 \<Rightarrow>
          (case indices_arg w of
             None \<Rightarrow> (Some UndefinedBehaviour, w)
           | Some arr \<Rightarrow>
               (case shape_at arr 0 of
                  Inl e \<Rightarrow> (Some e, w)
                | Inr n1 \<Rightarrow>
                    (let nv = c_int (int n0);
                         ne = c_int (int n1);
                         nt = count ne;
                         (mesh, w1) = rtcNewTriangleMesh nt nv w;
                         (vertices, w2) = rtcMapBuffer mesh RTC_VERTEX_BUFFER w1
                     in seq (copy_vertices as_float vertices nv)
                         (seq (call (rtcUnmapBuffer mesh RTC_VERTEX_BUFFER))
                           (\<lambda>w4. let (triangles, w5) = rtcMapBuffer mesh RTC_INDEX_BUFFER w4
                                 in block [
                                      fill triangles ne,
                                      call (rtcUnmapBuffer mesh RTC_INDEX_BUFFER),
                                      call (set_self vertices triangles mesh)] w5)) w2))))"

definition build_from_indices :: "('a, 'f) conversion \<Rightarrow> ('a, 'f) world stmt" where
  "build_from_indices as_float = build_indexed as_float (\<lambda>nt. nt) indices_index_fill"

text \<open>\<^verbatim>\<open>TriangleMesh.__init__(self, scene, vertices, indices = None)\<close>, lines 50 to 57.\<close>

definition TriangleMesh_init :: "('a, 'f) conversion \<Rightarrow> ('a, 'f) world stmt" where
  "TriangleMesh_init as_float w =
     (case indices_arg w of
        None \<Rightarrow> build_from_flat as_float w
      | Some arr \<Rightarrow> build_from_indices as_float w)"

subsection \<open>ElementMesh\<close>

text \<open>
  \<^verbatim>\<open>_build_from_quads\<close>, lines 171 to 252: \<^verbatim>\<open>j = 12*i\<close>, then thirty-six assignments in
  the order of the source.
\<close>

definition quads_index_fill :: "pointer \<Rightarrow> int \<Rightarrow> ('a, 'f) world stmt" where
  "quads_index_fill triangles ne =
     for_range ne (\<lambda>i. let j = c_int (12 * i) in block [
       store_triangle triangles j V0 [i, 0],
       store_triangle triangles j V1 [i, 1],
       store_triangle triangles j V2 [i, 2],
       store_triangle triangles (c_int (j + 1)) V0 [i, 0],
       store_triangle triangles (c_int (j + 1)) V1 [i, 2],
       store_triangle triangles (c_int (j + 1)) V2 [i, 3],
       store_triangle triangles (c_int (j + 2)) V0 [i, 4],
       store_triangle triangles (c_int (j + 2)) V1 [i, 5],
       store_triangle triangles (c_int (j + 2)) V2 [i, 6],
       store_triangle triangles (c_int (j + 3)) V0 [i, 4],
       store_triangle triangles (c_int (j + 3)) V1 [i, 6],
       store_triangle triangles (c_int (j + 3)) V2 [i, 7],
       store_triangle triangles (c_int (j + 4)) V0 [i, 0],
       store_triangle triangles (c_int (j + 4)) V1 [i, 1],
       store_triangle triangles (c_int (j + 4)) V2 [i, 5],
       store_triangle triangles (c_int (j + 5)) V0 [i, 0],
       store_triangle triangles (c_int (j + 5)) V1 [i, 5],
       store_triangle triangles (c_int (j + 5)) V2 [i, 4],
       store_triangle triangles (c_int (j + 6)) V0 [i, 1],
       store_triangle triangles (c_int (j + 6)) V1 [i, 2],
       store_triangle triangles (c_int (j + 6)) V2 [i, 6],
       store_triangle triangles (c_int (j + 7)) V0 [i, 1],
       store_triangle triangles (c_int (j + 7)) V1 [i, 6],
       store_triangle triangles (c_int (j + 7)) V2 [i, 5],
       store_triangle triangles (c_int (j + 8)) V0 [i, 0],
       store_triangle triangles (c_int (j + 8)) V1 [i, 3],
       store_triangle triangles (c_int (j + 8)) V2 [i, 7],
       store_triangle triangles (c_int (j + 9)) V0 [i, 0],
       store_triangle triangles (c_int (j + 9)) V1 [i, 7],
       store_triangle triangles (c_int (j + 9)) V2 [i, 4],
       store_triangle triangles (c_int (j + 10)) V0 [i, 3],
       store_triangle triangles (c_int (j + 10)) V1 [i, 2],
       store_triangle triangles (c_int (j + 10)) V2 [i, 6],
       store_triangle triangles (c_int (j + 11)) V0 [i, 3],
       store_triangle triangles (c_int (j + 11)) V1 [i, 6],
       store_triangle triangles (c_int (j + 11)) V2 [i, 7]])"

definition build_from_quads :: "('a, 'f) conversion \<Rightarrow> ('a, 'f) world stmt" where
  "build_from_quads as_float =
     build_indexed as_float (\<lambda>ne. c_int (c_int (6 * 2) * ne)) quads_index_fill"

text \<open>\<^verbatim>\<open>_build_from_triangles\<close>, lines 254 to 302: \<^verbatim>\<open>j = 4*i\<close>, then twelve assignments.\<close>

definition triangles_index_fill :: "pointer \<Rightarrow> int \<Rightarrow> ('a, 'f) world stmt" where
  "triangles_index_fill triangles ne =
     for_range ne (\<lambda>i. let j = c_int (4 * i) in block [
       store_triangle triangles j V0 [i, 0],
       store_triangle triangles j V1 [i, 1],
       store_triangle triangles j V2 [i, 2],
       store_triangle triangles (c_int (j + 1)) V0 [i, 0],
       store_triangle triangles (c_int (j + 1)) V1 [i, 1],
       store_triangle triangles (c_int (j + 1)) V2 [i, 3],
       store_triangle triangles (c_int (j + 2)) V0 [i, 0],
       store_triangle triangles (c_int (j + 2)) V1 [i, 2],
       store_triangle triangles (c_int (j + 2)) V2 [i, 3],
       store_triangle triangles (c_int (j + 3)) V0 [i, 1],
       store_triangle triangles (c_int (j + 3)) V1 [i, 2],
       store_triangle triangles (c_int (j + 3)) V2 [i, 3]])"

definition build_from_triangles :: "('a, 'f) conversion \<Rightarrow> ('a, 'f) world stmt" where
  "build_from_triangles as_float = build_indexed as_float (\<lambda>ne. c_int (4 * ne)) triangles_index_fill"

text \<open>
  \<^verbatim>\<open>ElementMesh.__init__(self, scene, vertices, indices)\<close>, lines 158 to 169. The test
  reads \<^verbatim>\<open>indices.shape[1]\<close> before anything else.
\<close>

definition ElementMesh_init :: "('a, 'f) conversion \<Rightarrow> ('a, 'f) world stmt" where
  "ElementMesh_init as_float w =
     (case indices_arg w of
        None \<Rightarrow> (Some UndefinedBehaviour, w)
      | Some arr \<Rightarrow>
          (case shape_at arr 1 of
             Inl e \<Rightarrow> (Some e, w)
           | Inr d \<Rightarrow>
               if d = 8 then build_from_quads as_float w
               else if d = 4 then build_from_triangles as_float w
               else (Some NotImplementedError, w)))"

section \<open>Definitions for the statements and their proofs\<close>

subsection \<open>States and logs in closed form\<close>

text \<open>\<open>fill_world m f evs w\<close> is \<open>w\<close> with geometry \<open>m\<close> changed by \<open>f\<close> and the log extended
  by \<open>evs\<close>: every state between the allocation and the return has this form.\<close>

definition fill_world :: "nat \<Rightarrow> ('f geometry \<Rightarrow> 'f geometry) \<Rightarrow> event list \<Rightarrow> ('a, 'f) world \<Rightarrow> ('a, 'f) world" where
  "fill_world m f evs w =
     w\<lparr>scene := (scene w)\<lparr>geoms := (geoms (scene w))(m := f (geoms (scene w) m)),
                          trace := trace (scene w) @ evs\<rparr>\<rparr>"

text \<open>The multi-indices inside a shape, in row-major order. \<open>converted cv a b\<close>: every
  element of \<open>a\<close> converts without error, to the element of \<open>b\<close> at the same index, so
  that \<open>b\<close> holds what the buffer fields receive.\<close>

fun indices_of :: "nat list \<Rightarrow> nat list list" where
  "indices_of [] = [[]]"
| "indices_of (n # ns) = concat (map (\<lambda>k. map ((#) k) (indices_of ns)) [0..<n])"

definition converted :: "('a, 'f) conversion \<Rightarrow> 'a ndarray \<Rightarrow> 'f ndarray \<Rightarrow> bool" where
  "converted cv a b = list_all (\<lambda>ks. cv (item a ks) = Inr (item b ks)) (indices_of (shape a))"

text \<open>Row \<open>i\<close> of a converted vertex array as a vertex; a geometry whose first \<open>n\<close> vertex
  slots hold its first \<open>n\<close> rows; the log of \<open>c\<close> writes to each of the slots
  \<open>0, \<dots>, n - 1\<close> in turn.\<close>

definition vertex_row :: "'f ndarray \<Rightarrow> nat \<Rightarrow> 'f Vertex" where
  "vertex_row a i = Vertex (Some (item a [i, 0])) (Some (item a [i, 1])) (Some (item a [i, 2]))"

definition copied_vertices :: "'f ndarray \<Rightarrow> nat \<Rightarrow> 'f geometry \<Rightarrow> 'f geometry" where
  "copied_vertices a n g =
     g\<lparr>vertex_buffer := (\<lambda>k. if k < n then vertex_row a k else vertex_buffer g k)\<rparr>"

definition writes :: "nat \<Rightarrow> buffer_kind \<Rightarrow> nat \<Rightarrow> nat \<Rightarrow> event list" where
  "writes m kind c n = concat (map (\<lambda>k. replicate c (WriteBuffer m kind k)) [0..<n])"

text \<open>Entry \<open>k\<close> of a table of local index triples, mapped through row \<open>e\<close> of an index
  array.\<close>

definition table_triangle :: "int ndarray \<Rightarrow> (nat \<times> nat \<times> nat) list \<Rightarrow> nat \<Rightarrow> nat \<Rightarrow> Triangle" where
  "table_triangle arr tbl e k =
     (case tbl ! k of (a, b, c) \<Rightarrow>
        Triangle (Some (item arr [e, a])) (Some (item arr [e, b])) (Some (item arr [e, c])))"

definition set_tri :: "nat \<Rightarrow> Triangle \<Rightarrow> 'f geometry \<Rightarrow> 'f geometry" where
  "set_tri s t g = g\<lparr>index_buffer := (index_buffer g)(s := t)\<rparr>"

text \<open>A geometry whose first \<open>n\<close> index slots hold, element after element, the entries of
  a table mapped through the rows of the index array.\<close>

definition filled_triangles ::
  "int ndarray \<Rightarrow> (nat \<times> nat \<times> nat) list \<Rightarrow> nat \<Rightarrow> 'f geometry \<Rightarrow> 'f geometry" where
  "filled_triangles arr tbl n g =
     g\<lparr>index_buffer := (\<lambda>s. if s < n
          then table_triangle arr tbl (s div length tbl) (s mod length tbl)
          else index_buffer g s)\<rparr>"

text \<open>The statements a table stands for: one entry gives the three assignments to one
  slot, the table gives them for the slots of element \<open>i\<close>.\<close>

definition triple :: "pointer \<Rightarrow> int \<Rightarrow> int \<Rightarrow> nat \<times> nat \<times> nat \<Rightarrow> ('a, 'f) world stmt list" where
  "triple p k i abc = (case abc of (a, b, c) \<Rightarrow>
     [store_triangle p k V0 [i, int a], store_triangle p k V1 [i, int b],
      store_triangle p k V2 [i, int c]])"

definition table_stmts :: "pointer \<Rightarrow> (nat \<times> nat \<times> nat) list \<Rightarrow> nat \<Rightarrow> ('a, 'f) world stmt list" where
  "table_stmts p tbl i =
     concat (map (\<lambda>r. triple p (int (length tbl * i + r)) (int i) (tbl ! r)) [0..<length tbl])"

definition table_ok :: "(nat \<times> nat \<times> nat) list \<Rightarrow> nat \<Rightarrow> bool" where
  "table_ok tbl d = list_all (\<lambda>(a, b, c). a < d \<and> b < d \<and> c < d) tbl"

text \<open>
  The tables as the specification words them: the twelve triangles of a hexahedron
  (two per face, in the order of its section 4.2), the four faces of a tetrahedron, and
  the one triangle of an index row.
\<close>

definition hex_table :: "(nat \<times> nat \<times> nat) list" where
  "hex_table = [(0,1,2), (0,2,3), (4,5,6), (4,6,7), (0,1,5), (0,5,4),
                (1,2,6), (1,6,5), (0,3,7), (0,7,4), (3,2,6), (3,6,7)]"

definition tet_table :: "(nat \<times> nat \<times> nat) list" where
  "tet_table = [(0,1,2), (0,1,3), (0,2,3), (1,2,3)]"

definition tri_table :: "(nat \<times> nat \<times> nat) list" where
  "tri_table = [(0,1,2)]"

text \<open>The state in which the next handle has been handed out.\<close>

definition bump :: "('a, 'f) world \<Rightarrow> ('a, 'f) world" where
  "bump w = w\<lparr>scene := (scene w)\<lparr>geom_count := Suc (geom_count (scene w))\<rparr>\<rparr>"

text \<open>The state a successful builder leaves: one more geometry, the log extended, the
  object's three attributes set.\<close>

definition built :: "('a, 'f) world \<Rightarrow> 'f geometry \<Rightarrow> event list \<Rightarrow> ('a, 'f) world" where
  "built w g evs =
     w\<lparr>scene := (scene w)\<lparr>geom_count := Suc (geom_count (scene w)),
                          geoms := (geoms (scene w))(geom_count (scene w) := g),
                          trace := trace (scene w) @ evs\<rparr>,
       self := \<lparr>self_vertices = Some (BufferPtr (geom_count (scene w)) RTC_VERTEX_BUFFER),
                self_indices = Some (BufferPtr (geom_count (scene w)) RTC_INDEX_BUFFER),
                self_mesh = geom_count (scene w)\<rparr>\<rparr>"

text \<open>The log of a successful builder that wrote \<open>vslots\<close> vertex slots and \<open>islots\<close> index
  slots, three fields each.\<close>

definition protocol_trace :: "nat \<Rightarrow> int \<Rightarrow> int \<Rightarrow> nat \<Rightarrow> nat \<Rightarrow> event list" where
  "protocol_trace m nt nv vslots islots =
     [NewTriangleMesh m nt nv, MapBuffer m RTC_VERTEX_BUFFER]
     @ writes m RTC_VERTEX_BUFFER 3 vslots
     @ [UnmapBuffer m RTC_VERTEX_BUFFER, MapBuffer m RTC_INDEX_BUFFER]
     @ writes m RTC_INDEX_BUFFER 3 islots
     @ [UnmapBuffer m RTC_INDEX_BUFFER]"

text \<open>The buffers of the flat path: vertex slot \<open>s\<close> is corner \<open>s mod 3\<close> of triangle
  \<open>s div 3\<close> of the converted array, index slot \<open>s\<close> is \<open>(3 s, 3 s + 1, 3 s + 2)\<close>.\<close>

definition flat_vertex :: "'f ndarray \<Rightarrow> nat \<Rightarrow> 'f Vertex" where
  "flat_vertex a s =
     Vertex (Some (item a [s div 3, s mod 3, 0])) (Some (item a [s div 3, s mod 3, 1]))
       (Some (item a [s div 3, s mod 3, 2]))"

definition flat_vertices :: "'f ndarray \<Rightarrow> nat \<Rightarrow> 'f geometry \<Rightarrow> 'f geometry" where
  "flat_vertices a n g =
     g\<lparr>vertex_buffer := (\<lambda>s. if s < n then flat_vertex a s else vertex_buffer g s)\<rparr>"

definition flat_triangle :: "nat \<Rightarrow> Triangle" where
  "flat_triangle s = Triangle (Some (int (3 * s))) (Some (int (3 * s + 1))) (Some (int (3 * s + 2)))"

definition flat_triangles :: "nat \<Rightarrow> 'f geometry \<Rightarrow> 'f geometry" where
  "flat_triangles n g =
     g\<lparr>index_buffer := (\<lambda>s. if s < n then flat_triangle s else index_buffer g s)\<rparr>"

text \<open>The geometry the three builders with an index array leave on an input of the
  documented shape whose counts fit a C int and whose elements convert: \<open>va\<close> is the
  converted vertex array.\<close>

definition mesh_geometry ::
  "'f ndarray \<Rightarrow> int ndarray \<Rightarrow> (nat \<times> nat \<times> nat) list \<Rightarrow> nat \<Rightarrow> nat \<Rightarrow> 'f geometry" where
  "mesh_geometry va arr tbl nv ne =
     filled_triangles arr tbl (length tbl * ne)
       (copied_vertices va nv (new_geometry (int (length tbl * ne)) (int nv)))"

subsection \<open>Observations of a run\<close>

text \<open>The handle the next allocation returns, and the events a run added to the log.\<close>

definition new_mesh :: "('a, 'f) world \<Rightarrow> nat" where
  "new_mesh w = geom_count (scene w)"

definition new_events :: "('a, 'f) world \<Rightarrow> ('a, 'f) world \<Rightarrow> event list" where
  "new_events w w' = drop (length (trace (scene w))) (trace (scene w'))"

subsection \<open>Runs that fail as well as runs that succeed\<close>

text \<open>What a statement leaves unchanged: \<open>stable R st\<close> when \<open>R\<close> relates the state before
  \<open>st\<close> to the state after it, whether \<open>st\<close> ends normally or raises.\<close>

definition stable :: "('w \<Rightarrow> 'w \<Rightarrow> bool) \<Rightarrow> 'w stmt \<Rightarrow> bool" where
  "stable R st = (\<forall>w. R w (snd (st w)))"

text \<open>What a fill loop through a pointer to buffer \<open>kind\<close> of geometry \<open>m\<close> can change: that
  buffer, and the log, which grows by writes to that buffer only.\<close>

fun is_write :: "nat \<Rightarrow> buffer_kind \<Rightarrow> event \<Rightarrow> bool" where
  "is_write m kind (WriteBuffer m' kind' s) = (m' = m \<and> kind' = kind)"
| "is_write m kind (NewTriangleMesh m' nt nv) = False"
| "is_write m kind (MapBuffer m' kind') = False"
| "is_write m kind (UnmapBuffer m' kind') = False"

fun other_buffer_kept :: "buffer_kind \<Rightarrow> 'f geometry \<Rightarrow> 'f geometry \<Rightarrow> bool" where
  "other_buffer_kept RTC_VERTEX_BUFFER g g' = (index_buffer g' = index_buffer g)"
| "other_buffer_kept RTC_INDEX_BUFFER g g' = (vertex_buffer g' = vertex_buffer g)"

definition fill_only :: "nat \<Rightarrow> buffer_kind \<Rightarrow> ('a, 'f) world \<Rightarrow> ('a, 'f) world \<Rightarrow> bool" where
  "fill_only m kind w w' =
     (vertices_arg w' = vertices_arg w \<and> indices_arg w' = indices_arg w \<and> self w' = self w
      \<and> geom_count (scene w') = geom_count (scene w)
      \<and> numTriangles (the_geom w' m) = numTriangles (the_geom w m)
      \<and> numVertices (the_geom w' m) = numVertices (the_geom w m)
      \<and> mapped (the_geom w' m) = mapped (the_geom w m)
      \<and> other_buffer_kept kind (the_geom w m) (the_geom w' m)
      \<and> (\<exists>ws. trace (scene w') = trace (scene w) @ ws \<and> list_all (is_write m kind) ws))"

text \<open>The frame every builder has around its two fill loops, as the list of its steps.\<close>

definition frame ::
  "nat \<Rightarrow> int \<Rightarrow> int \<Rightarrow> (pointer \<Rightarrow> ('a, 'f) world stmt) \<Rightarrow> (pointer \<Rightarrow> ('a, 'f) world stmt) \<Rightarrow> ('a, 'f) world stmt list" where
  "frame m nt nv vfill ifill =
     [call (\<lambda>w. snd (rtcNewTriangleMesh nt nv w)),
      call (\<lambda>w. snd (rtcMapBuffer m RTC_VERTEX_BUFFER w)),
      vfill (BufferPtr m RTC_VERTEX_BUFFER),
      call (rtcUnmapBuffer m RTC_VERTEX_BUFFER),
      call (\<lambda>w. snd (rtcMapBuffer m RTC_INDEX_BUFFER w)),
      ifill (BufferPtr m RTC_INDEX_BUFFER),
      call (rtcUnmapBuffer m RTC_INDEX_BUFFER),
      call (set_self (BufferPtr m RTC_VERTEX_BUFFER) (BufferPtr m RTC_INDEX_BUFFER) m)]"

definition vertex_phase :: "nat \<Rightarrow> int \<Rightarrow> int \<Rightarrow> event list \<Rightarrow> event list" where
  "vertex_phase m nt nv ws1 = [NewTriangleMesh m nt nv, MapBuffer m RTC_VERTEX_BUFFER] @ ws1"

definition index_phase :: "nat \<Rightarrow> int \<Rightarrow> int \<Rightarrow> event list \<Rightarrow> event list \<Rightarrow> event list" where
  "index_phase m nt nv ws1 ws2 =
     vertex_phase m nt nv ws1 @ [UnmapBuffer m RTC_VERTEX_BUFFER, MapBuffer m RTC_INDEX_BUFFER] @ ws2"

definition finished :: "nat \<Rightarrow> int \<Rightarrow> int \<Rightarrow> event list \<Rightarrow> event list \<Rightarrow> event list" where
  "finished m nt nv ws1 ws2 = index_phase m nt nv ws1 ws2 @ [UnmapBuffer m RTC_INDEX_BUFFER]"

text \<open>How a run of the frame can end: after the last step, or with an error raised by the
  vertex fill or by the index fill.\<close>

definition frame_end ::
  "nat \<Rightarrow> int \<Rightarrow> int \<Rightarrow> error option \<Rightarrow> event list \<Rightarrow> (buffer_kind \<Rightarrow> bool) \<Rightarrow> bool" where
  "frame_end m nt nv r evs mp =
     (\<exists>ws1 ws2. list_all (is_write m RTC_VERTEX_BUFFER) ws1
        \<and> list_all (is_write m RTC_INDEX_BUFFER) ws2
        \<and> (case r of
             None \<Rightarrow> evs = finished m nt nv ws1 ws2 \<and> mp = (\<lambda>k. False)
           | Some e \<Rightarrow>
               evs = vertex_phase m nt nv ws1 \<and> mp = (\<lambda>k. k = RTC_VERTEX_BUFFER)
               \<or> evs = index_phase m nt nv ws1 ws2 \<and> mp = (\<lambda>k. k = RTC_INDEX_BUFFER)))"








text \<open>A run of a constructor that got as far as the allocation.\<close>

definition allocated_run :: "('a, 'f) world \<Rightarrow> error option \<Rightarrow> ('a, 'f) world \<Rightarrow> bool" where
  "allocated_run w r w' =
     (vertices_arg w' = vertices_arg w \<and> indices_arg w' = indices_arg w
      \<and> geom_count (scene w') = Suc (new_mesh w)
      \<and> frame_end (new_mesh w) (numTriangles (the_geom w' (new_mesh w)))
           (numVertices (the_geom w' (new_mesh w))) r (new_events w w')
           (mapped (the_geom w' (new_mesh w))))"

text \<open>What a constructor looks at before its builder allocates: the dimensions it reads
  (lines 62, 95 and 96, 164 and 166, 176 and 177, 259 and 260) must exist, and ElementMesh
  must support the arity.\<close>

definition dims_exist :: "('a, 'f) world \<Rightarrow> bool" where
  "dims_exist w =
     (shape (vertices_arg w) \<noteq> []
      \<and> (case indices_arg w of None \<Rightarrow> True | Some arr \<Rightarrow> shape arr \<noteq> []))"

definition arity_supported :: "('a, 'f) world \<Rightarrow> bool" where
  "arity_supported w =
     (case indices_arg w of
        None \<Rightarrow> False
      | Some arr \<Rightarrow> 1 < length (shape arr) \<and> (shape arr ! 1 = 8 \<or> shape arr ! 1 = 4))"

text \<open>The four construction paths, the constructor each goes through, and the inputs each
  documents: the shapes of the docstrings, with counts that fit a C int and elements that
  convert to the C type of the field they are assigned to.\<close>

datatype path = Flat | Indexed | Hexahedral | Tetrahedral

fun constructor_of :: "('a, 'f) conversion \<Rightarrow> path \<Rightarrow> ('a, 'f) world stmt" where
  "constructor_of cv Flat = TriangleMesh_init cv"
| "constructor_of cv Indexed = TriangleMesh_init cv"
| "constructor_of cv Hexahedral = ElementMesh_init cv"
| "constructor_of cv Tetrahedral = ElementMesh_init cv"



definition all_convert :: "('a, 'f) conversion \<Rightarrow> 'a ndarray \<Rightarrow> bool" where
  "all_convert cv a = list_all (\<lambda>ks. \<not> isl (cv (item a ks))) (indices_of (shape a))"






text \<open>Every slot of both buffers of geometry \<open>m\<close>, and no other, was written, and every
  field of every slot holds a value.\<close>

fun vertex_set :: "'f Vertex \<Rightarrow> bool" where
  "vertex_set (Vertex x y z) = (x \<noteq> None \<and> y \<noteq> None \<and> z \<noteq> None)"

fun triangle_set :: "Triangle \<Rightarrow> bool" where
  "triangle_set (Triangle a b c) = (a \<noteq> None \<and> b \<noteq> None \<and> c \<noteq> None)"


subsection \<open>Concrete inputs\<close>

text \<open>A call on a scene that holds nothing yet.\<close>

definition fresh_scene :: "'f EmbreeScene" where
  "fresh_scene = \<lparr>geom_count = 0, geoms = (\<lambda>m. new_geometry 0 0), trace = []\<rparr>"

definition new_self :: TriangleMesh where
  "new_self = \<lparr>self_vertices = None, self_indices = None, self_mesh = 0\<rparr>"

definition construct :: "'a ndarray \<Rightarrow> int ndarray option \<Rightarrow> ('a, 'f) world" where
  "construct va ia = \<lparr>vertices_arg = va, indices_arg = ia, scene = fresh_scene, self = new_self\<rparr>"

text \<open>Element \<open>[i, j]\<close> of \<open>grid rows cols\<close> is \<open>10 i + j\<close>; element \<open>[i, j, k]\<close> of
  \<open>soup n\<close> is \<open>100 i + 10 j + k\<close>; row \<open>i\<close> of \<open>index_rows n d\<close> is \<open>i, i + 1, \<dots>\<close>.\<close>

definition grid :: "nat \<Rightarrow> nat \<Rightarrow> int ndarray" where
  "grid n d = \<lparr>shape = [n, d], item = (\<lambda>idx. 10 * int (idx ! 0) + int (idx ! 1))\<rparr>"

definition soup :: "nat \<Rightarrow> nat \<Rightarrow> int ndarray" where
  "soup n c = \<lparr>shape = [n, c, 3],
     item = (\<lambda>idx. 100 * int (idx ! 0) + 10 * int (idx ! 1) + int (idx ! 2))\<rparr>"

definition index_rows :: "nat \<Rightarrow> nat \<Rightarrow> int ndarray" where
  "index_rows n d = \<lparr>shape = [n, d], item = (\<lambda>idx. int (idx ! 0) + int (idx ! 1))\<rparr>"

text \<open>An array given by its rows, and one given by its planes of rows.\<close>

definition array2 :: "'a list list \<Rightarrow> 'a ndarray" where
  "array2 rs = \<lparr>shape = [length rs, length (hd rs)], item = (\<lambda>idx. rs ! (idx ! 0) ! (idx ! 1))\<rparr>"

definition array3 :: "'a list list list \<Rightarrow> 'a ndarray" where
  "array3 ps =
     \<lparr>shape = [length ps, length (hd ps), length (hd (hd ps))],
      item = (\<lambda>idx. ps ! (idx ! 0) ! (idx ! 1) ! (idx ! 2))\<rparr>"

text \<open>The conversion to a C float on the elements of an array of integers (dtype int64):
  the integer goes to a C double, which is narrowed to a float, and each of the two steps
  rounds to the nearest value of its format, ties to even. \<open>round_to p\<close> rounds to \<open>p\<close>
  significant bits; a double has 53, a float 24. An int64 is below \<open>2\<^sup>6\<^sup>3\<close> in
  magnitude, inside the range of both formats, and the conversion of a number cannot
  raise.\<close>

function bit_length :: "int \<Rightarrow> nat" where
  "bit_length n = (if n \<le> 0 then 0 else Suc (bit_length (n div 2)))"
  by auto

termination bit_length
  by (relation "measure nat") auto

definition round_to :: "nat \<Rightarrow> int \<Rightarrow> int" where
  "round_to p v =
     (let a = \<bar>v\<bar>; e = bit_length a - p; q = a div 2 ^ e; r = a mod 2 ^ e
      in sgn v * ((if 2 ^ e < 2 * r \<or> (2 * r = 2 ^ e \<and> odd q) then q + 1 else q) * 2 ^ e))"

definition single_of_int :: "(int, int) conversion" where
  "single_of_int v = Inr (round_to 24 (round_to 53 v))"

declare bit_length.simps [simp del]

subsection \<open>Two runs\<close>

text \<open>Two arrays are equal as arrays when they have the same shape and the same element
  at every index inside the shape.\<close>

definition same_array :: "'a ndarray \<Rightarrow> 'a ndarray \<Rightarrow> bool" where
  "same_array a b = (shape a = shape b \<and> (\<forall>idx. list_all2 (<) idx (shape a) \<longrightarrow> item a idx = item b idx))"

text \<open>Two runs agree on a statement, for a relation on states, when from related states it
  ends the same way in related states.\<close>

definition agree :: "('w \<Rightarrow> 'w \<Rightarrow> bool) \<Rightarrow> 'w stmt \<Rightarrow> bool" where
  "agree R st = (\<forall>w1 w2. R w1 w2 \<longrightarrow> fst (st w1) = fst (st w2) \<and> R (snd (st w1)) (snd (st w2)))"

text \<open>States of two runs that fill geometry \<open>m\<close>: equal arrays, equal geometry.\<close>

definition same_run :: "nat \<Rightarrow> ('a, 'f) world \<Rightarrow> ('a, 'f) world \<Rightarrow> bool" where
  "same_run m w1 w2 =
     (same_array (vertices_arg w1) (vertices_arg w2)
      \<and> rel_option same_array (indices_arg w1) (indices_arg w2)
      \<and> the_geom w1 m = the_geom w2 m)"

text \<open>The slot a construction allocated, if it allocated one.\<close>

definition allocated_slot :: "('a, 'f) world \<Rightarrow> ('a, 'f) world \<Rightarrow> 'f geometry option" where
  "allocated_slot w w' =
     (if geom_count (scene w') = geom_count (scene w) then None
      else Some (the_geom w' (new_mesh w)))"

text \<open>States two constructions start in: equal arrays, the same next handle.\<close>

definition same_inputs :: "('a, 'f) world \<Rightarrow> ('a, 'f) world \<Rightarrow> bool" where
  "same_inputs w1 w2 =
     (same_array (vertices_arg w1) (vertices_arg w2)
      \<and> rel_option same_array (indices_arg w1) (indices_arg w2)
      \<and> new_mesh w1 = new_mesh w2)"

text \<open>The same array over other memory: what lies outside the shape is different. The same
  call on another scene: other geometries, another log, another object, the same next
  handle.\<close>

definition padded :: "int ndarray \<Rightarrow> int ndarray" where
  "padded a = a\<lparr>item := (\<lambda>idx. if list_all2 (<) idx (shape a) then item a idx else - 1)\<rparr>"

definition construct_elsewhere :: "'a ndarray \<Rightarrow> int ndarray option \<Rightarrow> ('a, 'f) world" where
  "construct_elsewhere va ia =
     \<lparr>vertices_arg = va, indices_arg = ia,
      scene = \<lparr>geom_count = 0, geoms = (\<lambda>m. new_geometry 5 5),
               trace = [UnmapBuffer 7 RTC_INDEX_BUFFER]\<rparr>,
      self = \<lparr>self_vertices = None, self_indices = None, self_mesh = 3\<rparr>\<rparr>"

section \<open>Lemmas\<close>

subsection \<open>Statements and loops\<close>

lemma c_int_id: "- (2 ^ 31) \<le> v \<Longrightarrow> v < 2 ^ 31 \<Longrightarrow> c_int v = v"
  by (simp add: c_int_def)

lemma log_event_simps [simp]:
  "vertices_arg (log_event ev w) = vertices_arg w"
  "indices_arg (log_event ev w) = indices_arg w"
  "self (log_event ev w) = self w"
  "geom_count (scene (log_event ev w)) = geom_count (scene w)"
  "geoms (scene (log_event ev w)) = geoms (scene w)"
  "trace (scene (log_event ev w)) = trace (scene w) @ [ev]"
  "the_geom (log_event ev w) m = the_geom w m"
  by (simp_all add: log_event_def the_geom_def)

lemma upd_geom_simps [simp]:
  "vertices_arg (upd_geom m f w) = vertices_arg w"
  "indices_arg (upd_geom m f w) = indices_arg w"
  "self (upd_geom m f w) = self w"
  "geom_count (scene (upd_geom m f w)) = geom_count (scene w)"
  "trace (scene (upd_geom m f w)) = trace (scene w)"
  "the_geom (upd_geom m f w) m' = (if m' = m then f (the_geom w m) else the_geom w m')"
  by (simp_all add: upd_geom_def the_geom_def)

lemma seq_None [simp]: "f w = (None, w') \<Longrightarrow> seq f g w = g w'"
  by (simp add: seq_def)

lemma seq_Some [simp]: "f w = (Some e, w') \<Longrightarrow> seq f g w = (Some e, w')"
  by (simp add: seq_def)

lemma for_in_append:
  "for_in (xs @ ys) body w = seq (for_in xs body) (for_in ys body) w"
  by (induction xs arbitrary: w) (auto simp: seq_def split: prod.splits option.splits)

lemma for_in_closed:
  assumes "\<And>k. k < n \<Longrightarrow> body k (E k) = (None, E (Suc k))"
  shows "for_in [0..<n] body (E 0) = (None, E n)"
  using assms
proof (induction n)
  case 0
  then show ?case by simp
next
  case (Suc n)
  then have "for_in [0..<n] body (E 0) = (None, E n)" by simp
  moreover have "body n (E n) = (None, E (Suc n))" using Suc.prems by simp
  ultimately show ?case by (simp add: for_in_append seq_def)
qed

lemma for_range_closed:
  assumes "0 \<le> n" and "\<And>k. k < nat n \<Longrightarrow> body (int k) (E k) = (None, E (Suc k))"
  shows "for_range n body (E 0) = (None, E (nat n))"
  unfolding for_range_def using assms(2) by (rule for_in_closed)

subsection \<open>The vertex copy on an array of the documented shape\<close>

lemma log_event_fill: "log_event ev (fill_world m f evs w) = fill_world m f (evs @ [ev]) w"
  by (simp add: fill_world_def log_event_def)

lemma upd_geom_fill: "upd_geom m h (fill_world m f evs w) = fill_world m (\<lambda>g. h (f g)) evs w"
  by (simp add: fill_world_def upd_geom_def)

lemma fill_world_obs [simp]:
  "vertices_arg (fill_world m f evs w) = vertices_arg w"
  "indices_arg (fill_world m f evs w) = indices_arg w"
  "self (fill_world m f evs w) = self w"
  "geom_count (scene (fill_world m f evs w)) = geom_count (scene w)"
  "trace (scene (fill_world m f evs w)) = trace (scene w) @ evs"
  "the_geom (fill_world m f evs w) m' = (if m' = m then f (the_geom w m) else the_geom w m')"
  by (simp_all add: fill_world_def the_geom_def)

lemma fill_world_cong: "f = f' \<Longrightarrow> evs = evs' \<Longrightarrow> fill_world m f evs w = fill_world m f' evs' w"
  by simp

lemma getitem2:
  "shape a = [n0, n1] \<Longrightarrow> i < n0 \<Longrightarrow> j < n1 \<Longrightarrow> getitem a [int i, int j] = Inr (item a [i, j])"
  by (simp add: getitem_def norm_index_def)

lemma getitem3:
  "shape a = [n0, n1, n2] \<Longrightarrow> i < n0 \<Longrightarrow> j < n1 \<Longrightarrow> k < n2 \<Longrightarrow>
   getitem a [int i, int j, int k] = Inr (item a [i, j, k])"
  by (simp add: getitem_def norm_index_def)

lemma indices_of_iff: "ks \<in> set (indices_of ns) \<longleftrightarrow> list_all2 (<) ks ns"
proof (induction ns arbitrary: ks)
  case Nil
  then show ?case by simp
next
  case (Cons n ns)
  have "ks \<in> set (indices_of (n # ns)) \<longleftrightarrow> (\<exists>k<n. \<exists>zs\<in>set (indices_of ns). ks = k # zs)"
    by auto
  also have "\<dots> \<longleftrightarrow> (\<exists>k zs. ks = k # zs \<and> k < n \<and> list_all2 (<) zs ns)"
    using Cons by auto
  also have "\<dots> \<longleftrightarrow> list_all2 (<) ks (n # ns)"
    by (auto simp: list_all2_Cons2)
  finally show ?case .
qed

lemma converted2:
  "converted cv a b \<Longrightarrow> shape a = [n0, n1] \<Longrightarrow> i < n0 \<Longrightarrow> j < n1 \<Longrightarrow>
   cv (item a [i, j]) = Inr (item b [i, j])"
  by (simp add: converted_def list_all_iff indices_of_iff)

lemma converted3:
  "converted cv a b \<Longrightarrow> shape a = [n0, n1, n2] \<Longrightarrow> i < n0 \<Longrightarrow> j < n1 \<Longrightarrow> k < n2 \<Longrightarrow>
   cv (item a [i, j, k]) = Inr (item b [i, j, k])"
  by (simp add: converted_def list_all_iff indices_of_iff)

lemma writes_Suc: "writes m kind c (Suc n) = writes m kind c n @ replicate c (WriteBuffer m kind n)"
  by (simp add: writes_def)

lemma set_vertex_field_all:
  "set_vertex_field Z c (set_vertex_field Y b (set_vertex_field X a v)) = Vertex (Some a) (Some b) (Some c)"
  by (cases v) simp

lemma copied_vertices_simps [simp]:
  "numVertices (copied_vertices a n g) = numVertices g"
  "numTriangles (copied_vertices a n g) = numTriangles g"
  "index_buffer (copied_vertices a n g) = index_buffer g"
  "mapped (copied_vertices a n g) = mapped g"
  "vertex_buffer (copied_vertices a n g) k = (if k < n then vertex_row a k else vertex_buffer g k)"
  by (simp_all add: copied_vertices_def)

lemma write_vertex_fill:
  assumes "0 \<le> k" and "k < numVertices (f (the_geom w m))"
  shows "write_vertex (BufferPtr m RTC_VERTEX_BUFFER) k fld v (fill_world m f evs w) =
     (None, fill_world m
        (\<lambda>g. (f g)\<lparr>vertex_buffer := (vertex_buffer (f g))
            (nat k := set_vertex_field fld v (vertex_buffer (f g) (nat k)))\<rparr>)
        (evs @ [WriteBuffer m RTC_VERTEX_BUFFER (nat k)]) w)"
  using assms by (simp add: write_vertex_def log_event_fill upd_geom_fill)

lemma store_vertex_fill:
  assumes "getitem (vertices_arg w) idx = Inr v" and "cv v = Inr x"
    and "0 \<le> k" and "k < numVertices (f (the_geom w m))"
  shows "store_vertex cv (BufferPtr m RTC_VERTEX_BUFFER) k fld idx (fill_world m f evs w) =
     (None, fill_world m
        (\<lambda>g. (f g)\<lparr>vertex_buffer := (vertex_buffer (f g))
            (nat k := set_vertex_field fld x (vertex_buffer (f g) (nat k)))\<rparr>)
        (evs @ [WriteBuffer m RTC_VERTEX_BUFFER (nat k)]) w)"
  using assms by (simp add: store_vertex_def write_vertex_fill)

lemma copied_vertices_Suc:
  "(copied_vertices a k g)\<lparr>vertex_buffer := (vertex_buffer (copied_vertices a k g))(k := vertex_row a k)\<rparr>
   = copied_vertices a (Suc k) g"
  by (auto simp: copied_vertices_def fun_eq_iff)

lemma copy_vertices_step:
  assumes sh: "shape (vertices_arg w) = [n, 3]" and k: "k < n"
    and cvt: "converted cv (vertices_arg w) b"
    and nv: "numVertices (f (the_geom w m)) = int n"
  shows "block [
       store_vertex cv (BufferPtr m RTC_VERTEX_BUFFER) (int k) X [int k, 0],
       store_vertex cv (BufferPtr m RTC_VERTEX_BUFFER) (int k) Y [int k, 1],
       store_vertex cv (BufferPtr m RTC_VERTEX_BUFFER) (int k) Z [int k, 2]]
      (fill_world m (\<lambda>g. copied_vertices b k (f g)) (evs @ writes m RTC_VERTEX_BUFFER 3 k) w)
     = (None, fill_world m (\<lambda>g. copied_vertices b (Suc k) (f g)) (evs @ writes m RTC_VERTEX_BUFFER 3 (Suc k)) w)"
proof -
  have c: "cv (item (vertices_arg w) [k, 0]) = Inr (item b [k, 0])"
    "cv (item (vertices_arg w) [k, 1]) = Inr (item b [k, 1])"
    "cv (item (vertices_arg w) [k, 2]) = Inr (item b [k, 2])"
    using converted2 [OF cvt sh k, of 0] converted2 [OF cvt sh k, of 1]
      converted2 [OF cvt sh k, of 2] by simp_all
  have g: "getitem (vertices_arg w) [int k, 0] = Inr (item (vertices_arg w) [k, 0])"
    "getitem (vertices_arg w) [int k, 1] = Inr (item (vertices_arg w) [k, 1])"
    "getitem (vertices_arg w) [int k, 2] = Inr (item (vertices_arg w) [k, 2])"
    using getitem2 [OF sh k, of 0] getitem2 [OF sh k, of 1] getitem2 [OF sh k, of 2] by simp_all
  show ?thesis
    using k nv
    by (simp add: store_vertex_fill g c c [simplified] writes_Suc set_vertex_field_all numeral_3_eq_3
        copied_vertices_Suc [symmetric] vertex_row_def)
qed

lemma copy_vertices_fill:
  assumes sh: "shape (vertices_arg w) = [n, 3]"
    and cvt: "converted cv (vertices_arg w) b"
    and nv: "numVertices (f (the_geom w m)) = int n"
  shows "copy_vertices cv (BufferPtr m RTC_VERTEX_BUFFER) (int n) (fill_world m f evs w)
     = (None, fill_world m (\<lambda>g. copied_vertices b n (f g))
                (evs @ writes m RTC_VERTEX_BUFFER 3 n) w)"
proof -
  let ?E = "\<lambda>k. fill_world m (\<lambda>g. copied_vertices b k (f g))
                (evs @ writes m RTC_VERTEX_BUFFER 3 k) w"
  have E0: "?E 0 = fill_world m f evs w"
    by (rule fill_world_cong) (simp_all add: copied_vertices_def writes_def)
  have "for_range (int n) (\<lambda>i. block [
       store_vertex cv (BufferPtr m RTC_VERTEX_BUFFER) i X [i, 0],
       store_vertex cv (BufferPtr m RTC_VERTEX_BUFFER) i Y [i, 1],
       store_vertex cv (BufferPtr m RTC_VERTEX_BUFFER) i Z [i, 2]]) (?E 0) = (None, ?E (nat (int n)))"
  proof (rule for_range_closed)
    fix k assume "k < nat (int n)"
    then have k: "k < n" by simp
    show "block [
       store_vertex cv (BufferPtr m RTC_VERTEX_BUFFER) (int k) X [int k, 0],
       store_vertex cv (BufferPtr m RTC_VERTEX_BUFFER) (int k) Y [int k, 1],
       store_vertex cv (BufferPtr m RTC_VERTEX_BUFFER) (int k) Z [int k, 2]] (?E k) = (None, ?E (Suc k))"
      using sh k cvt nv by (rule copy_vertices_step)
  qed simp
  then show ?thesis by (simp add: copy_vertices_def E0)
qed

subsection \<open>The index fills on an array of the documented shape\<close>

lemma set_tri_simps [simp]:
  "numVertices (set_tri s t g) = numVertices g"
  "numTriangles (set_tri s t g) = numTriangles g"
  "vertex_buffer (set_tri s t g) = vertex_buffer g"
  "mapped (set_tri s t g) = mapped g"
  "index_buffer (set_tri s t g) = (index_buffer g)(s := t)"
  by (simp_all add: set_tri_def)

lemma set_triangle_field_all:
  "set_triangle_field V2 c (set_triangle_field V1 b (set_triangle_field V0 a t))
   = Triangle (Some a) (Some b) (Some c)"
  by (cases t) simp

lemma write_triangle_fill:
  assumes "0 \<le> k" and "k < numTriangles (f (the_geom w m))"
  shows "write_triangle (BufferPtr m RTC_INDEX_BUFFER) k fld v (fill_world m f evs w) =
     (None, fill_world m
        (\<lambda>g. set_tri (nat k) (set_triangle_field fld v (index_buffer (f g) (nat k))) (f g))
        (evs @ [WriteBuffer m RTC_INDEX_BUFFER (nat k)]) w)"
  using assms by (simp add: write_triangle_def log_event_fill upd_geom_fill set_tri_def)

lemma store_triangle_fill:
  assumes "indices_arg w = Some arr" and "getitem arr idx = Inr v" and "as_c_int v = Inr c"
    and "0 \<le> k" and "k < numTriangles (f (the_geom w m))"
  shows "store_triangle (BufferPtr m RTC_INDEX_BUFFER) k fld idx (fill_world m f evs w) =
     (None, fill_world m
        (\<lambda>g. set_tri (nat k) (set_triangle_field fld c (index_buffer (f g) (nat k))) (f g))
        (evs @ [WriteBuffer m RTC_INDEX_BUFFER (nat k)]) w)"
  using assms by (simp add: store_triangle_def write_triangle_fill)

lemma set_tri_set_tri: "set_tri s t (set_tri s t' g) = set_tri s t g"
  by (simp add: set_tri_def)

text \<open>Three assignments to the three fields of one slot, from one row of the index array.\<close>

lemma store_triangle3_fill:
  assumes arr: "indices_arg w = Some arr" and sh: "shape arr = [n, d]"
    and fit: "converted as_c_int arr arr"
    and i: "i < n" and a: "a < d" and b: "b < d" and c: "c < d"
    and k: "0 \<le> k" "k < numTriangles (f (the_geom w m))"
  shows "block (store_triangle (BufferPtr m RTC_INDEX_BUFFER) k V0 [int i, int a]
              # store_triangle (BufferPtr m RTC_INDEX_BUFFER) k V1 [int i, int b]
              # store_triangle (BufferPtr m RTC_INDEX_BUFFER) k V2 [int i, int c] # rest)
           (fill_world m f evs w)
       = block rest (fill_world m
           (\<lambda>g. set_tri (nat k)
              (Triangle (Some (item arr [i, a])) (Some (item arr [i, b])) (Some (item arr [i, c]))) (f g))
           (evs @ replicate 3 (WriteBuffer m RTC_INDEX_BUFFER (nat k))) w)"
proof -
  have g: "getitem arr [int i, int a] = Inr (item arr [i, a])"
    "getitem arr [int i, int b] = Inr (item arr [i, b])"
    "getitem arr [int i, int c] = Inr (item arr [i, c])"
    using getitem2 [OF sh i a] getitem2 [OF sh i b] getitem2 [OF sh i c] by simp_all
  have v: "as_c_int (item arr [i, a]) = Inr (item arr [i, a])"
    "as_c_int (item arr [i, b]) = Inr (item arr [i, b])"
    "as_c_int (item arr [i, c]) = Inr (item arr [i, c])"
    using converted2 [OF fit sh i a] converted2 [OF fit sh i b] converted2 [OF fit sh i c]
    by simp_all
  show ?thesis
    using k
    by (simp add: store_triangle_fill [OF arr g(1) v(1)] store_triangle_fill [OF arr g(2) v(2)]
        store_triangle_fill [OF arr g(3) v(3)] set_tri_set_tri set_triangle_field_all numeral_3_eq_3)
qed

lemma block_append: "block (xs @ ys) w = seq (block xs) (block ys) w"
  by (induction xs arbitrary: w) (auto simp: seq_def split: prod.splits option.splits)

lemma block_concat_map: "block (concat (map S rs)) w = for_in rs (\<lambda>r. block (S r)) w"
  by (induction rs arbitrary: w) (auto simp: block_append seq_def split: prod.splits option.splits)

lemma filled_triangles_simps [simp]:
  "numVertices (filled_triangles arr tbl n g) = numVertices g"
  "numTriangles (filled_triangles arr tbl n g) = numTriangles g"
  "vertex_buffer (filled_triangles arr tbl n g) = vertex_buffer g"
  "mapped (filled_triangles arr tbl n g) = mapped g"
  "index_buffer (filled_triangles arr tbl n g) s =
     (if s < n then table_triangle arr tbl (s div length tbl) (s mod length tbl) else index_buffer g s)"
  by (simp_all add: filled_triangles_def)

lemma filled_triangles_0: "filled_triangles arr tbl 0 g = g"
  by (simp add: filled_triangles_def)

lemma filled_triangles_Suc:
  "set_tri n (table_triangle arr tbl (n div length tbl) (n mod length tbl)) (filled_triangles arr tbl n g)
   = filled_triangles arr tbl (Suc n) g"
  by (auto simp: filled_triangles_def set_tri_def fun_eq_iff)

lemma table_okD: "table_ok tbl d \<Longrightarrow> r < length tbl \<Longrightarrow> tbl ! r = (a, b, c) \<Longrightarrow> a < d \<and> b < d \<and> c < d"
  by (auto simp: table_ok_def list_all_length)

lemma table_triple_step:
  assumes arr: "indices_arg w = Some arr" and sh: "shape arr = [n, d]"
    and fit: "converted as_c_int arr arr"
    and i: "i < n" and ok: "table_ok tbl d" and r: "r < length tbl"
    and nt: "int (length tbl * i + r) < numTriangles (f (the_geom w m))"
  shows "block (triple (BufferPtr m RTC_INDEX_BUFFER) (int (length tbl * i + r)) (int i) (tbl ! r))
      (fill_world m (\<lambda>g. filled_triangles arr tbl (length tbl * i + r) (f g))
         (evs @ writes m RTC_INDEX_BUFFER 3 (length tbl * i + r)) w)
    = (None, fill_world m (\<lambda>g. filled_triangles arr tbl (Suc (length tbl * i + r)) (f g))
         (evs @ writes m RTC_INDEX_BUFFER 3 (Suc (length tbl * i + r))) w)"
proof -
  obtain a b c where abc: "tbl ! r = (a, b, c)" by (cases "tbl ! r") auto
  from table_okD [OF ok r abc] have a: "a < d" and b: "b < d" and c: "c < d" by simp_all
  let ?N = "length tbl * i + r"
  have d: "?N div length tbl = i"
    by (rule div_nat_eqI) (use r in simp_all)
  have "?N mod length tbl = ?N - length tbl * (?N div length tbl)"
    by (simp add: minus_mult_div_eq_mod)
  with d have dm: "?N div length tbl = i" "?N mod length tbl = r" by simp_all
  have k: "0 \<le> int ?N" by simp
  have nt': "int ?N < numTriangles (filled_triangles arr tbl ?N (f (the_geom w m)))"
    using nt by simp
  have T: "Triangle (Some (item arr [i, a])) (Some (item arr [i, b])) (Some (item arr [i, c]))
     = table_triangle arr tbl (?N div length tbl) (?N mod length tbl)"
    unfolding dm by (simp add: table_triangle_def abc)
  have "block (triple (BufferPtr m RTC_INDEX_BUFFER) (int ?N) (int i) (tbl ! r))
      (fill_world m (\<lambda>g. filled_triangles arr tbl ?N (f g))
         (evs @ writes m RTC_INDEX_BUFFER 3 ?N) w)
     = block [] (fill_world m
           (\<lambda>g. set_tri (nat (int ?N))
              (Triangle (Some (item arr [i, a])) (Some (item arr [i, b])) (Some (item arr [i, c])))
              (filled_triangles arr tbl ?N (f g)))
           ((evs @ writes m RTC_INDEX_BUFFER 3 ?N) @ replicate 3 (WriteBuffer m RTC_INDEX_BUFFER (nat (int ?N)))) w)"
    unfolding triple_def abc prod.case
    using arr sh fit i a b c k nt' by (rule store_triangle3_fill)
  also have "\<dots> = (None, fill_world m (\<lambda>g. filled_triangles arr tbl (Suc ?N) (f g))
         (evs @ writes m RTC_INDEX_BUFFER 3 (Suc ?N)) w)"
    unfolding T nat_int
    by (simp only: filled_triangles_Suc writes_Suc block.simps append_assoc)
  finally show ?thesis .
qed

lemma table_stmts_step:
  assumes arr: "indices_arg w = Some arr" and sh: "shape arr = [n, d]"
    and fit: "converted as_c_int arr arr"
    and i: "i < n" and ok: "table_ok tbl d"
    and nt: "int (length tbl * Suc i) \<le> numTriangles (f (the_geom w m))"
  shows "block (table_stmts (BufferPtr m RTC_INDEX_BUFFER) tbl i)
      (fill_world m (\<lambda>g. filled_triangles arr tbl (length tbl * i) (f g))
         (evs @ writes m RTC_INDEX_BUFFER 3 (length tbl * i)) w)
    = (None, fill_world m (\<lambda>g. filled_triangles arr tbl (length tbl * Suc i) (f g))
         (evs @ writes m RTC_INDEX_BUFFER 3 (length tbl * Suc i)) w)"
proof -
  let ?E = "\<lambda>r. fill_world m (\<lambda>g. filled_triangles arr tbl (length tbl * i + r) (f g))
         (evs @ writes m RTC_INDEX_BUFFER 3 (length tbl * i + r)) w"
  have "for_in [0..<length tbl]
          (\<lambda>r. block (triple (BufferPtr m RTC_INDEX_BUFFER) (int (length tbl * i + r)) (int i) (tbl ! r)))
          (?E 0) = (None, ?E (length tbl))"
  proof (rule for_in_closed)
    fix r assume r: "r < length tbl"
    have "int (length tbl * i + r) < numTriangles (f (the_geom w m))"
      using nt r by simp
    with arr sh fit i ok r show "block (triple (BufferPtr m RTC_INDEX_BUFFER) (int (length tbl * i + r)) (int i) (tbl ! r))
        (?E r) = (None, ?E (Suc r))"
      using table_triple_step [where f = f and m = m and w = w and evs = evs and tbl = tbl and r = r and i = i]
      by simp
  qed
  then show ?thesis by (simp add: table_stmts_def block_concat_map add.commute)
qed

lemma for_in_cong:
  "(\<And>i. i \<in> set xs \<Longrightarrow> f i = g i) \<Longrightarrow> for_in xs f w = for_in xs g w"
  by (induction xs arbitrary: w) (auto simp: seq_def split: prod.splits option.splits)

lemma for_range_cong:
  "(\<And>k. k < nat n \<Longrightarrow> f (int k) = g (int k)) \<Longrightarrow> for_range n f w = for_range n g w"
  unfolding for_range_def by (rule for_in_cong) simp

lemma table_fill:
  assumes arr: "indices_arg w = Some arr" and sh: "shape arr = [n, d]"
    and fit: "converted as_c_int arr arr"
    and ok: "table_ok tbl d"
    and nt: "int (length tbl * n) \<le> numTriangles (f (the_geom w m))"
  shows "for_range (int n) (\<lambda>i. block (table_stmts (BufferPtr m RTC_INDEX_BUFFER) tbl (nat i)))
           (fill_world m f evs w)
       = (None, fill_world m (\<lambda>g. filled_triangles arr tbl (length tbl * n) (f g))
                 (evs @ writes m RTC_INDEX_BUFFER 3 (length tbl * n)) w)"
proof -
  let ?E = "\<lambda>k. fill_world m (\<lambda>g. filled_triangles arr tbl (length tbl * k) (f g))
                 (evs @ writes m RTC_INDEX_BUFFER 3 (length tbl * k)) w"
  have E0: "?E 0 = fill_world m f evs w"
    by (rule fill_world_cong) (simp_all add: filled_triangles_0 writes_def)
  have "for_range (int n) (\<lambda>i. block (table_stmts (BufferPtr m RTC_INDEX_BUFFER) tbl (nat i)))
          (?E 0) = (None, ?E (nat (int n)))"
  proof (rule for_range_closed)
    fix k assume "k < nat (int n)"
    then have k: "k < n" by simp
    then have "Suc k \<le> n" by simp
    then have "length tbl * Suc k \<le> length tbl * n" by (rule mult_le_mono2)
    then have "int (length tbl * Suc k) \<le> numTriangles (f (the_geom w m))"
      using nt by linarith
    with arr sh fit k ok
    have "block (table_stmts (BufferPtr m RTC_INDEX_BUFFER) tbl k) (?E k) = (None, ?E (Suc k))"
      by (rule table_stmts_step)
    then show "block (table_stmts (BufferPtr m RTC_INDEX_BUFFER) tbl (nat (int k))) (?E k)
        = (None, ?E (Suc k))" by simp
  qed simp
  then show ?thesis by (simp add: filled_triangles_0 writes_def)
qed

lemma upt_12: "[0..<12] = [0, 1, 2, 3, 4, 5, 6, 7, 8, 9, 10, 11]"
  by (simp add: upt_rec)

lemma upt_4: "[0..<4] = [0, 1, 2, 3]"
  by (simp add: upt_rec)

lemma quads_body:
  assumes "k < n" and "12 * int n \<le> INT_MAX"
  shows "(let j = c_int (12 * int k) in block [
       store_triangle p j V0 [int k, 0],
       store_triangle p j V1 [int k, 1],
       store_triangle p j V2 [int k, 2],
       store_triangle p (c_int (j + 1)) V0 [int k, 0],
       store_triangle p (c_int (j + 1)) V1 [int k, 2],
       store_triangle p (c_int (j + 1)) V2 [int k, 3],
       store_triangle p (c_int (j + 2)) V0 [int k, 4],
       store_triangle p (c_int (j + 2)) V1 [int k, 5],
       store_triangle p (c_int (j + 2)) V2 [int k, 6],
       store_triangle p (c_int (j + 3)) V0 [int k, 4],
       store_triangle p (c_int (j + 3)) V1 [int k, 6],
       store_triangle p (c_int (j + 3)) V2 [int k, 7],
       store_triangle p (c_int (j + 4)) V0 [int k, 0],
       store_triangle p (c_int (j + 4)) V1 [int k, 1],
       store_triangle p (c_int (j + 4)) V2 [int k, 5],
       store_triangle p (c_int (j + 5)) V0 [int k, 0],
       store_triangle p (c_int (j + 5)) V1 [int k, 5],
       store_triangle p (c_int (j + 5)) V2 [int k, 4],
       store_triangle p (c_int (j + 6)) V0 [int k, 1],
       store_triangle p (c_int (j + 6)) V1 [int k, 2],
       store_triangle p (c_int (j + 6)) V2 [int k, 6],
       store_triangle p (c_int (j + 7)) V0 [int k, 1],
       store_triangle p (c_int (j + 7)) V1 [int k, 6],
       store_triangle p (c_int (j + 7)) V2 [int k, 5],
       store_triangle p (c_int (j + 8)) V0 [int k, 0],
       store_triangle p (c_int (j + 8)) V1 [int k, 3],
       store_triangle p (c_int (j + 8)) V2 [int k, 7],
       store_triangle p (c_int (j + 9)) V0 [int k, 0],
       store_triangle p (c_int (j + 9)) V1 [int k, 7],
       store_triangle p (c_int (j + 9)) V2 [int k, 4],
       store_triangle p (c_int (j + 10)) V0 [int k, 3],
       store_triangle p (c_int (j + 10)) V1 [int k, 2],
       store_triangle p (c_int (j + 10)) V2 [int k, 6],
       store_triangle p (c_int (j + 11)) V0 [int k, 3],
       store_triangle p (c_int (j + 11)) V1 [int k, 6],
       store_triangle p (c_int (j + 11)) V2 [int k, 7]])
     = block (table_stmts p hex_table k)"
proof -
  have b: "12 * int k + 11 < 2 ^ 31" using assms by (simp add: INT_MAX_def)
  have j: "c_int (12 * int k) = 12 * int k"
    using b by (intro c_int_id) simp_all
  have r: "c_int (12 * int k + r) = 12 * int k + r" if "0 \<le> r" "r \<le> 11" for r
    using b that by (intro c_int_id) simp_all
  show ?thesis
    by (simp add: Let_def j r table_stmts_def hex_table_def triple_def upt_12)
qed

subsection \<open>The builders on inputs of the documented shape\<close>

lemma bump_simps [simp]:
  "vertices_arg (bump w) = vertices_arg w"
  "indices_arg (bump w) = indices_arg w"
  "self (bump w) = self w"
  "geom_count (scene (bump w)) = Suc (geom_count (scene w))"
  "trace (scene (bump w)) = trace (scene w)"
  "the_geom (bump w) m = the_geom w m"
  by (simp_all add: bump_def the_geom_def)

lemma rtcNewTriangleMesh_fill:
  "rtcNewTriangleMesh nt nv w =
     (geom_count (scene w),
      fill_world (geom_count (scene w)) (\<lambda>g. new_geometry nt nv)
        [NewTriangleMesh (geom_count (scene w)) nt nv] (bump w))"
  by (simp add: rtcNewTriangleMesh_def Let_def fill_world_def log_event_def upd_geom_def bump_def)

lemma rtcMapBuffer_fill:
  "rtcMapBuffer m kind (fill_world m f evs w) =
     (BufferPtr m kind,
      fill_world m (\<lambda>g. (f g)\<lparr>mapped := (mapped (f g))(kind := True)\<rparr>) (evs @ [MapBuffer m kind]) w)"
  by (simp add: rtcMapBuffer_def log_event_fill upd_geom_fill)

lemma rtcUnmapBuffer_fill:
  "rtcUnmapBuffer m kind (fill_world m f evs w) =
     fill_world m (\<lambda>g. (f g)\<lparr>mapped := (mapped (f g))(kind := False)\<rparr>) (evs @ [UnmapBuffer m kind]) w"
  by (simp add: rtcUnmapBuffer_def log_event_fill upd_geom_fill)

lemma set_self_fill_built:
  assumes "\<And>g. f g = g'" and "m = geom_count (scene w)"
  shows "set_self (BufferPtr m RTC_VERTEX_BUFFER) (BufferPtr m RTC_INDEX_BUFFER) m
           (fill_world m f evs (bump w)) = built w g' evs"
  using assms by (simp add: set_self_def fill_world_def bump_def built_def)

lemma new_geometry_simps:
  "numTriangles (new_geometry nt nv) = nt"
  "numVertices (new_geometry nt nv) = nv"
  "vertex_buffer (new_geometry nt nv) = (\<lambda>k. Vertex None None None)"
  "index_buffer (new_geometry nt nv) = (\<lambda>k. Triangle None None None)"
  "mapped (new_geometry nt nv) = (\<lambda>k. False)"
  by (simp_all add: new_geometry_def)

lemma build_indexed_closed:
  assumes arr: "indices_arg w = Some arr"
    and shv: "shape (vertices_arg w) = [nv, 3]" and nv: "int nv \<le> INT_MAX"
    and sh: "shape arr = [ne, d]" and ne: "int ne \<le> INT_MAX"
    and cvt: "converted cv (vertices_arg w) b" and fit: "converted as_c_int arr arr"
    and ok: "table_ok tbl d"
    and count: "count (int ne) = int (length tbl * ne)"
    and fill: "\<And>m w'. fill (BufferPtr m RTC_INDEX_BUFFER) (int ne) w' =
        for_range (int ne) (\<lambda>i. block (table_stmts (BufferPtr m RTC_INDEX_BUFFER) tbl (nat i))) w'"
  shows "build_indexed cv count fill w =
     (None, built w
        (filled_triangles arr tbl (length tbl * ne)
           (copied_vertices b nv (new_geometry (int (length tbl * ne)) (int nv))))
        (protocol_trace (geom_count (scene w)) (int (length tbl * ne)) (int nv) nv (length tbl * ne)))"
proof -
  let ?m = "geom_count (scene w)"
  let ?nt = "int (length tbl * ne)"
  have cnv: "c_int (int nv) = int nv" using nv by (intro c_int_id) (simp_all add: INT_MAX_def)
  have cne: "c_int (int ne) = int ne" using ne by (intro c_int_id) (simp_all add: INT_MAX_def)
  have arr': "indices_arg (bump w) = Some arr" using arr by simp
  have shv': "shape (vertices_arg (bump w)) = [nv, 3]" using shv by simp
  have cvt': "converted cv (vertices_arg (bump w)) b" using cvt by simp
  show ?thesis
    unfolding build_indexed_def
    apply (simp add: shape_at_def shv arr sh cnv cne count Let_def rtcNewTriangleMesh_fill
        rtcMapBuffer_fill call_def rtcUnmapBuffer_fill fill seq_def
        copy_vertices_fill [OF shv' cvt'] table_fill [OF arr' sh fit ok] new_geometry_simps)
    apply (rule set_self_fill_built [where g' = "filled_triangles arr tbl (length tbl * ne)
           (copied_vertices b nv (new_geometry (int (length tbl * ne)) (int nv)))",
           THEN trans])
      apply (simp add: filled_triangles_def copied_vertices_def new_geometry_def fun_eq_iff)
     apply simp
    apply (simp add: protocol_trace_def)
    done
qed

lemma flat_vertices_simps [simp]:
  "numVertices (flat_vertices a n g) = numVertices g"
  "numTriangles (flat_vertices a n g) = numTriangles g"
  "index_buffer (flat_vertices a n g) = index_buffer g"
  "mapped (flat_vertices a n g) = mapped g"
  "vertex_buffer (flat_vertices a n g) s = (if s < n then flat_vertex a s else vertex_buffer g s)"
  by (simp_all add: flat_vertices_def)

lemma flat_triangles_simps [simp]:
  "numVertices (flat_triangles n g) = numVertices g"
  "numTriangles (flat_triangles n g) = numTriangles g"
  "vertex_buffer (flat_triangles n g) = vertex_buffer g"
  "mapped (flat_triangles n g) = mapped g"
  "index_buffer (flat_triangles n g) s = (if s < n then flat_triangle s else index_buffer g s)"
  by (simp_all add: flat_triangles_def)

lemma flat_vertices_Suc:
  "(flat_vertices a n g)\<lparr>vertex_buffer := (vertex_buffer (flat_vertices a n g))(n := flat_vertex a n)\<rparr>
   = flat_vertices a (Suc n) g"
  by (auto simp: flat_vertices_def fun_eq_iff)

lemma flat_triangles_Suc:
  "set_tri n (flat_triangle n) (flat_triangles n g) = flat_triangles (Suc n) g"
  by (auto simp: flat_triangles_def set_tri_def fun_eq_iff)

lemma div_mod_3: "j < 3 \<Longrightarrow> (3 * i + j) div 3 = i \<and> (3 * i + j) mod 3 = j" for i j :: nat
  by (simp add: add.commute)

lemma flat_vertex_step:
  assumes sh: "shape (vertices_arg w) = [n, 3, 3]" and i: "i < n" and j: "j < 3"
    and cvt: "converted cv (vertices_arg w) b"
    and nv: "numVertices (f (the_geom w m)) = 3 * int n" and b: "3 * int n \<le> INT_MAX"
  shows "block [
       store_vertex cv (BufferPtr m RTC_VERTEX_BUFFER) (c_int (c_int (int i * 3) + int j)) X [int i, int j, 0],
       store_vertex cv (BufferPtr m RTC_VERTEX_BUFFER) (c_int (c_int (int i * 3) + int j)) Y [int i, int j, 1],
       store_vertex cv (BufferPtr m RTC_VERTEX_BUFFER) (c_int (c_int (int i * 3) + int j)) Z [int i, int j, 2]]
      (fill_world m (\<lambda>g. flat_vertices b (3 * i + j) (f g))
         (evs @ writes m RTC_VERTEX_BUFFER 3 (3 * i + j)) w)
     = (None, fill_world m (\<lambda>g. flat_vertices b (Suc (3 * i + j)) (f g))
         (evs @ writes m RTC_VERTEX_BUFFER 3 (Suc (3 * i + j))) w)"
proof -
  let ?N = "3 * i + j"
  have g: "getitem (vertices_arg w) [int i, int j, 0] = Inr (item (vertices_arg w) [i, j, 0])"
    "getitem (vertices_arg w) [int i, int j, 1] = Inr (item (vertices_arg w) [i, j, 1])"
    "getitem (vertices_arg w) [int i, int j, 2] = Inr (item (vertices_arg w) [i, j, 2])"
    using getitem3 [OF sh i j, of 0] getitem3 [OF sh i j, of 1] getitem3 [OF sh i j, of 2]
    by simp_all
  have c: "cv (item (vertices_arg w) [i, j, 0]) = Inr (item b [i, j, 0])"
    "cv (item (vertices_arg w) [i, j, 1]) = Inr (item b [i, j, 1])"
    "cv (item (vertices_arg w) [i, j, 2]) = Inr (item b [i, j, 2])"
    using converted3 [OF cvt sh i j, of 0] converted3 [OF cvt sh i j, of 1]
      converted3 [OF cvt sh i j, of 2] by simp_all
  have lt: "int ?N < 3 * int n" using i j by simp
  have c1: "c_int (int i * 3) = int i * 3"
    using lt b by (intro c_int_id) (simp_all add: INT_MAX_def)
  have c2: "c_int (int i * 3 + int j) = int ?N"
    using lt b c_int_id [of "int i * 3 + int j"] by (simp add: INT_MAX_def)
  have fv: "Vertex (Some (item b [i, j, 0])) (Some (item b [i, j, 1]))
      (Some (item b [i, j, 2])) = flat_vertex b ?N"
    using div_mod_3 [OF j, of i] by (simp add: flat_vertex_def)
  have "block [
       store_vertex cv (BufferPtr m RTC_VERTEX_BUFFER) (int ?N) X [int i, int j, 0],
       store_vertex cv (BufferPtr m RTC_VERTEX_BUFFER) (int ?N) Y [int i, int j, 1],
       store_vertex cv (BufferPtr m RTC_VERTEX_BUFFER) (int ?N) Z [int i, int j, 2]]
      (fill_world m (\<lambda>g. flat_vertices b ?N (f g))
         (evs @ writes m RTC_VERTEX_BUFFER 3 ?N) w)
     = (None, fill_world m (\<lambda>g. (flat_vertices b ?N (f g))\<lparr>vertex_buffer :=
            (vertex_buffer (flat_vertices b ?N (f g)))(?N := flat_vertex b ?N)\<rparr>)
         (evs @ writes m RTC_VERTEX_BUFFER 3 ?N @ replicate 3 (WriteBuffer m RTC_VERTEX_BUFFER ?N)) w)"
    using lt nv unfolding fv [symmetric]
    by (simp add: store_vertex_fill g c c [simplified] set_vertex_field_all numeral_3_eq_3
        del: of_nat_add of_nat_mult)
  then show ?thesis
    unfolding c1 c2 by (simp only: flat_vertices_Suc writes_Suc)
qed

lemma flat_vertex_row:
  assumes sh: "shape (vertices_arg w) = [n, 3, 3]" and i: "i < n"
    and cvt: "converted cv (vertices_arg w) b"
    and nv: "numVertices (f (the_geom w m)) = 3 * int n" and b: "3 * int n \<le> INT_MAX"
  shows "for_range 3 (\<lambda>j. block [
       store_vertex cv (BufferPtr m RTC_VERTEX_BUFFER) (c_int (c_int (int i * 3) + j)) X [int i, j, 0],
       store_vertex cv (BufferPtr m RTC_VERTEX_BUFFER) (c_int (c_int (int i * 3) + j)) Y [int i, j, 1],
       store_vertex cv (BufferPtr m RTC_VERTEX_BUFFER) (c_int (c_int (int i * 3) + j)) Z [int i, j, 2]])
      (fill_world m (\<lambda>g. flat_vertices b (3 * i) (f g))
         (evs @ writes m RTC_VERTEX_BUFFER 3 (3 * i)) w)
     = (None, fill_world m (\<lambda>g. flat_vertices b (3 * Suc i) (f g))
         (evs @ writes m RTC_VERTEX_BUFFER 3 (3 * Suc i)) w)"
proof -
  let ?E = "\<lambda>j. fill_world m (\<lambda>g. flat_vertices b (3 * i + j) (f g))
         (evs @ writes m RTC_VERTEX_BUFFER 3 (3 * i + j)) w"
  have "for_range 3 (\<lambda>j. block [
       store_vertex cv (BufferPtr m RTC_VERTEX_BUFFER) (c_int (c_int (int i * 3) + j)) X [int i, j, 0],
       store_vertex cv (BufferPtr m RTC_VERTEX_BUFFER) (c_int (c_int (int i * 3) + j)) Y [int i, j, 1],
       store_vertex cv (BufferPtr m RTC_VERTEX_BUFFER) (c_int (c_int (int i * 3) + j)) Z [int i, j, 2]])
      (?E 0) = (None, ?E (nat 3))"
  proof (rule for_range_closed)
    fix j assume "j < nat 3"
    then have j: "j < 3" by simp
    from flat_vertex_step [where f = f and m = m and w = w and evs = evs, OF sh i j cvt nv b]
    show "block [
       store_vertex cv (BufferPtr m RTC_VERTEX_BUFFER) (c_int (c_int (int i * 3) + int j)) X [int i, int j, 0],
       store_vertex cv (BufferPtr m RTC_VERTEX_BUFFER) (c_int (c_int (int i * 3) + int j)) Y [int i, int j, 1],
       store_vertex cv (BufferPtr m RTC_VERTEX_BUFFER) (c_int (c_int (int i * 3) + int j)) Z [int i, int j, 2]]
      (?E j) = (None, ?E (Suc j))" by simp
  qed simp
  then show ?thesis by (simp add: add.commute)
qed

lemma flat_vertex_fill_closed:
  assumes sh: "shape (vertices_arg w) = [n, 3, 3]"
    and cvt: "converted cv (vertices_arg w) b"
    and nv: "numVertices (f (the_geom w m)) = 3 * int n" and b: "3 * int n \<le> INT_MAX"
  shows "flat_vertex_fill cv (BufferPtr m RTC_VERTEX_BUFFER) (int n) (fill_world m f evs w)
     = (None, fill_world m (\<lambda>g. flat_vertices b (3 * n) (f g))
         (evs @ writes m RTC_VERTEX_BUFFER 3 (3 * n)) w)"
proof -
  let ?E = "\<lambda>i. fill_world m (\<lambda>g. flat_vertices b (3 * i) (f g))
         (evs @ writes m RTC_VERTEX_BUFFER 3 (3 * i)) w"
  have "for_range (int n) (\<lambda>i. for_range 3 (\<lambda>j. block [
       store_vertex cv (BufferPtr m RTC_VERTEX_BUFFER) (c_int (c_int (i * 3) + j)) X [i, j, 0],
       store_vertex cv (BufferPtr m RTC_VERTEX_BUFFER) (c_int (c_int (i * 3) + j)) Y [i, j, 1],
       store_vertex cv (BufferPtr m RTC_VERTEX_BUFFER) (c_int (c_int (i * 3) + j)) Z [i, j, 2]]))
      (?E 0) = (None, ?E (nat (int n)))"
  proof (rule for_range_closed)
    fix i assume "i < nat (int n)"
    then have i: "i < n" by simp
    show "for_range 3 (\<lambda>j. block [
       store_vertex cv (BufferPtr m RTC_VERTEX_BUFFER) (c_int (c_int (int i * 3) + j)) X [int i, j, 0],
       store_vertex cv (BufferPtr m RTC_VERTEX_BUFFER) (c_int (c_int (int i * 3) + j)) Y [int i, j, 1],
       store_vertex cv (BufferPtr m RTC_VERTEX_BUFFER) (c_int (c_int (int i * 3) + j)) Z [int i, j, 2]])
      (?E i) = (None, ?E (Suc i))"
      using sh i cvt nv b by (rule flat_vertex_row)
  qed simp
  then show ?thesis by (simp add: flat_vertex_fill_def flat_vertices_def writes_def)
qed

lemma flat_index_step:
  assumes i: "i < n" and nt: "numTriangles (f (the_geom w m)) = int n" and b: "3 * int n \<le> INT_MAX"
  shows "block [
       write_triangle (BufferPtr m RTC_INDEX_BUFFER) (int i) V0 (c_int (c_int (int i * 3) + 0)),
       write_triangle (BufferPtr m RTC_INDEX_BUFFER) (int i) V1 (c_int (c_int (int i * 3) + 1)),
       write_triangle (BufferPtr m RTC_INDEX_BUFFER) (int i) V2 (c_int (c_int (int i * 3) + 2))]
      (fill_world m (\<lambda>g. flat_triangles i (f g)) (evs @ writes m RTC_INDEX_BUFFER 3 i) w)
     = (None, fill_world m (\<lambda>g. flat_triangles (Suc i) (f g))
         (evs @ writes m RTC_INDEX_BUFFER 3 (Suc i)) w)"
proof -
  have lt: "int i * 3 + 2 < 2 ^ 31" using i b by (simp add: INT_MAX_def)
  have c1: "c_int (int i * 3) = int i * 3"
    using lt by (intro c_int_id) simp_all
  have c2: "c_int (int i * 3 + r) = int i * 3 + r" if "0 \<le> r" "r \<le> 2" for r
    using lt that by (intro c_int_id) simp_all
  have ft: "Triangle (Some (int i * 3)) (Some (int i * 3 + 1)) (Some (int i * 3 + 2)) = flat_triangle i"
    by (simp add: flat_triangle_def mult.commute)
  have "block [
       write_triangle (BufferPtr m RTC_INDEX_BUFFER) (int i) V0 (int i * 3),
       write_triangle (BufferPtr m RTC_INDEX_BUFFER) (int i) V1 (int i * 3 + 1),
       write_triangle (BufferPtr m RTC_INDEX_BUFFER) (int i) V2 (int i * 3 + 2)]
      (fill_world m (\<lambda>g. flat_triangles i (f g)) (evs @ writes m RTC_INDEX_BUFFER 3 i) w)
     = (None, fill_world m (\<lambda>g. set_tri i (flat_triangle i) (flat_triangles i (f g)))
         (evs @ writes m RTC_INDEX_BUFFER 3 i @ replicate 3 (WriteBuffer m RTC_INDEX_BUFFER i)) w)"
    using i nt unfolding ft [symmetric]
    by (simp add: write_triangle_fill set_tri_set_tri set_triangle_field_all numeral_3_eq_3)
  then show ?thesis
    by (simp only: c1 c2 add_0_right flat_triangles_Suc writes_Suc)
qed

lemma flat_index_fill_closed:
  assumes nt: "numTriangles (f (the_geom w m)) = int n" and b: "3 * int n \<le> INT_MAX"
  shows "flat_index_fill (BufferPtr m RTC_INDEX_BUFFER) (int n) (fill_world m f evs w)
     = (None, fill_world m (\<lambda>g. flat_triangles n (f g)) (evs @ writes m RTC_INDEX_BUFFER 3 n) w)"
proof -
  let ?E = "\<lambda>i. fill_world m (\<lambda>g. flat_triangles i (f g)) (evs @ writes m RTC_INDEX_BUFFER 3 i) w"
  have "for_range (int n) (\<lambda>i. block [
       write_triangle (BufferPtr m RTC_INDEX_BUFFER) i V0 (c_int (c_int (i * 3) + 0)),
       write_triangle (BufferPtr m RTC_INDEX_BUFFER) i V1 (c_int (c_int (i * 3) + 1)),
       write_triangle (BufferPtr m RTC_INDEX_BUFFER) i V2 (c_int (c_int (i * 3) + 2))])
      (?E 0) = (None, ?E (nat (int n)))"
  proof (rule for_range_closed)
    fix i assume "i < nat (int n)"
    then have i: "i < n" by simp
    show "block [
       write_triangle (BufferPtr m RTC_INDEX_BUFFER) (int i) V0 (c_int (c_int (int i * 3) + 0)),
       write_triangle (BufferPtr m RTC_INDEX_BUFFER) (int i) V1 (c_int (c_int (int i * 3) + 1)),
       write_triangle (BufferPtr m RTC_INDEX_BUFFER) (int i) V2 (c_int (c_int (int i * 3) + 2))]
      (?E i) = (None, ?E (Suc i))"
      using i nt b by (rule flat_index_step)
  qed simp
  then show ?thesis by (simp add: flat_index_fill_def flat_triangles_def writes_def)
qed

lemma build_from_flat_closed:
  assumes sh: "shape (vertices_arg w) = [n, 3, 3]" and b: "3 * int n \<le> INT_MAX"
    and cvt: "converted cv (vertices_arg w) b"
  shows "build_from_flat cv w =
     (None, built w
        (flat_triangles n (flat_vertices b (3 * n) (new_geometry (int n) (3 * int n))))
        (protocol_trace (geom_count (scene w)) (int n) (3 * int n) (3 * n) n))"
proof -
  have cn: "c_int (int n) = int n" using b by (intro c_int_id) (simp_all add: INT_MAX_def)
  have c3: "c_int (int n * 3) = 3 * int n"
    using b c_int_id [of "int n * 3"] by (simp add: INT_MAX_def)
  have sh': "shape (vertices_arg (bump w)) = [n, 3, 3]" using sh by simp
  have cvt': "converted cv (vertices_arg (bump w)) b" using cvt by simp
  show ?thesis
    unfolding build_from_flat_def
    apply (simp add: shape_at_def sh cn c3 Let_def rtcNewTriangleMesh_fill
        rtcMapBuffer_fill call_def rtcUnmapBuffer_fill seq_def
        flat_vertex_fill_closed [OF sh' cvt' _ b] flat_index_fill_closed [OF _ b] new_geometry_simps)
    apply (rule set_self_fill_built [where g' = "flat_triangles n
           (flat_vertices b (3 * n) (new_geometry (int n) (3 * int n)))",
           THEN trans])
      apply (simp add: flat_triangles_def flat_vertices_def new_geometry_def fun_eq_iff)
     apply simp
    apply (simp add: protocol_trace_def)
    done
qed

lemma table_ok_simps:
  "table_ok hex_table 8" "table_ok tet_table 4" "table_ok tri_table 3"
  by (simp_all add: table_ok_def hex_table_def tet_table_def tri_table_def)

lemma table_lengths:
  "length hex_table = 12" "length tet_table = 4" "length tri_table = 1"
  by (simp_all add: hex_table_def tet_table_def tri_table_def)

lemma triangles_body:
  assumes "k < n" and "4 * int n \<le> INT_MAX"
  shows "(let j = c_int (4 * int k) in block [
       store_triangle p j V0 [int k, 0],
       store_triangle p j V1 [int k, 1],
       store_triangle p j V2 [int k, 2],
       store_triangle p (c_int (j + 1)) V0 [int k, 0],
       store_triangle p (c_int (j + 1)) V1 [int k, 1],
       store_triangle p (c_int (j + 1)) V2 [int k, 3],
       store_triangle p (c_int (j + 2)) V0 [int k, 0],
       store_triangle p (c_int (j + 2)) V1 [int k, 2],
       store_triangle p (c_int (j + 2)) V2 [int k, 3],
       store_triangle p (c_int (j + 3)) V0 [int k, 1],
       store_triangle p (c_int (j + 3)) V1 [int k, 2],
       store_triangle p (c_int (j + 3)) V2 [int k, 3]])
     = block (table_stmts p tet_table k)"
proof -
  have b: "4 * int k + 3 < 2 ^ 31" using assms by (simp add: INT_MAX_def)
  have j: "c_int (4 * int k) = 4 * int k"
    using b by (intro c_int_id) simp_all
  have r: "c_int (4 * int k + r) = 4 * int k + r" if "0 \<le> r" "r \<le> 3" for r
    using b that by (intro c_int_id) simp_all
  show ?thesis
    by (simp add: Let_def j r table_stmts_def tet_table_def triple_def upt_4)
qed

lemma indices_body:
  "block [
       store_triangle p (int k) V0 [int k, 0],
       store_triangle p (int k) V1 [int k, 1],
       store_triangle p (int k) V2 [int k, 2]]
     = block (table_stmts p tri_table k)"
  by (simp add: table_stmts_def tri_table_def triple_def)

lemma quads_index_fill_table:
  assumes "12 * int n \<le> INT_MAX"
  shows "quads_index_fill p (int n) w =
     for_range (int n) (\<lambda>i. block (table_stmts p hex_table (nat i))) w"
  unfolding quads_index_fill_def
  by (rule for_range_cong) (simp add: quads_body [OF _ assms])

lemma triangles_index_fill_table:
  assumes "4 * int n \<le> INT_MAX"
  shows "triangles_index_fill p (int n) w =
     for_range (int n) (\<lambda>i. block (table_stmts p tet_table (nat i))) w"
  unfolding triangles_index_fill_def
  by (rule for_range_cong) (simp add: triangles_body [OF _ assms])

lemma indices_index_fill_table:
  "indices_index_fill p (int n) w =
     for_range (int n) (\<lambda>i. block (table_stmts p tri_table (nat i))) w"
  unfolding indices_index_fill_def
  by (rule for_range_cong) (simp add: indices_body)

lemma build_from_quads_closed:
  assumes arr: "indices_arg w = Some arr"
    and shv: "shape (vertices_arg w) = [nv, 3]" and nv: "int nv \<le> INT_MAX"
    and sh: "shape arr = [ne, 8]" and ne: "12 * int ne \<le> INT_MAX"
    and cvt: "converted cv (vertices_arg w) b" and fit: "converted as_c_int arr arr"
  shows "build_from_quads cv w =
     (None, built w (mesh_geometry b arr hex_table nv ne)
        (protocol_trace (geom_count (scene w)) (12 * int ne) (int nv) nv (12 * ne)))"
proof -
  have ne': "int ne \<le> INT_MAX" using ne by simp
  have c: "c_int (c_int (6 * 2) * int ne) = int (length hex_table * ne)"
    using ne c_int_id [of "12 * int ne"] by (simp add: table_lengths c_int_def INT_MAX_def)
  show ?thesis
    unfolding build_from_quads_def mesh_geometry_def
    using build_indexed_closed [OF arr shv nv sh ne' cvt fit table_ok_simps(1),
        where count = "\<lambda>ne. c_int (c_int (6 * 2) * ne)" and fill = quads_index_fill,
        OF c quads_index_fill_table [OF ne]]
    by (simp add: table_lengths)
qed

lemma build_from_triangles_closed:
  assumes arr: "indices_arg w = Some arr"
    and shv: "shape (vertices_arg w) = [nv, 3]" and nv: "int nv \<le> INT_MAX"
    and sh: "shape arr = [ne, 4]" and ne: "4 * int ne \<le> INT_MAX"
    and cvt: "converted cv (vertices_arg w) b" and fit: "converted as_c_int arr arr"
  shows "build_from_triangles cv w =
     (None, built w (mesh_geometry b arr tet_table nv ne)
        (protocol_trace (geom_count (scene w)) (4 * int ne) (int nv) nv (4 * ne)))"
proof -
  have ne': "int ne \<le> INT_MAX" using ne by simp
  have c: "c_int (4 * int ne) = int (length tet_table * ne)"
    using ne c_int_id [of "4 * int ne"] by (simp add: table_lengths INT_MAX_def)
  show ?thesis
    unfolding build_from_triangles_def mesh_geometry_def
    using build_indexed_closed [OF arr shv nv sh ne' cvt fit table_ok_simps(2),
        where count = "\<lambda>ne. c_int (4 * ne)" and fill = triangles_index_fill,
        OF c triangles_index_fill_table [OF ne]]
    by (simp add: table_lengths)
qed

lemma build_from_indices_closed:
  assumes arr: "indices_arg w = Some arr"
    and shv: "shape (vertices_arg w) = [nv, 3]" and nv: "int nv \<le> INT_MAX"
    and sh: "shape arr = [nt, 3]" and nt: "int nt \<le> INT_MAX"
    and cvt: "converted cv (vertices_arg w) b" and fit: "converted as_c_int arr arr"
  shows "build_from_indices cv w =
     (None, built w (mesh_geometry b arr tri_table nv nt)
        (protocol_trace (geom_count (scene w)) (int nt) (int nv) nv nt))"
proof -
  have c: "(\<lambda>nt. nt) (int nt) = int (length tri_table * nt)"
    by (simp add: table_lengths)
  show ?thesis
    unfolding build_from_indices_def mesh_geometry_def
    using build_indexed_closed [OF arr shv nv sh nt cvt fit table_ok_simps(3),
        where count = "\<lambda>nt. nt" and fill = indices_index_fill,
        OF c indices_index_fill_table]
    by (simp add: table_lengths)
qed

lemma built_obs [simp]:
  "vertices_arg (built w g evs) = vertices_arg w"
  "indices_arg (built w g evs) = indices_arg w"
  "geom_count (scene (built w g evs)) = Suc (geom_count (scene w))"
  "trace (scene (built w g evs)) = trace (scene w) @ evs"
  "the_geom (built w g evs) m = (if m = geom_count (scene w) then g else the_geom w m)"
  "self_mesh (self (built w g evs)) = geom_count (scene w)"
  "self_vertices (self (built w g evs)) = Some (BufferPtr (geom_count (scene w)) RTC_VERTEX_BUFFER)"
  "self_indices (self (built w g evs)) = Some (BufferPtr (geom_count (scene w)) RTC_INDEX_BUFFER)"
  by (simp_all add: built_def the_geom_def)

lemma mesh_geometry_obs:
  "numTriangles (mesh_geometry va arr tbl nv ne) = int (length tbl * ne)"
  "numVertices (mesh_geometry va arr tbl nv ne) = int nv"
  "vertex_buffer (mesh_geometry va arr tbl nv ne) i =
     (if i < nv then vertex_row va i else Vertex None None None)"
  "index_buffer (mesh_geometry va arr tbl nv ne) s =
     (if s < length tbl * ne
      then table_triangle arr tbl (s div length tbl) (s mod length tbl)
      else Triangle None None None)"
  "mapped (mesh_geometry va arr tbl nv ne) = (\<lambda>k. False)"
  by (simp_all add: mesh_geometry_def new_geometry_simps)

lemma new_events_built [simp]: "new_events w (built w g evs) = evs"
  by (simp add: new_events_def)

lemma hd_protocol_trace [simp]: "hd (protocol_trace m nt nv a b) = NewTriangleMesh m nt nv"
  by (simp add: protocol_trace_def)

lemma ElementMesh_init_quads:
  "indices_arg w = Some arr \<Longrightarrow> shape arr = [ne, 8] \<Longrightarrow> ElementMesh_init cv w = build_from_quads cv w"
  by (simp add: ElementMesh_init_def shape_at_def)

lemma ElementMesh_init_triangles:
  "indices_arg w = Some arr \<Longrightarrow> shape arr = [ne, 4] \<Longrightarrow> ElementMesh_init cv w = build_from_triangles cv w"
  by (simp add: ElementMesh_init_def shape_at_def)

subsection \<open>What every run preserves\<close>

lemma stableD: "stable R st \<Longrightarrow> R w (snd (st w))"
  by (simp add: stable_def)

lemma stableI: "(\<And>w. R w (snd (st w))) \<Longrightarrow> stable R st"
  by (simp add: stable_def)

lemma stable_seq:
  assumes "transp R" and "stable R f" and "stable R g"
  shows "stable R (seq f g)"
proof (rule stableI)
  fix w
  obtain r w' where f: "f w = (r, w')" by (cases "f w")
  have 1: "R w w'" using stableD [OF assms(2), of w] f by simp
  show "R w (snd (seq f g w))"
  proof (cases r)
    case None
    have "R w' (snd (g w'))" by (rule stableD [OF assms(3)])
    with 1 have "R w (snd (g w'))" using assms(1) by (blast dest: transpD)
    then show ?thesis using f None by (simp add: seq_def)
  next
    case (Some e)
    then show ?thesis using f 1 by (simp add: seq_def)
  qed
qed

lemma stable_skip: "reflp R \<Longrightarrow> stable R (\<lambda>w. (None, w))"
  by (simp add: stable_def reflpD)

lemma stable_block:
  assumes "reflp R" and "transp R" and "list_all (stable R) fs"
  shows "stable R (block fs)"
  using assms(3)
proof (induction fs)
  case Nil
  have "block [] = (\<lambda>w. (None, w))" by (rule ext) simp
  then show ?case using stable_skip [OF assms(1)] by simp
next
  case (Cons f fs)
  have "block (f # fs) = seq f (block fs)" by (rule ext) simp
  then show ?case using Cons stable_seq [OF assms(2)] by simp
qed

lemma stable_for_in:
  assumes "reflp R" and "transp R" and "\<And>i. stable R (body i)"
  shows "stable R (for_in xs body)"
proof (induction xs)
  case Nil
  have "for_in [] body = (\<lambda>w. (None, w))" by (rule ext) simp
  then show ?case using stable_skip [OF assms(1)] by simp
next
  case (Cons i xs)
  have "for_in (i # xs) body = seq (body i) (for_in xs body)" by (rule ext) simp
  then show ?case using Cons stable_seq [OF assms(2) assms(3)] by simp
qed

lemma stable_for_range:
  assumes "reflp R" and "transp R" and "\<And>i. stable R (body i)"
  shows "stable R (for_range n body)"
  unfolding for_range_def using assms by (intro stable_for_in) simp_all

lemma other_buffer_kept_refl: "other_buffer_kept kind g g"
  by (cases kind) simp_all

lemma other_buffer_kept_trans:
  "other_buffer_kept kind g g' \<Longrightarrow> other_buffer_kept kind g' g'' \<Longrightarrow> other_buffer_kept kind g g''"
  by (cases kind) simp_all

lemma fill_only_refl: "reflp (fill_only m kind)"
  by (simp add: reflp_def fill_only_def other_buffer_kept_refl)

lemma fill_only_trans: "transp (fill_only m kind)"
  unfolding transp_def fill_only_def
  by (auto intro: other_buffer_kept_trans)

lemma write_vertex_fill_only: "stable (fill_only m kind) (write_vertex (BufferPtr m kind) k f v)"
  by (cases kind) (simp_all add: stable_def write_vertex_def fill_only_def)

lemma write_triangle_fill_only: "stable (fill_only m kind) (write_triangle (BufferPtr m kind) k f v)"
  by (cases kind) (simp_all add: stable_def write_triangle_def fill_only_def)

lemma store_vertex_fill_only: "stable (fill_only m kind) (store_vertex cv (BufferPtr m kind) k f idx)"
proof (rule stableI)
  fix w
  show "fill_only m kind w (snd (store_vertex cv (BufferPtr m kind) k f idx w))"
  proof (cases "getitem (vertices_arg w) idx")
    case (Inl e)
    then show ?thesis using reflpD [OF fill_only_refl] by (simp add: store_vertex_def)
  next
    case (Inr v)
    show ?thesis
    proof (cases "cv v")
      case (Inl e)
      then show ?thesis using Inr reflpD [OF fill_only_refl] by (simp add: store_vertex_def)
    next
      case x: (Inr x)
      have "fill_only m kind w (snd (write_vertex (BufferPtr m kind) k f x w))"
        by (rule stableD [OF write_vertex_fill_only])
      then show ?thesis using Inr x by (simp add: store_vertex_def)
    qed
  qed
qed

lemma store_triangle_fill_only: "stable (fill_only m kind) (store_triangle (BufferPtr m kind) k f idx)"
proof (rule stableI)
  fix w
  show "fill_only m kind w (snd (store_triangle (BufferPtr m kind) k f idx w))"
  proof (cases "indices_arg w")
    case None
    then show ?thesis using reflpD [OF fill_only_refl] by (simp add: store_triangle_def)
  next
    case (Some arr)
    show ?thesis
    proof (cases "getitem arr idx")
      case (Inl e)
      then show ?thesis using Some reflpD [OF fill_only_refl] by (simp add: store_triangle_def)
    next
      case (Inr v)
      show ?thesis
      proof (cases "as_c_int v")
        case (Inl e)
        then show ?thesis
          using Some Inr reflpD [OF fill_only_refl] by (simp add: store_triangle_def)
      next
        case c: (Inr c)
        have "fill_only m kind w (snd (write_triangle (BufferPtr m kind) k f c w))"
          by (rule stableD [OF write_triangle_fill_only])
        then show ?thesis using Some Inr c by (simp add: store_triangle_def)
      qed
    qed
  qed
qed

lemmas fill_only_intros =
  stable_for_range [OF fill_only_refl fill_only_trans]
  stable_block [OF fill_only_refl fill_only_trans]

lemma copy_vertices_fill_only: "stable (fill_only m kind) (copy_vertices cv (BufferPtr m kind) n)"
  unfolding copy_vertices_def
  by (intro fill_only_intros) (simp add: store_vertex_fill_only)

lemma flat_vertex_fill_only: "stable (fill_only m kind) (flat_vertex_fill cv (BufferPtr m kind) n)"
  unfolding flat_vertex_fill_def
  by (intro fill_only_intros) (simp add: store_vertex_fill_only)

lemma flat_index_fill_only: "stable (fill_only m kind) (flat_index_fill (BufferPtr m kind) n)"
  unfolding flat_index_fill_def
  by (intro fill_only_intros) (simp add: write_triangle_fill_only)

lemma indices_index_fill_only: "stable (fill_only m kind) (indices_index_fill (BufferPtr m kind) n)"
  unfolding indices_index_fill_def
  by (intro fill_only_intros) (simp add: store_triangle_fill_only)

lemma triangles_index_fill_only: "stable (fill_only m kind) (triangles_index_fill (BufferPtr m kind) n)"
  unfolding triangles_index_fill_def Let_def
  by (intro fill_only_intros) (simp add: store_triangle_fill_only)

lemma quads_index_fill_only: "stable (fill_only m kind) (quads_index_fill (BufferPtr m kind) n)"
  unfolding quads_index_fill_def Let_def
  by (intro fill_only_intros) (simp add: store_triangle_fill_only)

subsection \<open>How a run can end\<close>

lemma build_from_flat_frame:
  "build_from_flat cv w =
     (case shape_at (vertices_arg w) 0 of
        Inl e \<Rightarrow> (Some e, w)
      | Inr n0 \<Rightarrow>
          block (frame (geom_count (scene w)) (c_int (int n0)) (c_int (c_int (int n0) * 3))
            (\<lambda>p. flat_vertex_fill cv p (c_int (int n0))) (\<lambda>p. flat_index_fill p (c_int (int n0)))) w)"
  by (simp add: build_from_flat_def frame_def Let_def seq_def call_def rtcNewTriangleMesh_def
      rtcMapBuffer_def split: sum.splits prod.splits option.splits)

lemma build_indexed_frame:
  "build_indexed cv count fill w =
     (case shape_at (vertices_arg w) 0 of
        Inl e \<Rightarrow> (Some e, w)
      | Inr n0 \<Rightarrow>
          (case indices_arg w of
             None \<Rightarrow> (Some UndefinedBehaviour, w)
           | Some arr \<Rightarrow>
               (case shape_at arr 0 of
                  Inl e \<Rightarrow> (Some e, w)
                | Inr n1 \<Rightarrow>
                    block (frame (geom_count (scene w)) (count (c_int (int n1))) (c_int (int n0))
                      (\<lambda>p. copy_vertices cv p (c_int (int n0))) (\<lambda>p. fill p (c_int (int n1)))) w)))"
  by (simp add: build_indexed_def frame_def Let_def seq_def call_def rtcNewTriangleMesh_def
      rtcMapBuffer_def split: sum.splits prod.splits option.splits)

lemma mapped_after_map_V: "(\<lambda>k. False)(RTC_VERTEX_BUFFER := True) = (\<lambda>k. k = RTC_VERTEX_BUFFER)"
  by (auto simp: fun_eq_iff)

lemma mapped_after_map_I:
  "(\<lambda>k. k = RTC_VERTEX_BUFFER)(RTC_VERTEX_BUFFER := False, RTC_INDEX_BUFFER := True)
     = (\<lambda>k. k = RTC_INDEX_BUFFER)"
  by (auto simp: fun_eq_iff)

lemma mapped_after_unmap_I: "(\<lambda>k. k = RTC_INDEX_BUFFER)(RTC_INDEX_BUFFER := False) = (\<lambda>k. False)"
  by (auto simp: fun_eq_iff)

lemma frame_outcome:
  assumes vf: "stable (fill_only m RTC_VERTEX_BUFFER) (vfill (BufferPtr m RTC_VERTEX_BUFFER))"
    and "if": "stable (fill_only m RTC_INDEX_BUFFER) (ifill (BufferPtr m RTC_INDEX_BUFFER))"
    and m: "m = geom_count (scene w)"
    and r: "block (frame m nt nv vfill ifill) w = (r, w')"
  shows "vertices_arg w' = vertices_arg w \<and> indices_arg w' = indices_arg w
    \<and> geom_count (scene w') = Suc m
    \<and> numTriangles (the_geom w' m) = nt \<and> numVertices (the_geom w' m) = nv
    \<and> frame_end m nt nv r (new_events w w') (mapped (the_geom w' m))"
proof -
  define w2 where "w2 = snd (rtcMapBuffer m RTC_VERTEX_BUFFER (snd (rtcNewTriangleMesh nt nv w)))"
  have w2: "vertices_arg w2 = vertices_arg w" "indices_arg w2 = indices_arg w"
    "geom_count (scene w2) = Suc m" "numTriangles (the_geom w2 m) = nt"
    "numVertices (the_geom w2 m) = nv"
    "mapped (the_geom w2 m) = (\<lambda>k. k = RTC_VERTEX_BUFFER)"
    "trace (scene w2) = trace (scene w) @ vertex_phase m nt nv []"
    unfolding w2_def
    by (simp_all add: rtcNewTriangleMesh_fill rtcMapBuffer_fill m new_geometry_simps
        mapped_after_map_V vertex_phase_def)
  obtain r3 w3 where f3: "vfill (BufferPtr m RTC_VERTEX_BUFFER) w2 = (r3, w3)"
    by (cases "vfill (BufferPtr m RTC_VERTEX_BUFFER) w2")
  have "fill_only m RTC_VERTEX_BUFFER w2 w3" using stableD [OF vf, of w2] f3 by simp
  then obtain ws1 where w3: "vertices_arg w3 = vertices_arg w" "indices_arg w3 = indices_arg w"
    "geom_count (scene w3) = Suc m" "numTriangles (the_geom w3 m) = nt"
    "numVertices (the_geom w3 m) = nv"
    "mapped (the_geom w3 m) = (\<lambda>k. k = RTC_VERTEX_BUFFER)"
    "trace (scene w3) = trace (scene w) @ vertex_phase m nt nv ws1"
    "list_all (is_write m RTC_VERTEX_BUFFER) ws1"
    using w2 unfolding fill_only_def by (auto simp: vertex_phase_def)
  show ?thesis
  proof (cases r3)
    case (Some e)
    then have "r = Some e" "w' = w3"
      using r f3 by (simp_all add: frame_def seq_def call_def w2_def)
    moreover have "frame_end m nt nv (Some e) (new_events w w3) (mapped (the_geom w3 m))"
      unfolding frame_end_def
      by (rule exI [of _ ws1], rule exI [of _ "[]"]) (simp add: w3 new_events_def)
    ultimately show ?thesis using w3 by simp
  next
    case None
    define w5 where "w5 = snd (rtcMapBuffer m RTC_INDEX_BUFFER (rtcUnmapBuffer m RTC_VERTEX_BUFFER w3))"
    have w5: "vertices_arg w5 = vertices_arg w" "indices_arg w5 = indices_arg w"
      "geom_count (scene w5) = Suc m" "numTriangles (the_geom w5 m) = nt"
      "numVertices (the_geom w5 m) = nv"
      "mapped (the_geom w5 m) = (\<lambda>k. k = RTC_INDEX_BUFFER)"
      "trace (scene w5) = trace (scene w) @ index_phase m nt nv ws1 []"
      unfolding w5_def
      using w3 by (simp_all add: rtcMapBuffer_def rtcUnmapBuffer_def mapped_after_map_I
          index_phase_def)
    obtain r6 w6 where f6: "ifill (BufferPtr m RTC_INDEX_BUFFER) w5 = (r6, w6)"
      by (cases "ifill (BufferPtr m RTC_INDEX_BUFFER) w5")
    have "fill_only m RTC_INDEX_BUFFER w5 w6" using stableD [OF "if", of w5] f6 by simp
    then obtain ws2 where w6: "vertices_arg w6 = vertices_arg w" "indices_arg w6 = indices_arg w"
      "geom_count (scene w6) = Suc m" "numTriangles (the_geom w6 m) = nt"
      "numVertices (the_geom w6 m) = nv"
      "mapped (the_geom w6 m) = (\<lambda>k. k = RTC_INDEX_BUFFER)"
      "trace (scene w6) = trace (scene w) @ index_phase m nt nv ws1 ws2"
      "list_all (is_write m RTC_INDEX_BUFFER) ws2"
      using w5 unfolding fill_only_def by (auto simp: index_phase_def)
    show ?thesis
    proof (cases r6)
      case (Some e)
      then have "r = Some e" "w' = w6"
        using r f3 f6 None by (simp_all add: frame_def seq_def call_def w2_def w5_def)
      moreover have "frame_end m nt nv (Some e) (new_events w w6) (mapped (the_geom w6 m))"
        unfolding frame_end_def
        by (rule exI [of _ ws1], rule exI [of _ ws2]) (simp add: w3(8) w6 new_events_def)
      ultimately show ?thesis using w6 by simp
    next
      case None': None
      have "r = None" and w': "w' = set_self (BufferPtr m RTC_VERTEX_BUFFER)
          (BufferPtr m RTC_INDEX_BUFFER) m (rtcUnmapBuffer m RTC_INDEX_BUFFER w6)"
        using r f3 f6 None None' by (simp_all add: frame_def seq_def call_def w2_def w5_def)
      have fin: "vertices_arg w' = vertices_arg w" "indices_arg w' = indices_arg w"
        "geom_count (scene w') = Suc m" "numTriangles (the_geom w' m) = nt"
        "numVertices (the_geom w' m) = nv"
        "mapped (the_geom w' m) = (\<lambda>k. False)"
        "trace (scene w') = trace (scene w) @ finished m nt nv ws1 ws2"
        unfolding w' using w6
        by (simp_all add: set_self_def rtcUnmapBuffer_def the_geom_def log_event_def upd_geom_def
            mapped_after_unmap_I finished_def)
      have "frame_end m nt nv None (new_events w w') (mapped (the_geom w' m))"
        unfolding frame_end_def
        by (rule exI [of _ ws1], rule exI [of _ ws2]) (simp add: w3(8) w6(8) fin new_events_def)
      then show ?thesis using \<open>r = None\<close> fin by simp
    qed
  qed
qed

subsection \<open>The protocol on the log of a run\<close>







lemma frame_allocated_run:
  assumes "stable (fill_only (new_mesh w) RTC_VERTEX_BUFFER) (vfill (BufferPtr (new_mesh w) RTC_VERTEX_BUFFER))"
    and "stable (fill_only (new_mesh w) RTC_INDEX_BUFFER) (ifill (BufferPtr (new_mesh w) RTC_INDEX_BUFFER))"
    and "block (frame (new_mesh w) nt nv vfill ifill) w = (r, w')"
  shows "allocated_run w r w'"
  using frame_outcome [OF assms(1,2) _ assms(3)]
  by (simp add: allocated_run_def new_mesh_def)

lemma build_from_flat_outcome:
  assumes "build_from_flat cv w = (r, w')"
  shows "if shape (vertices_arg w) \<noteq> [] then allocated_run w r w'
     else w' = w \<and> r = Some UndefinedBehaviour"
proof (cases "shape_at (vertices_arg w) 0")
  case (Inl e)
  then show ?thesis using assms by (auto simp: build_from_flat_frame shape_at_def split: if_splits)
next
  case (Inr n0)
  then have ne: "shape (vertices_arg w) \<noteq> []" by (auto simp: shape_at_def split: if_splits)
  have "block (frame (new_mesh w) (c_int (int n0)) (c_int (c_int (int n0) * 3))
            (\<lambda>p. flat_vertex_fill cv p (c_int (int n0))) (\<lambda>p. flat_index_fill p (c_int (int n0)))) w
      = (r, w')"
    using assms Inr by (simp add: build_from_flat_frame new_mesh_def)
  then have "allocated_run w r w'"
    by (rule frame_allocated_run [rotated 2]) (rule flat_vertex_fill_only flat_index_fill_only)+
  then show ?thesis using ne by simp
qed

lemma build_indexed_outcome:
  assumes "build_indexed cv count fill w = (r, w')"
    and fill: "\<And>m n. stable (fill_only m RTC_INDEX_BUFFER) (fill (BufferPtr m RTC_INDEX_BUFFER) n)"
  shows "if dims_exist w \<and> indices_arg w \<noteq> None then allocated_run w r w'
     else w' = w \<and> r = Some UndefinedBehaviour"
proof (cases "shape_at (vertices_arg w) 0")
  case (Inl e)
  then show ?thesis
    using assms(1) by (auto simp: build_indexed_frame shape_at_def dims_exist_def split: if_splits)
next
  case n0: (Inr n0)
  then have ne: "shape (vertices_arg w) \<noteq> []" by (auto simp: shape_at_def split: if_splits)
  show ?thesis
  proof (cases "indices_arg w")
    case None
    then show ?thesis using assms(1) n0 by (simp add: build_indexed_frame)
  next
    case (Some arr)
    show ?thesis
    proof (cases "shape_at arr 0")
      case (Inl e)
      then show ?thesis
        using assms(1) n0 Some
        by (auto simp: build_indexed_frame shape_at_def dims_exist_def split: if_splits)
    next
      case (Inr n1)
      then have ne': "shape arr \<noteq> []" by (auto simp: shape_at_def split: if_splits)
      have "block (frame (new_mesh w) (count (c_int (int n1))) (c_int (int n0))
                      (\<lambda>p. copy_vertices cv p (c_int (int n0))) (\<lambda>p. fill p (c_int (int n1)))) w
          = (r, w')"
        using assms(1) n0 Some Inr by (simp add: build_indexed_frame new_mesh_def)
      then have "allocated_run w r w'"
        by (rule frame_allocated_run [rotated 2]) (rule copy_vertices_fill_only fill)+
      then show ?thesis using ne ne' Some by (simp add: dims_exist_def)
    qed
  qed
qed

lemma TriangleMesh_init_outcome:
  assumes "TriangleMesh_init cv w = (r, w')"
  shows "if dims_exist w then allocated_run w r w' else w' = w \<and> r = Some UndefinedBehaviour"
proof (cases "indices_arg w")
  case None
  then show ?thesis
    using assms build_from_flat_outcome [of cv w r w']
    by (simp add: TriangleMesh_init_def dims_exist_def)
next
  case (Some arr)
  then have "build_indexed cv (\<lambda>nt. nt) indices_index_fill w = (r, w')"
    using assms by (simp add: TriangleMesh_init_def build_from_indices_def)
  then have "if dims_exist w \<and> indices_arg w \<noteq> None then allocated_run w r w'
     else w' = w \<and> r = Some UndefinedBehaviour"
    by (rule build_indexed_outcome) (rule indices_index_fill_only)
  then show ?thesis using Some by simp
qed

lemma ElementMesh_init_outcome:
  assumes "ElementMesh_init cv w = (r, w')"
  shows "if dims_exist w \<and> arity_supported w then allocated_run w r w'
     else w' = w \<and> (r = Some UndefinedBehaviour \<or> r = Some NotImplementedError)"
proof (cases "indices_arg w")
  case None
  then show ?thesis using assms by (simp add: ElementMesh_init_def arity_supported_def)
next
  case (Some arr)
  show ?thesis
  proof (cases "shape_at arr 1")
    case (Inl e)
    then show ?thesis
      using assms Some
      by (auto simp: ElementMesh_init_def shape_at_def arity_supported_def split: if_splits)
  next
    case (Inr d)
    then have d: "1 < length (shape arr)" "shape arr ! 1 = d"
      by (auto simp: shape_at_def split: if_splits)
    consider "d = 8" | "d \<noteq> 8" "d = 4" | "d \<noteq> 8" "d \<noteq> 4" by blast
    then show ?thesis
    proof cases
      case 1
      then have "build_indexed cv (\<lambda>ne. c_int (c_int (6 * 2) * ne)) quads_index_fill w = (r, w')"
        using assms Some Inr by (simp add: ElementMesh_init_def build_from_quads_def)
      then have "if dims_exist w \<and> indices_arg w \<noteq> None then allocated_run w r w'
         else w' = w \<and> r = Some UndefinedBehaviour"
        by (rule build_indexed_outcome) (rule quads_index_fill_only)
      then show ?thesis using Some d 1 by (auto simp: arity_supported_def)
    next
      case 2
      then have "build_indexed cv (\<lambda>ne. c_int (4 * ne)) triangles_index_fill w = (r, w')"
        using assms Some Inr by (simp add: ElementMesh_init_def build_from_triangles_def)
      then have "if dims_exist w \<and> indices_arg w \<noteq> None then allocated_run w r w'
         else w' = w \<and> r = Some UndefinedBehaviour"
        by (rule build_indexed_outcome) (rule triangles_index_fill_only)
      then show ?thesis using Some d 2 by (auto simp: arity_supported_def)
    next
      case 3
      then show ?thesis
        using assms Some Inr d by (simp add: ElementMesh_init_def arity_supported_def)
    qed
  qed
qed

lemma allocated_run_counts:
  assumes "stable (fill_only (new_mesh w) RTC_VERTEX_BUFFER) (vfill (BufferPtr (new_mesh w) RTC_VERTEX_BUFFER))"
    and "stable (fill_only (new_mesh w) RTC_INDEX_BUFFER) (ifill (BufferPtr (new_mesh w) RTC_INDEX_BUFFER))"
  shows "numTriangles (the_geom (snd (block (frame (new_mesh w) nt nv vfill ifill) w)) (new_mesh w)) = nt"
    and "numVertices (the_geom (snd (block (frame (new_mesh w) nt nv vfill ifill) w)) (new_mesh w)) = nv"
  using frame_outcome [where vfill = vfill and ifill = ifill and m = "new_mesh w" and w = w
      and nt = nt and nv = nv and r = "fst (block (frame (new_mesh w) nt nv vfill ifill) w)"
      and w' = "snd (block (frame (new_mesh w) nt nv vfill ifill) w)", OF assms]
  by (simp_all add: new_mesh_def)

lemma build_indexed_counts:
  assumes "indices_arg w = Some arr"
    and "shape (vertices_arg w) = n0 # vs" and "shape arr = n1 # is"
    and fill: "\<And>m n. stable (fill_only m RTC_INDEX_BUFFER) (fill (BufferPtr m RTC_INDEX_BUFFER) n)"
  shows "numTriangles (the_geom (snd (build_indexed cv count fill w)) (new_mesh w)) = count (c_int (int n1))"
    and "numVertices (the_geom (snd (build_indexed cv count fill w)) (new_mesh w)) = c_int (int n0)"
  using assms(1-3)
    allocated_run_counts [where w = w and vfill = "\<lambda>p. copy_vertices cv p (c_int (int n0))"
      and ifill = "\<lambda>p. fill p (c_int (int n1))" and nt = "count (c_int (int n1))"
      and nv = "c_int (int n0)", OF copy_vertices_fill_only fill]
  by (simp_all add: build_indexed_frame shape_at_def new_mesh_def)

lemma build_from_flat_counts:
  assumes "shape (vertices_arg w) = n0 # vs"
  shows "numTriangles (the_geom (snd (build_from_flat cv w)) (new_mesh w)) = c_int (int n0)"
    and "numVertices (the_geom (snd (build_from_flat cv w)) (new_mesh w)) = c_int (c_int (int n0) * 3)"
  using assms
    allocated_run_counts [where w = w and vfill = "\<lambda>p. flat_vertex_fill cv p (c_int (int n0))"
      and ifill = "\<lambda>p. flat_index_fill p (c_int (int n0))" and nt = "c_int (int n0)"
      and nv = "c_int (c_int (int n0) * 3)", OF flat_vertex_fill_only flat_index_fill_only]
  by (simp_all add: build_from_flat_frame shape_at_def new_mesh_def)

text \<open>The index fill, however it ends, leaves the vertex buffer as the vertex fill left it.\<close>

lemma frame_vertex_buffer:
  assumes "if": "stable (fill_only m RTC_INDEX_BUFFER) (ifill (BufferPtr m RTC_INDEX_BUFFER))"
    and v: "vfill (BufferPtr m RTC_VERTEX_BUFFER)
        (snd (rtcMapBuffer m RTC_VERTEX_BUFFER (snd (rtcNewTriangleMesh nt nv w)))) = (None, w3)"
  shows "vertex_buffer (the_geom (snd (block (frame m nt nv vfill ifill) w)) m)
       = vertex_buffer (the_geom w3 m)"
proof -
  define w5 where "w5 = snd (rtcMapBuffer m RTC_INDEX_BUFFER (rtcUnmapBuffer m RTC_VERTEX_BUFFER w3))"
  have w5: "vertex_buffer (the_geom w5 m) = vertex_buffer (the_geom w3 m)"
    unfolding w5_def by (simp add: rtcMapBuffer_def rtcUnmapBuffer_def)
  obtain r6 w6 where f6: "ifill (BufferPtr m RTC_INDEX_BUFFER) w5 = (r6, w6)"
    by (cases "ifill (BufferPtr m RTC_INDEX_BUFFER) w5")
  have "fill_only m RTC_INDEX_BUFFER w5 w6" using stableD [OF "if", of w5] f6 by simp
  then have w6: "vertex_buffer (the_geom w6 m) = vertex_buffer (the_geom w3 m)"
    using w5 by (simp add: fill_only_def)
  show ?thesis
  proof (cases r6)
    case None
    then have "snd (block (frame m nt nv vfill ifill) w)
        = set_self (BufferPtr m RTC_VERTEX_BUFFER) (BufferPtr m RTC_INDEX_BUFFER) m
            (rtcUnmapBuffer m RTC_INDEX_BUFFER w6)"
      using v f6 by (simp add: frame_def seq_def call_def w5_def)
    then show ?thesis
      using w6 by (simp add: set_self_def rtcUnmapBuffer_def the_geom_def log_event_def upd_geom_def)
  next
    case (Some e)
    then have "snd (block (frame m nt nv vfill ifill) w) = w6"
      using v f6 by (simp add: frame_def seq_def call_def w5_def)
    then show ?thesis using w6 by simp
  qed
qed

lemma build_indexed_vertex_buffer:
  assumes arr: "indices_arg w = Some arr" and sh: "shape arr = n1 # is"
    and shv: "shape (vertices_arg w) = [nv, 3]" and nv: "int nv \<le> INT_MAX"
    and cvt: "converted cv (vertices_arg w) b"
    and fill: "\<And>m n. stable (fill_only m RTC_INDEX_BUFFER) (fill (BufferPtr m RTC_INDEX_BUFFER) n)"
    and i: "i < nv"
  shows "vertex_buffer (the_geom (snd (build_indexed cv count fill w)) (new_mesh w)) i
       = vertex_row b i"
proof -
  let ?m = "geom_count (scene w)"
  let ?nt = "count (c_int (int n1))"
  have cnv: "c_int (int nv) = int nv" using nv by (intro c_int_id) (simp_all add: INT_MAX_def)
  have shv': "shape (vertices_arg (bump w)) = [nv, 3]" using shv by simp
  have cvt': "converted cv (vertices_arg (bump w)) b" using cvt by simp
  have v: "copy_vertices cv (BufferPtr ?m RTC_VERTEX_BUFFER) (int nv)
      (snd (rtcMapBuffer ?m RTC_VERTEX_BUFFER (snd (rtcNewTriangleMesh ?nt (int nv) w))))
     = (None, fill_world ?m
          (\<lambda>g. copied_vertices b nv
             ((new_geometry ?nt (int nv))\<lparr>mapped := (mapped (new_geometry ?nt (int nv)))(RTC_VERTEX_BUFFER := True)\<rparr>))
          ([NewTriangleMesh ?m ?nt (int nv), MapBuffer ?m RTC_VERTEX_BUFFER]
            @ writes ?m RTC_VERTEX_BUFFER 3 nv) (bump w))"
    using copy_vertices_fill [OF shv' cvt', where m = ?m
        and f = "\<lambda>g. (new_geometry ?nt (int nv))\<lparr>mapped := (mapped (new_geometry ?nt (int nv)))(RTC_VERTEX_BUFFER := True)\<rparr>"
        and evs = "[NewTriangleMesh ?m ?nt (int nv), MapBuffer ?m RTC_VERTEX_BUFFER]"]
    by (simp add: rtcNewTriangleMesh_fill rtcMapBuffer_fill new_geometry_simps)
  have "vertex_buffer (the_geom (snd (block (frame ?m ?nt (int nv)
            (\<lambda>p. copy_vertices cv p (int nv)) (\<lambda>p. fill p (c_int (int n1)))) w)) ?m) i
      = vertex_row b i"
    by (subst frame_vertex_buffer [where ifill = "\<lambda>p. fill p (c_int (int n1))"
          and vfill = "\<lambda>p. copy_vertices cv p (int nv)", OF fill v]) (simp add: i)
  then show ?thesis
    using arr sh shv by (simp add: build_indexed_frame shape_at_def cnv new_mesh_def)
qed












lemma all_convert_converted:
  assumes "all_convert cv a"
  shows "converted cv a \<lparr>shape = shape a, item = (\<lambda>ks. projr (cv (item a ks)))\<rparr>"
  using assms by (simp add: all_convert_def converted_def list_all_iff)


lemma vertex_set_simps [simp]: "vertex_set (vertex_row b i)" "vertex_set (flat_vertex b s)"
  by (simp_all add: vertex_row_def flat_vertex_def)

lemma triangle_set_simps [simp]:
  "triangle_set (table_triangle arr tbl e k)" "triangle_set (flat_triangle s)"
  by (simp_all add: table_triangle_def flat_triangle_def split: prod.splits)



lemma bit_length_eval:
  "n \<le> 0 \<Longrightarrow> bit_length n = 0"
  "0 < n \<Longrightarrow> bit_length n = Suc (bit_length (n div 2))"
  by (subst bit_length.simps, simp)+

lemma bit_length_le: "n < 2 ^ p \<Longrightarrow> bit_length n \<le> p"
proof (induction n arbitrary: p rule: bit_length.induct)
  case (1 n)
  show ?case
  proof (cases "n \<le> 0")
    case True
    then show ?thesis by (simp add: bit_length.simps)
  next
    case False
    with "1.prems" obtain p' where p: "p = Suc p'" by (cases p) auto
    then have "n div 2 < 2 ^ p'" using "1.prems" by auto
    then have "bit_length (n div 2) \<le> p'" using "1.IH" [OF False] by simp
    then show ?thesis using False p by (subst bit_length.simps) simp
  qed
qed

lemma round_to_exact: "\<bar>v\<bar> < 2 ^ p \<Longrightarrow> round_to p v = v"
proof -
  assume "\<bar>v\<bar> < 2 ^ p"
  then have "bit_length \<bar>v\<bar> - p = 0" using bit_length_le by simp
  then show ?thesis by (simp add: round_to_def Let_def mult_sgn_abs)
qed

lemma single_of_int_exact: "\<bar>v\<bar> < 2 ^ 24 \<Longrightarrow> single_of_int v = Inr v"
proof -
  assume v: "\<bar>v\<bar> < 2 ^ 24"
  then have "\<bar>v\<bar> < 2 ^ 53" by simp
  then show ?thesis using v by (simp add: single_of_int_def round_to_exact)
qed

lemma all_convert_single [simp]: "all_convert single_of_int a"
  by (simp add: all_convert_def single_of_int_def list_all_iff)

lemma construct_simps [simp]:
  "vertices_arg (construct va ia) = va"
  "indices_arg (construct va ia) = ia"
  "new_mesh (construct va ia) = 0"
  "geom_count (scene (construct va ia)) = 0"
  "trace (scene (construct va ia)) = []"
  by (simp_all add: construct_def fresh_scene_def new_mesh_def)

lemma input_simps [simp]:
  "shape (grid n d) = [n, d]"
  "item (grid n d) idx = 10 * int (idx ! 0) + int (idx ! 1)"
  "shape (soup n c) = [n, c, 3]"
  "item (soup n c) idx = 100 * int (idx ! 0) + 10 * int (idx ! 1) + int (idx ! 2)"
  "shape (index_rows n d) = [n, d]"
  "item (index_rows n d) idx = int (idx ! 0) + int (idx ! 1)"
  "shape (array2 rs) = [length rs, length (hd rs)]"
  "item (array2 rs) idx = rs ! (idx ! 0) ! (idx ! 1)"
  "shape (array3 ps) = [length ps, length (hd ps), length (hd (hd ps))]"
  "item (array3 ps) idx = ps ! (idx ! 0) ! (idx ! 1) ! (idx ! 2)"
  by (simp_all add: grid_def soup_def index_rows_def array2_def array3_def)

lemma all1D: "\<forall>i<n. P i \<Longrightarrow> i < n \<Longrightarrow> P i" for n :: nat
  by simp

lemma all2D: "\<forall>i<n. \<forall>j<c. P i j \<Longrightarrow> i < n \<Longrightarrow> j < c \<Longrightarrow> P i j" for n c :: nat
  by simp

lemmas exec_defs =
  ElementMesh_init_def TriangleMesh_init_def build_from_quads_def build_from_triangles_def
  build_from_indices_def build_from_flat_def build_indexed_def shape_at_def
  quads_index_fill_def triangles_index_fill_def indices_index_fill_def copy_vertices_def
  flat_vertex_fill_def flat_index_fill_def for_range_def
  store_vertex_def store_triangle_def write_vertex_def write_triangle_def
  as_c_int_def INT_MIN_def INT_MAX_def
  getitem_def norm_index_def rtcNewTriangleMesh_def rtcMapBuffer_def rtcUnmapBuffer_def
  set_self_def call_def seq_def log_event_def upd_geom_def the_geom_def new_geometry_def
  c_int_def Let_def construct_def fresh_scene_def new_self_def new_mesh_def new_events_def

lemma frame_no_vertices:
  assumes "if": "stable (fill_only m RTC_INDEX_BUFFER) (ifill (BufferPtr m RTC_INDEX_BUFFER))"
    and m: "m = geom_count (scene w)" and nv: "nv \<le> 0"
  shows "vertex_buffer (the_geom (snd (block (frame m nt nv (\<lambda>p. copy_vertices cv p nv) ifill) w)) m)
       = (\<lambda>k. Vertex None None None)"
proof -
  let ?w2 = "snd (rtcMapBuffer m RTC_VERTEX_BUFFER (snd (rtcNewTriangleMesh nt nv w)))"
  have v: "copy_vertices cv (BufferPtr m RTC_VERTEX_BUFFER) nv ?w2 = (None, ?w2)"
    using nv by (simp add: copy_vertices_def for_range_def)
  have "vertex_buffer (the_geom ?w2 m) = (\<lambda>k. Vertex None None None)"
    by (simp add: rtcNewTriangleMesh_fill rtcMapBuffer_fill m new_geometry_simps)
  then show ?thesis
    using frame_vertex_buffer [where ifill = ifill and vfill = "\<lambda>p. copy_vertices cv p nv", OF "if" v]
    by simp
qed

lemma build_indexed_no_vertices:
  assumes "indices_arg w = Some arr"
    and "shape (vertices_arg w) = n0 # vs" and "shape arr = n1 # is"
    and "c_int (int n0) \<le> 0"
    and fill: "\<And>m n. stable (fill_only m RTC_INDEX_BUFFER) (fill (BufferPtr m RTC_INDEX_BUFFER) n)"
  shows "vertex_buffer (the_geom (snd (build_indexed cv count fill w)) (new_mesh w))
       = (\<lambda>k. Vertex None None None)"
  using assms(1-3)
    frame_no_vertices [where ifill = "\<lambda>p. fill p (c_int (int n1))" and m = "new_mesh w" and w = w
      and nv = "c_int (int n0)" and nt = "count (c_int (int n1))", OF fill _ assms(4)]
  by (simp add: build_indexed_frame shape_at_def new_mesh_def)

lemma ElementMesh_init_vertex_copy:
  assumes arr: "indices_arg w = Some arr" and sh: "shape arr = [ne, d]" and d: "d = 8 \<or> d = 4"
    and shv: "shape (vertices_arg w) = [nv, 3]" and nv: "int nv \<le> INT_MAX"
    and cvt: "converted cv (vertices_arg w) b"
  shows "numVertices (the_geom (snd (ElementMesh_init cv w)) (new_mesh w)) = int nv"
    and "i < nv \<Longrightarrow> vertex_buffer (the_geom (snd (ElementMesh_init cv w)) (new_mesh w)) i
       = vertex_row b i"
proof -
  have cnv: "c_int (int nv) = int nv" using nv by (intro c_int_id) (simp_all add: INT_MAX_def)
  from d have "numVertices (the_geom (snd (ElementMesh_init cv w)) (new_mesh w)) = int nv
    \<and> (i < nv \<longrightarrow> vertex_buffer (the_geom (snd (ElementMesh_init cv w)) (new_mesh w)) i
       = vertex_row b i)"
  proof
    assume "d = 8"
    then have "ElementMesh_init cv w = build_indexed cv (\<lambda>ne. c_int (c_int (6 * 2) * ne)) quads_index_fill w"
      using arr sh by (simp add: ElementMesh_init_def shape_at_def build_from_quads_def)
    then show ?thesis
      using build_indexed_counts(2) [OF arr shv sh quads_index_fill_only]
        build_indexed_vertex_buffer [OF arr sh shv nv cvt quads_index_fill_only]
      by (simp add: cnv)
  next
    assume "d = 4"
    then have "ElementMesh_init cv w = build_indexed cv (\<lambda>ne. c_int (4 * ne)) triangles_index_fill w"
      using arr sh by (simp add: ElementMesh_init_def shape_at_def build_from_triangles_def)
    then show ?thesis
      using build_indexed_counts(2) [OF arr shv sh triangles_index_fill_only]
        build_indexed_vertex_buffer [OF arr sh shv nv cvt triangles_index_fill_only]
      by (simp add: cnv)
  qed
  then show "numVertices (the_geom (snd (ElementMesh_init cv w)) (new_mesh w)) = int nv"
    and "i < nv \<Longrightarrow> vertex_buffer (the_geom (snd (ElementMesh_init cv w)) (new_mesh w)) i
       = vertex_row b i"
    by simp_all
qed

subsection \<open>Two runs on equal inputs\<close>

lemma resolve_in_range:
  "resolve idx ns = Some ks \<Longrightarrow> length idx \<le> length ns \<and> list_all2 (<) ks (take (length idx) ns)"
proof (induction idx ns arbitrary: ks rule: resolve.induct)
  case (1 ns)
  then show ?case by simp
next
  case (2 i "is")
  then show ?case by simp
next
  case (3 i "is" n ns)
  from "3.prems" obtain k ks' where k: "norm_index i n = Some k" and r: "resolve is ns = Some ks'"
    and ks: "ks = k # ks'"
    by (auto split: option.splits)
  have "k < n" using k by (auto simp: norm_index_def split: if_splits)
  moreover have "length is \<le> length ns \<and> list_all2 (<) ks' (take (length is) ns)"
    using "3.IH" [OF k r] .
  ultimately show ?case using ks by simp
qed

lemma getitem_same_array:
  assumes "same_array a b"
  shows "getitem a idx = getitem b idx"
proof (cases "resolve idx (shape a)")
  case None
  then show ?thesis using assms by (simp add: getitem_def same_array_def)
next
  case (Some ks)
  let ?rest = "drop (length idx) (shape a)"
  show ?thesis
  proof (cases "list_all (\<lambda>n. n = 1) ?rest")
    case False
    then show ?thesis using assms Some by (simp add: getitem_def same_array_def)
  next
    case True
    have "list_all2 (<) (map (\<lambda>n. 0) ?rest) ?rest"
      using True by (induction ?rest) (simp_all add: list_all2_conv_all_nth list_all_length)
    moreover have "list_all2 (<) ks (take (length idx) (shape a))"
      using resolve_in_range [OF Some] by simp
    ultimately have "list_all2 (<) (ks @ map (\<lambda>n. 0) ?rest) (take (length idx) (shape a) @ ?rest)"
      by (rule list_all2_appendI [rotated])
    then have "item a (ks @ map (\<lambda>n. 0) ?rest) = item b (ks @ map (\<lambda>n. 0) ?rest)"
      using assms by (simp add: same_array_def)
    then show ?thesis using assms Some True by (simp add: getitem_def same_array_def)
  qed
qed

lemma agreeD: "agree R st \<Longrightarrow> R w1 w2 \<Longrightarrow> fst (st w1) = fst (st w2) \<and> R (snd (st w1)) (snd (st w2))"
  by (simp add: agree_def)

lemma agreeI:
  "(\<And>w1 w2. R w1 w2 \<Longrightarrow> fst (st w1) = fst (st w2) \<and> R (snd (st w1)) (snd (st w2))) \<Longrightarrow> agree R st"
  by (simp add: agree_def)

lemma agree_seq:
  assumes "agree R f" and "agree R g"
  shows "agree R (seq f g)"
proof (rule agreeI)
  fix w1 w2 assume R: "R w1 w2"
  obtain r1 v1 where f1: "f w1 = (r1, v1)" by (cases "f w1")
  obtain r2 v2 where f2: "f w2 = (r2, v2)" by (cases "f w2")
  have rr: "r1 = r2" and Rv: "R v1 v2" using agreeD [OF assms(1) R] f1 f2 by simp_all
  show "fst (seq f g w1) = fst (seq f g w2) \<and> R (snd (seq f g w1)) (snd (seq f g w2))"
  proof (cases r1)
    case None
    then show ?thesis using f1 f2 rr agreeD [OF assms(2) Rv] by (simp add: seq_def)
  next
    case (Some e)
    then show ?thesis using f1 f2 rr Rv by (simp add: seq_def)
  qed
qed

lemma agree_skip: "agree R (\<lambda>w. (None, w))"
  by (simp add: agree_def)

lemma agree_block:
  assumes "list_all (agree R) fs"
  shows "agree R (block fs)"
  using assms
proof (induction fs)
  case Nil
  have "block [] = (\<lambda>w. (None, w))" by (rule ext) simp
  then show ?case using agree_skip [of R] by simp
next
  case (Cons f fs)
  have "block (f # fs) = seq f (block fs)" by (rule ext) simp
  then show ?case using Cons agree_seq [of R f "block fs"] by simp
qed

lemma agree_for_in:
  assumes "\<And>i. agree R (body i)"
  shows "agree R (for_in xs body)"
proof (induction xs)
  case Nil
  have "for_in [] body = (\<lambda>w. (None, w))" by (rule ext) simp
  then show ?case using agree_skip [of R] by simp
next
  case (Cons i xs)
  have "for_in (i # xs) body = seq (body i) (for_in xs body)" by (rule ext) simp
  then show ?case using Cons agree_seq [OF assms] by simp
qed

lemma agree_for_range:
  assumes "\<And>i. agree R (body i)"
  shows "agree R (for_range n body)"
  unfolding for_range_def using assms by (intro agree_for_in) simp

lemma agree_call: "(\<And>w1 w2. R w1 w2 \<Longrightarrow> R (f w1) (f w2)) \<Longrightarrow> agree R (call f)"
  by (simp add: agree_def call_def)

lemma write_vertex_agree: "agree (same_run m) (write_vertex (BufferPtr m kind) k f v)"
  by (rule agreeI) (simp add: write_vertex_def same_run_def)

lemma write_triangle_agree: "agree (same_run m) (write_triangle (BufferPtr m kind) k f v)"
  by (rule agreeI) (simp add: write_triangle_def same_run_def)

lemma store_vertex_agree: "agree (same_run m) (store_vertex cv (BufferPtr m kind) k f idx)"
proof (rule agreeI)
  fix w1 w2 :: "('a, 'b) world" assume R: "same_run m w1 w2"
  then have g: "getitem (vertices_arg w1) idx = getitem (vertices_arg w2) idx"
    by (simp add: same_run_def getitem_same_array)
  show "fst (store_vertex cv (BufferPtr m kind) k f idx w1) = fst (store_vertex cv (BufferPtr m kind) k f idx w2)
      \<and> same_run m (snd (store_vertex cv (BufferPtr m kind) k f idx w1))
          (snd (store_vertex cv (BufferPtr m kind) k f idx w2))"
  proof (cases "getitem (vertices_arg w2) idx")
    case (Inl e)
    then show ?thesis using g R by (simp add: store_vertex_def)
  next
    case (Inr v)
    show ?thesis
    proof (cases "cv v")
      case (Inl e)
      then show ?thesis using g Inr R by (simp add: store_vertex_def)
    next
      case x: (Inr x)
      then show ?thesis
        using g Inr agreeD [OF write_vertex_agree R, of kind k f x] by (simp add: store_vertex_def)
    qed
  qed
qed

lemma store_triangle_agree: "agree (same_run m) (store_triangle (BufferPtr m kind) k f idx)"
proof (rule agreeI)
  fix w1 w2 :: "('a, 'b) world" assume R: "same_run m w1 w2"
  then have ro: "rel_option same_array (indices_arg w1) (indices_arg w2)"
    by (simp add: same_run_def)
  show "fst (store_triangle (BufferPtr m kind) k f idx w1) = fst (store_triangle (BufferPtr m kind) k f idx w2)
      \<and> same_run m (snd (store_triangle (BufferPtr m kind) k f idx w1))
          (snd (store_triangle (BufferPtr m kind) k f idx w2))"
  proof (cases "indices_arg w1")
    case None
    then have "indices_arg w2 = None" using ro by (cases "indices_arg w2") simp_all
    then show ?thesis using None R by (simp add: store_triangle_def)
  next
    case (Some a1)
    then obtain a2 where a2: "indices_arg w2 = Some a2" and sa: "same_array a1 a2"
      using ro by (cases "indices_arg w2") simp_all
    have g: "getitem a1 idx = getitem a2 idx" using sa by (rule getitem_same_array)
    show ?thesis
    proof (cases "getitem a2 idx")
      case (Inl e)
      then show ?thesis using g R Some a2 by (simp add: store_triangle_def)
    next
      case (Inr v)
      show ?thesis
      proof (cases "as_c_int v")
        case (Inl e)
        then show ?thesis using g R Some a2 Inr by (simp add: store_triangle_def)
      next
        case c: (Inr c)
        then show ?thesis
          using g Some a2 Inr agreeD [OF write_triangle_agree R, of kind k f c]
          by (simp add: store_triangle_def)
      qed
    qed
  qed
qed

lemmas agree_intros = agree_for_range agree_block

lemma copy_vertices_agree: "agree (same_run m) (copy_vertices cv (BufferPtr m kind) n)"
  unfolding copy_vertices_def
  by (intro agree_intros) (simp add: store_vertex_agree)

lemma flat_vertex_fill_agree: "agree (same_run m) (flat_vertex_fill cv (BufferPtr m kind) n)"
  unfolding flat_vertex_fill_def
  by (intro agree_intros) (simp add: store_vertex_agree)

lemma flat_index_fill_agree: "agree (same_run m) (flat_index_fill (BufferPtr m kind) n)"
  unfolding flat_index_fill_def
  by (intro agree_intros) (simp add: write_triangle_agree)

lemma indices_index_fill_agree: "agree (same_run m) (indices_index_fill (BufferPtr m kind) n)"
  unfolding indices_index_fill_def
  by (intro agree_intros) (simp add: store_triangle_agree)

lemma triangles_index_fill_agree: "agree (same_run m) (triangles_index_fill (BufferPtr m kind) n)"
  unfolding triangles_index_fill_def Let_def
  by (intro agree_intros) (simp add: store_triangle_agree)

lemma quads_index_fill_agree: "agree (same_run m) (quads_index_fill (BufferPtr m kind) n)"
  unfolding quads_index_fill_def Let_def
  by (intro agree_intros) (simp add: store_triangle_agree)

lemma allocated_slot_none [simp]: "allocated_slot w w = None"
  by (simp add: allocated_slot_def)

lemma frame_agree:
  assumes vf: "agree (same_run m) (vfill (BufferPtr m RTC_VERTEX_BUFFER))"
    and "if": "agree (same_run m) (ifill (BufferPtr m RTC_INDEX_BUFFER))"
    and vs: "stable (fill_only m RTC_VERTEX_BUFFER) (vfill (BufferPtr m RTC_VERTEX_BUFFER))"
    and "is": "stable (fill_only m RTC_INDEX_BUFFER) (ifill (BufferPtr m RTC_INDEX_BUFFER))"
    and si: "same_inputs w1 w2" and m: "m = new_mesh w1"
  shows "fst (block (frame m nt nv vfill ifill) w1) = fst (block (frame m nt nv vfill ifill) w2)
    \<and> allocated_slot w1 (snd (block (frame m nt nv vfill ifill) w1))
      = allocated_slot w2 (snd (block (frame m nt nv vfill ifill) w2))"
proof -
  let ?rest = "[call (\<lambda>w. snd (rtcMapBuffer m RTC_VERTEX_BUFFER w)),
      vfill (BufferPtr m RTC_VERTEX_BUFFER),
      call (rtcUnmapBuffer m RTC_VERTEX_BUFFER),
      call (\<lambda>w. snd (rtcMapBuffer m RTC_INDEX_BUFFER w)),
      ifill (BufferPtr m RTC_INDEX_BUFFER),
      call (rtcUnmapBuffer m RTC_INDEX_BUFFER),
      call (set_self (BufferPtr m RTC_VERTEX_BUFFER) (BufferPtr m RTC_INDEX_BUFFER) m)]"
  have m2: "m = new_mesh w2" using si m by (simp add: same_inputs_def)
  have split: "block (frame m nt nv vfill ifill) w = block ?rest (snd (rtcNewTriangleMesh nt nv w))"
    for w :: "('a, 'b) world"
    by (simp add: frame_def seq_def call_def)
  have calls: "agree (same_run m) (call (\<lambda>w. snd (rtcMapBuffer m kind w)))"
    "agree (same_run m) (call (rtcUnmapBuffer m kind))"
    "agree (same_run m) (call (set_self p q m))" for kind p q
    by (rule agree_call, simp add: same_run_def rtcMapBuffer_def rtcUnmapBuffer_def set_self_def
        the_geom_def log_event_def upd_geom_def)+
  have rest: "agree (same_run m) (block ?rest)"
    by (rule agree_block) (simp add: calls vf "if")
  have start: "same_run m (snd (rtcNewTriangleMesh nt nv w1)) (snd (rtcNewTriangleMesh nt nv w2))"
    using si m m2
    by (simp add: same_inputs_def same_run_def rtcNewTriangleMesh_fill new_mesh_def)
  have eq: "fst (block (frame m nt nv vfill ifill) w1) = fst (block (frame m nt nv vfill ifill) w2)"
    and geom: "the_geom (snd (block (frame m nt nv vfill ifill) w1)) m
      = the_geom (snd (block (frame m nt nv vfill ifill) w2)) m"
    using agreeD [OF rest start] by (simp_all add: split same_run_def)
  have c1: "geom_count (scene (snd (block (frame m nt nv vfill ifill) w1))) = Suc m"
    using frame_outcome [where vfill = vfill and ifill = ifill and m = m and w = w1 and nt = nt
        and nv = nv, OF vs "is" _ prod.collapse [symmetric]] m
    by (simp add: new_mesh_def)
  have c2: "geom_count (scene (snd (block (frame m nt nv vfill ifill) w2))) = Suc m"
    using frame_outcome [where vfill = vfill and ifill = ifill and m = m and w = w2 and nt = nt
        and nv = nv, OF vs "is" _ prod.collapse [symmetric]] m2
    by (simp add: new_mesh_def)
  show ?thesis
    using eq geom c1 c2 m m2 by (simp add: allocated_slot_def new_mesh_def)
qed

lemma same_array_shape: "same_array a b \<Longrightarrow> shape a = shape b"
  by (simp add: same_array_def)

lemma build_from_flat_agree:
  assumes "same_inputs w1 w2"
  shows "fst (build_from_flat cv w1) = fst (build_from_flat cv w2)
    \<and> allocated_slot w1 (snd (build_from_flat cv w1)) = allocated_slot w2 (snd (build_from_flat cv w2))"
proof -
  have sh: "shape (vertices_arg w1) = shape (vertices_arg w2)"
    using assms by (simp add: same_inputs_def same_array_shape)
  have m: "geom_count (scene w2) = new_mesh w1" "geom_count (scene w1) = new_mesh w1"
    using assms by (simp_all add: same_inputs_def new_mesh_def)
  have s0: "shape_at (vertices_arg w2) 0 = shape_at (vertices_arg w1) 0"
    using sh by (simp add: shape_at_def)
  show ?thesis
  proof (cases "shape_at (vertices_arg w1) 0")
    case (Inl e)
    then show ?thesis using s0 by (simp add: build_from_flat_frame)
  next
    case (Inr n0)
    then have "shape_at (vertices_arg w2) 0 = Inr n0" using s0 by simp
    then show ?thesis
      using Inr m
        frame_agree [where vfill = "\<lambda>p. flat_vertex_fill cv p (c_int (int n0))"
          and ifill = "\<lambda>p. flat_index_fill p (c_int (int n0))" and m = "new_mesh w1"
          and nt = "c_int (int n0)" and nv = "c_int (c_int (int n0) * 3)",
          OF flat_vertex_fill_agree flat_index_fill_agree
          flat_vertex_fill_only flat_index_fill_only assms refl]
      by (simp add: build_from_flat_frame)
  qed
qed

lemma build_indexed_agree:
  assumes si: "same_inputs w1 w2"
    and fa: "\<And>m n. agree (same_run m) (fill (BufferPtr m RTC_INDEX_BUFFER) n)"
    and fs: "\<And>m n. stable (fill_only m RTC_INDEX_BUFFER) (fill (BufferPtr m RTC_INDEX_BUFFER) n)"
  shows "fst (build_indexed cv count fill w1) = fst (build_indexed cv count fill w2)
    \<and> allocated_slot w1 (snd (build_indexed cv count fill w1))
      = allocated_slot w2 (snd (build_indexed cv count fill w2))"
proof -
  have sh: "shape (vertices_arg w1) = shape (vertices_arg w2)"
    using si by (simp add: same_inputs_def same_array_shape)
  have ro: "rel_option same_array (indices_arg w1) (indices_arg w2)"
    using si by (simp add: same_inputs_def)
  have m: "geom_count (scene w2) = new_mesh w1" "geom_count (scene w1) = new_mesh w1"
    using si by (simp_all add: same_inputs_def new_mesh_def)
  have s0: "shape_at (vertices_arg w2) 0 = shape_at (vertices_arg w1) 0"
    using sh by (simp add: shape_at_def)
  show ?thesis
  proof (cases "shape_at (vertices_arg w1) 0")
    case (Inl e)
    then show ?thesis using s0 by (simp add: build_indexed_frame)
  next
    case n0: (Inr n0)
    then have n0': "shape_at (vertices_arg w2) 0 = Inr n0" using s0 by simp
    show ?thesis
    proof (cases "indices_arg w1")
      case None
      then have "indices_arg w2 = None" using ro by (cases "indices_arg w2") simp_all
      then show ?thesis using None n0 n0' by (simp add: build_indexed_frame)
    next
      case (Some a1)
      then obtain a2 where a2: "indices_arg w2 = Some a2" and sa: "shape a1 = shape a2"
        using ro by (cases "indices_arg w2") (simp_all add: same_array_shape)
      have s1: "shape_at a2 0 = shape_at a1 0" using sa by (simp add: shape_at_def)
      show ?thesis
      proof (cases "shape_at a1 0")
        case (Inl e)
        then show ?thesis
          using s1 Some a2 n0 n0' by (simp add: build_indexed_frame)
      next
        case (Inr n1)
        then have "shape_at a2 0 = Inr n1" using s1 by simp
        then show ?thesis
          using Inr Some a2 n0 n0' m
            frame_agree [where vfill = "\<lambda>p. copy_vertices cv p (c_int (int n0))"
              and ifill = "\<lambda>p. fill p (c_int (int n1))" and m = "new_mesh w1"
              and nt = "count (c_int (int n1))" and nv = "c_int (int n0)",
              OF copy_vertices_agree fa copy_vertices_fill_only fs si refl]
          by (simp add: build_indexed_frame)
      qed
    qed
  qed
qed

lemma constructor_of_agree:
  assumes si: "same_inputs w1 w2"
  shows "fst (constructor_of cv p w1) = fst (constructor_of cv p w2)
    \<and> allocated_slot w1 (snd (constructor_of cv p w1)) = allocated_slot w2 (snd (constructor_of cv p w2))"
proof -
  have ro: "rel_option same_array (indices_arg w1) (indices_arg w2)"
    using si by (simp add: same_inputs_def)
  have T: "fst (TriangleMesh_init cv w1) = fst (TriangleMesh_init cv w2)
    \<and> allocated_slot w1 (snd (TriangleMesh_init cv w1)) = allocated_slot w2 (snd (TriangleMesh_init cv w2))"
  proof (cases "indices_arg w1")
    case None
    then have "indices_arg w2 = None" using ro by (cases "indices_arg w2") simp_all
    then show ?thesis
      using None build_from_flat_agree [OF si] by (simp add: TriangleMesh_init_def)
  next
    case (Some a1)
    then obtain a2 where "indices_arg w2 = Some a2"
      using ro by (cases "indices_arg w2") simp_all
    then show ?thesis
      using Some build_indexed_agree [OF si indices_index_fill_agree indices_index_fill_only]
      by (simp add: TriangleMesh_init_def build_from_indices_def)
  qed
  have E: "fst (ElementMesh_init cv w1) = fst (ElementMesh_init cv w2)
    \<and> allocated_slot w1 (snd (ElementMesh_init cv w1)) = allocated_slot w2 (snd (ElementMesh_init cv w2))"
  proof (cases "indices_arg w1")
    case None
    then have "indices_arg w2 = None" using ro by (cases "indices_arg w2") simp_all
    then show ?thesis using None by (simp add: ElementMesh_init_def)
  next
    case (Some a1)
    then obtain a2 where a2: "indices_arg w2 = Some a2" and sa: "shape a1 = shape a2"
      using ro by (cases "indices_arg w2") (simp_all add: same_array_shape)
    show ?thesis
      using Some a2 sa
        build_indexed_agree [OF si quads_index_fill_agree quads_index_fill_only]
        build_indexed_agree [OF si triangles_index_fill_agree triangles_index_fill_only]
      by (simp add: ElementMesh_init_def shape_at_def build_from_quads_def build_from_triangles_def)
  qed
  show ?thesis using T E by (cases p) simp_all
qed

lemma same_array_padded: "same_array a (padded a)"
  by (simp add: same_array_def padded_def)

lemma construct_elsewhere_simps [simp]:
  "vertices_arg (construct_elsewhere va ia) = va"
  "indices_arg (construct_elsewhere va ia) = ia"
  "new_mesh (construct_elsewhere va ia) = 0"
  by (simp_all add: construct_elsewhere_def new_mesh_def)

subsection \<open>Inputs whose elements convert\<close>

lemma list_all2_less2: "list_all2 (<) ks [n, d] \<longleftrightarrow> (\<exists>i c. ks = [i, c] \<and> i < n \<and> c < d)"
  by (auto simp: list_all2_Cons2)

lemma list_all2_less3:
  "list_all2 (<) ks [n, d, d'] \<longleftrightarrow> (\<exists>i j c. ks = [i, j, c] \<and> i < n \<and> j < d \<and> c < d')"
  by (auto simp: list_all2_Cons2)

lemma converted_2I:
  assumes "shape a = [n, d]" and "\<forall>i<n. \<forall>c<d. cv (item a [i, c]) = Inr (x i c)"
  shows "converted cv a \<lparr>shape = [n, d], item = (\<lambda>ks. x (ks ! 0) (ks ! 1))\<rparr>"
  using assms by (auto simp: converted_def list_all_iff indices_of_iff list_all2_less2)

lemma converted_3I:
  assumes "shape a = [n, d, d']" and "\<forall>i<n. \<forall>j<d. \<forall>c<d'. cv (item a [i, j, c]) = Inr (x i j c)"
  shows "converted cv a \<lparr>shape = [n, d, d'], item = (\<lambda>ks. x (ks ! 0) (ks ! 1) (ks ! 2))\<rparr>"
  using assms by (auto simp: converted_def list_all_iff indices_of_iff list_all2_less3)

lemma all_convert_2I:
  assumes "shape a = [n, d]" and "\<forall>i<n. \<forall>c<d. \<exists>y. cv (item a [i, c]) = Inr y"
  shows "all_convert cv a"
proof -
  have "\<not> isl (cv (item a [i, c]))" if "i < n" "c < d" for i c
  proof -
    from assms(2) that obtain y where "cv (item a [i, c]) = Inr y" by blast
    then show ?thesis by simp
  qed
  then show ?thesis
    using assms(1) by (auto simp: all_convert_def list_all_iff indices_of_iff list_all2_less2)
qed

lemma fits_2I:
  assumes "shape arr = [n, d]"
    and "\<forall>i<n. \<forall>c<d. INT_MIN \<le> item arr [i, c] \<and> item arr [i, c] \<le> INT_MAX"
  shows "converted as_c_int arr arr"
  using assms
  by (auto simp: converted_def list_all_iff indices_of_iff list_all2_less2 as_c_int_def)

section \<open>Properties\<close>

subsection \<open>Hexahedra\<close>

text \<open>
  C1, as amended. For a vertex array of shape \<open>(nv, 3)\<close> and an index array of shape
  \<open>(ne, 8)\<close> with \<open>nv \<le> INT_MAX\<close> and \<open>12 ne \<le> INT_MAX\<close>, whose coordinates convert to a C
  float and whose indices fit a C int, ElementMesh construction succeeds, its first call
  allocates a slot of \<open>12 ne\<close> triangles and \<open>nv\<close> vertices, the slot has these counts, and
  triangle \<open>12 e + k\<close> is entry \<open>k\<close> of the table of the specification mapped through row
  \<open>e\<close> of the index array.
\<close>

theorem hexahedra_to_triangles:
  assumes "indices_arg w = Some arr"
    and "shape (vertices_arg w) = [nv, 3]" and "shape arr = [ne, 8]"
    and "int nv \<le> INT_MAX" and "12 * int ne \<le> INT_MAX"
    and "\<forall>i<nv. \<forall>c<3. \<exists>y. as_float (item (vertices_arg w) [i, c]) = Inr y"
    and "\<forall>e<ne. \<forall>c<8. INT_MIN \<le> item arr [e, c] \<and> item arr [e, c] \<le> INT_MAX"
  shows "fst (ElementMesh_init as_float w) = None
    \<and> hd (new_events w (snd (ElementMesh_init as_float w)))
        = NewTriangleMesh (new_mesh w) (12 * int ne) (int nv)
    \<and> numTriangles (the_geom (snd (ElementMesh_init as_float w)) (new_mesh w)) = 12 * int ne
    \<and> numVertices (the_geom (snd (ElementMesh_init as_float w)) (new_mesh w)) = int nv
    \<and> (\<forall>e<ne. \<forall>k<12.
          index_buffer (the_geom (snd (ElementMesh_init as_float w)) (new_mesh w)) (12 * e + k)
          = table_triangle arr hex_table e k)"
proof -
  have dm: "(12 * e + k) div 12 = e \<and> (12 * e + k) mod 12 = k" if "k < 12" for e k :: nat
    using that by (simp add: add.commute)
  have lt: "12 * e + k < 12 * ne" if "e < ne" "k < 12" for e k :: nat
    using that by simp
  have cvt: "converted as_float (vertices_arg w)
      \<lparr>shape = shape (vertices_arg w), item = (\<lambda>ks. projr (as_float (item (vertices_arg w) ks)))\<rparr>"
    by (rule all_convert_converted) (rule all_convert_2I [OF assms(2,6)])
  have fit: "converted as_c_int arr arr"
    by (rule fits_2I [OF assms(3,7)])
  show ?thesis
    using assms(1,3)
    by (simp add: ElementMesh_init_quads build_from_quads_closed [OF assms(1,2,4,3,5) cvt fit]
        new_mesh_def mesh_geometry_obs table_lengths dm lt)
qed

theorem hexahedra_to_triangles_witness:
  "fst (ElementMesh_init single_of_int (construct (grid 8 3) (Some (index_rows 1 8)))) = None
   \<and> numTriangles (the_geom (snd (ElementMesh_init single_of_int
        (construct (grid 8 3) (Some (index_rows 1 8))))) 0) = 12
   \<and> numVertices (the_geom (snd (ElementMesh_init single_of_int
        (construct (grid 8 3) (Some (index_rows 1 8))))) 0) = 8
   \<and> index_buffer (the_geom (snd (ElementMesh_init single_of_int
        (construct (grid 8 3) (Some (index_rows 1 8))))) 0) 5
       = Triangle (Some 0) (Some 5) (Some 4)"
proof -
  let ?w = "construct (grid 8 3) (Some (index_rows 1 8)) :: (int, int) world"
  have v: "\<forall>i<8. \<forall>c<3. \<exists>y. single_of_int (item (vertices_arg ?w) [i, c]) = Inr y"
    by (simp add: single_of_int_def)
  have f: "\<forall>e<1. \<forall>c<8. INT_MIN \<le> item (index_rows 1 8) [e, c]
      \<and> item (index_rows 1 8) [e, c] \<le> INT_MAX"
    by (simp add: INT_MIN_def INT_MAX_def)
  have "\<forall>e<1. \<forall>k<12.
      index_buffer (the_geom (snd (ElementMesh_init single_of_int ?w)) 0) (12 * e + k)
        = table_triangle (index_rows 1 8) hex_table e k"
    and "fst (ElementMesh_init single_of_int ?w) = None"
    and "numTriangles (the_geom (snd (ElementMesh_init single_of_int ?w)) 0) = 12"
    and "numVertices (the_geom (snd (ElementMesh_init single_of_int ?w)) 0) = 8"
    using hexahedra_to_triangles [where w = ?w and arr = "index_rows 1 8" and nv = 8 and ne = 1
        and as_float = single_of_int, OF _ _ _ _ _ v f]
    by (simp_all add: INT_MAX_def)
  moreover have
    "index_buffer (the_geom (snd (ElementMesh_init single_of_int ?w)) 0) (12 * 0 + 5)
       = table_triangle (index_rows 1 8) hex_table 0 5"
    by (rule all2D [OF calculation(1)]) simp_all
  ultimately show ?thesis
    by (simp add: table_triangle_def hex_table_def)
qed

text \<open>
  C1 as stated fails. A vertex array of \<open>2\<^sup>3\<^sup>1\<close> rows and one hexahedron: the row count
  goes through the C int \<open>nv\<close>, and the slot is declared with \<open>- 2\<^sup>3\<^sup>1\<close> vertices. A
  hexahedron whose first index is \<open>2\<^sup>3\<^sup>1\<close>: the index does not convert to the C int of
  the field, and the builder ends with OverflowError, the index buffer mapped.
\<close>

theorem hexahedra_to_triangles_counterexample:
  "shape (vertices_arg (construct (grid 2147483648 3) (Some (index_rows 1 8))
      :: (int, int) world)) = [2147483648, 3]
   \<and> numVertices (the_geom (snd (ElementMesh_init single_of_int
        (construct (grid 2147483648 3) (Some (index_rows 1 8))))) 0) = - 2147483648
   \<and> shape (array2 [[2147483648, 1, 2, 3, 4, 5, 6, 7 :: int]]) = [1, 8]
   \<and> fst (ElementMesh_init single_of_int
        (construct (grid 8 3) (Some (array2 [[2147483648, 1, 2, 3, 4, 5, 6, 7]]))))
       = Some OverflowError
   \<and> mapped (the_geom (snd (ElementMesh_init single_of_int
        (construct (grid 8 3) (Some (array2 [[2147483648, 1, 2, 3, 4, 5, 6, 7]]))))) 0)
       RTC_INDEX_BUFFER"
proof -
  have "numVertices (the_geom (snd (ElementMesh_init single_of_int
        (construct (grid 2147483648 3) (Some (index_rows 1 8))))) 0) = - 2147483648"
    using build_indexed_counts(2) [of "construct (grid 2147483648 3) (Some (index_rows 1 8))"
        "index_rows 1 8" 2147483648 "[3]" 1 "[8]" quads_index_fill single_of_int
        "\<lambda>ne. c_int (c_int (6 * 2) * ne)", OF _ _ _ quads_index_fill_only]
    by (simp add: ElementMesh_init_def shape_at_def build_from_quads_def c_int_def)
  moreover have "fst (ElementMesh_init single_of_int
        (construct (grid 8 3) (Some (array2 [[2147483648, 1, 2, 3, 4, 5, 6, 7]]))))
       = Some OverflowError
     \<and> mapped (the_geom (snd (ElementMesh_init single_of_int
        (construct (grid 8 3) (Some (array2 [[2147483648, 1, 2, 3, 4, 5, 6, 7]]))))) 0)
       RTC_INDEX_BUFFER"
    by (simp add: exec_defs upt_rec single_of_int_exact)
  ultimately show ?thesis by simp
qed

subsection \<open>Flat triangle soups\<close>

text \<open>
  C2, as amended. For a vertex array of shape \<open>(n, 3, 3)\<close> with \<open>3 n \<le> INT_MAX\<close> and no
  index array, TriangleMesh construction succeeds when every coordinate converts to a C
  float: it allocates a slot of \<open>n\<close> triangles and \<open>3 n\<close> vertices, stores in vertex slot
  \<open>3 i + j\<close> the three coordinates of corner \<open>j\<close> of triangle \<open>i\<close>, each as the conversion
  gives it (the coordinate itself when a C float represents it), and makes index entry
  \<open>i\<close> the triple \<open>(3 i, 3 i + 1, 3 i + 2)\<close>.
\<close>

theorem flat_triangle_soup:
  assumes "indices_arg w = None"
    and "shape (vertices_arg w) = [n, 3, 3]" and "3 * int n \<le> INT_MAX"
    and "\<forall>i<n. \<forall>j<3. \<forall>c<3. as_float (item (vertices_arg w) [i, j, c]) = Inr (x i j c)"
  shows "fst (TriangleMesh_init as_float w) = None
    \<and> hd (new_events w (snd (TriangleMesh_init as_float w)))
        = NewTriangleMesh (new_mesh w) (int n) (3 * int n)
    \<and> numTriangles (the_geom (snd (TriangleMesh_init as_float w)) (new_mesh w)) = int n
    \<and> numVertices (the_geom (snd (TriangleMesh_init as_float w)) (new_mesh w)) = 3 * int n
    \<and> (\<forall>i<n. \<forall>j<3.
          vertex_buffer (the_geom (snd (TriangleMesh_init as_float w)) (new_mesh w)) (3 * i + j)
          = Vertex (Some (x i j 0)) (Some (x i j 1)) (Some (x i j 2)))
    \<and> (\<forall>i<n. index_buffer (the_geom (snd (TriangleMesh_init as_float w)) (new_mesh w)) i
          = Triangle (Some (3 * int i)) (Some (3 * int i + 1)) (Some (3 * int i + 2)))"
proof -
  let ?b = "\<lparr>shape = [n, 3, 3], item = (\<lambda>ks. x (ks ! 0) (ks ! 1) (ks ! 2))\<rparr>"
  have lt: "3 * i + j < 3 * n" if "i < n" "j < 3" for i j :: nat
    using that by simp
  have fv: "flat_vertex b (3 * i + j) = Vertex (Some (item b [i, j, 0])) (Some (item b [i, j, 1]))
      (Some (item b [i, j, 2]))" if "j < 3" for b :: "'b ndarray" and i j
    using div_mod_3 [OF that, of i] by (simp add: flat_vertex_def)
  have cvt: "converted as_float (vertices_arg w) ?b"
    by (rule converted_3I [OF assms(2,4)])
  have "TriangleMesh_init as_float w = build_from_flat as_float w"
    using assms(1) by (simp add: TriangleMesh_init_def)
  then show ?thesis
    by (simp add: build_from_flat_closed [OF assms(2,3) cvt] new_mesh_def new_geometry_simps lt fv
        flat_triangle_def)
qed

theorem flat_triangle_soup_witness:
  "fst (TriangleMesh_init single_of_int (construct (soup 2 3) None)) = None
   \<and> numTriangles (the_geom (snd (TriangleMesh_init single_of_int (construct (soup 2 3) None))) 0) = 2
   \<and> numVertices (the_geom (snd (TriangleMesh_init single_of_int (construct (soup 2 3) None))) 0) = 6
   \<and> vertex_buffer (the_geom (snd (TriangleMesh_init single_of_int (construct (soup 2 3) None))) 0) 5
       = Vertex (Some 120) (Some 121) (Some 122)
   \<and> index_buffer (the_geom (snd (TriangleMesh_init single_of_int (construct (soup 2 3) None))) 0) 1
       = Triangle (Some 3) (Some 4) (Some 5)"
proof -
  let ?w = "construct (soup 2 3) None :: (int, int) world"
  let ?x = "\<lambda>i j c. 100 * int i + 10 * int j + int c"
  have v: "\<forall>i<2. \<forall>j<3. \<forall>c<3. single_of_int (item (vertices_arg ?w) [i, j, c]) = Inr (?x i j c)"
    by (simp add: single_of_int_exact)
  have "\<forall>i<2. \<forall>j<3.
      vertex_buffer (the_geom (snd (TriangleMesh_init single_of_int ?w)) 0) (3 * i + j)
      = Vertex (Some (?x i j 0)) (Some (?x i j 1)) (Some (?x i j 2))"
    and "\<forall>i<2. index_buffer (the_geom (snd (TriangleMesh_init single_of_int ?w)) 0) i
      = Triangle (Some (3 * int i)) (Some (3 * int i + 1)) (Some (3 * int i + 2))"
    and "fst (TriangleMesh_init single_of_int ?w) = None"
    and "numTriangles (the_geom (snd (TriangleMesh_init single_of_int ?w)) 0) = 2"
    and "numVertices (the_geom (snd (TriangleMesh_init single_of_int ?w)) 0) = 6"
    using flat_triangle_soup [where w = ?w and n = 2 and as_float = single_of_int and x = ?x,
        OF _ _ _ v]
    by (simp_all add: INT_MAX_def)
  moreover have
    "vertex_buffer (the_geom (snd (TriangleMesh_init single_of_int ?w)) 0) (3 * 1 + 2)
      = Vertex (Some (?x 1 2 0)) (Some (?x 1 2 1)) (Some (?x 1 2 2))"
    by (rule all2D [OF calculation(1)]) simp_all
  moreover have
    "index_buffer (the_geom (snd (TriangleMesh_init single_of_int ?w)) 0) 1
      = Triangle (Some (3 * int 1)) (Some (3 * int 1 + 1)) (Some (3 * int 1 + 2))"
    by (rule all1D [OF calculation(2)]) simp
  ultimately show ?thesis by simp
qed

text \<open>
  C2 as stated fails. A soup of \<open>2\<^sup>3\<^sup>2\<close> triangles: the count goes through the C int
  \<open>nt\<close>, which is 0, and the construction succeeds with a slot of no triangle and no
  vertex. A soup of one triangle with the coordinate \<open>2\<^sup>2\<^sup>4 + 1\<close>, which no C float
  represents: the vertex slot holds \<open>2\<^sup>2\<^sup>4\<close>, not the coordinate.
\<close>

theorem flat_triangle_soup_counterexample:
  "shape (vertices_arg (construct (soup 4294967296 3) None :: (int, int) world))
      = [4294967296, 3, 3]
   \<and> fst (TriangleMesh_init single_of_int (construct (soup 4294967296 3) None)) = None
   \<and> numTriangles (the_geom (snd (TriangleMesh_init single_of_int
        (construct (soup 4294967296 3) None))) 0) = 0
   \<and> numVertices (the_geom (snd (TriangleMesh_init single_of_int
        (construct (soup 4294967296 3) None))) 0) = 0
   \<and> shape (array3 [[[16777217, 0, 0], [1, 0, 0], [0, 1, 0 :: int]]]) = [1, 3, 3]
   \<and> fst (TriangleMesh_init single_of_int
        (construct (array3 [[[16777217, 0, 0], [1, 0, 0], [0, 1, 0]]]) None)) = None
   \<and> vertex_buffer (the_geom (snd (TriangleMesh_init single_of_int
        (construct (array3 [[[16777217, 0, 0], [1, 0, 0], [0, 1, 0]]]) None))) 0) 0
       = Vertex (Some 16777216) (Some 0) (Some 0)"
proof -
  have "fst (TriangleMesh_init single_of_int (construct (soup 4294967296 3) None)) = None
   \<and> numTriangles (the_geom (snd (TriangleMesh_init single_of_int
        (construct (soup 4294967296 3) None))) 0) = 0
   \<and> numVertices (the_geom (snd (TriangleMesh_init single_of_int
        (construct (soup 4294967296 3) None))) 0) = 0"
    by (simp add: exec_defs)
  moreover have "single_of_int 16777217 = Inr 16777216"
    by (simp add: single_of_int_def round_to_def bit_length_eval Let_def)
  then have "fst (TriangleMesh_init single_of_int
        (construct (array3 [[[16777217, 0, 0], [1, 0, 0], [0, 1, 0]]]) None)) = None
   \<and> vertex_buffer (the_geom (snd (TriangleMesh_init single_of_int
        (construct (array3 [[[16777217, 0, 0], [1, 0, 0], [0, 1, 0]]]) None))) 0) 0
       = Vertex (Some 16777216) (Some 0) (Some 0)"
    by (simp add: exec_defs upt_rec single_of_int_exact)
  ultimately show ?thesis by simp
qed

subsection \<open>Tetrahedra\<close>

text \<open>
  C3, as amended. For a vertex array of shape \<open>(nv, 3)\<close> and an index array of shape
  \<open>(ne, 4)\<close> with \<open>nv \<le> INT_MAX\<close> and \<open>4 ne \<le> INT_MAX\<close>, whose coordinates convert to a C
  float and whose indices fit a C int, ElementMesh construction succeeds, allocates a slot
  of \<open>4 ne\<close> triangles and \<open>nv\<close> vertices, and triangle \<open>4 e + k\<close> is face \<open>k\<close> of the list of
  the specification mapped through row \<open>e\<close> of the index array.
\<close>

theorem tetrahedra_to_triangles:
  assumes "indices_arg w = Some arr"
    and "shape (vertices_arg w) = [nv, 3]" and "shape arr = [ne, 4]"
    and "int nv \<le> INT_MAX" and "4 * int ne \<le> INT_MAX"
    and "\<forall>i<nv. \<forall>c<3. \<exists>y. as_float (item (vertices_arg w) [i, c]) = Inr y"
    and "\<forall>e<ne. \<forall>c<4. INT_MIN \<le> item arr [e, c] \<and> item arr [e, c] \<le> INT_MAX"
  shows "fst (ElementMesh_init as_float w) = None
    \<and> hd (new_events w (snd (ElementMesh_init as_float w)))
        = NewTriangleMesh (new_mesh w) (4 * int ne) (int nv)
    \<and> numTriangles (the_geom (snd (ElementMesh_init as_float w)) (new_mesh w)) = 4 * int ne
    \<and> numVertices (the_geom (snd (ElementMesh_init as_float w)) (new_mesh w)) = int nv
    \<and> (\<forall>e<ne. \<forall>k<4.
          index_buffer (the_geom (snd (ElementMesh_init as_float w)) (new_mesh w)) (4 * e + k)
          = table_triangle arr tet_table e k)"
proof -
  have dm: "(4 * e + k) div 4 = e \<and> (4 * e + k) mod 4 = k" if "k < 4" for e k :: nat
    using that by (simp add: add.commute)
  have lt: "4 * e + k < 4 * ne" if "e < ne" "k < 4" for e k :: nat
    using that by simp
  have cvt: "converted as_float (vertices_arg w)
      \<lparr>shape = shape (vertices_arg w), item = (\<lambda>ks. projr (as_float (item (vertices_arg w) ks)))\<rparr>"
    by (rule all_convert_converted) (rule all_convert_2I [OF assms(2,6)])
  have fit: "converted as_c_int arr arr"
    by (rule fits_2I [OF assms(3,7)])
  show ?thesis
    using assms(1,3)
    by (simp add: ElementMesh_init_triangles
        build_from_triangles_closed [OF assms(1,2,4,3,5) cvt fit]
        new_mesh_def mesh_geometry_obs table_lengths dm lt)
qed

theorem tetrahedra_to_triangles_witness:
  "fst (ElementMesh_init single_of_int (construct (grid 4 3) (Some (index_rows 1 4)))) = None
   \<and> numTriangles (the_geom (snd (ElementMesh_init single_of_int
        (construct (grid 4 3) (Some (index_rows 1 4))))) 0) = 4
   \<and> numVertices (the_geom (snd (ElementMesh_init single_of_int
        (construct (grid 4 3) (Some (index_rows 1 4))))) 0) = 4
   \<and> index_buffer (the_geom (snd (ElementMesh_init single_of_int
        (construct (grid 4 3) (Some (index_rows 1 4))))) 0) 2
       = Triangle (Some 0) (Some 2) (Some 3)"
proof -
  let ?w = "construct (grid 4 3) (Some (index_rows 1 4)) :: (int, int) world"
  have v: "\<forall>i<4. \<forall>c<3. \<exists>y. single_of_int (item (vertices_arg ?w) [i, c]) = Inr y"
    by (simp add: single_of_int_def)
  have f: "\<forall>e<1. \<forall>c<4. INT_MIN \<le> item (index_rows 1 4) [e, c]
      \<and> item (index_rows 1 4) [e, c] \<le> INT_MAX"
    by (simp add: INT_MIN_def INT_MAX_def)
  have "\<forall>e<1. \<forall>k<4.
      index_buffer (the_geom (snd (ElementMesh_init single_of_int ?w)) 0) (4 * e + k)
        = table_triangle (index_rows 1 4) tet_table e k"
    and "fst (ElementMesh_init single_of_int ?w) = None"
    and "numTriangles (the_geom (snd (ElementMesh_init single_of_int ?w)) 0) = 4"
    and "numVertices (the_geom (snd (ElementMesh_init single_of_int ?w)) 0) = 4"
    using tetrahedra_to_triangles [where w = ?w and arr = "index_rows 1 4" and nv = 4 and ne = 1
        and as_float = single_of_int, OF _ _ _ _ _ v f]
    by (simp_all add: INT_MAX_def)
  moreover have
    "index_buffer (the_geom (snd (ElementMesh_init single_of_int ?w)) 0) (4 * 0 + 2)
       = table_triangle (index_rows 1 4) tet_table 0 2"
    by (rule all2D [OF calculation(1)]) simp_all
  ultimately show ?thesis
    by (simp add: table_triangle_def tet_table_def)
qed

text \<open>
  C3 as stated fails. An index array of \<open>2\<^sup>3\<^sup>2\<close> tetrahedra: the element count goes
  through the C int \<open>ne\<close>, which is 0, and the construction succeeds with a slot of no
  triangle. A tetrahedron whose first index is \<open>2\<^sup>3\<^sup>1\<close>: the index does not convert to
  the C int of the field, and the builder ends with OverflowError, the index buffer
  mapped.
\<close>

theorem tetrahedra_to_triangles_counterexample:
  "shape (index_rows 4294967296 4) = [4294967296, 4]
   \<and> fst (ElementMesh_init single_of_int
        (construct (grid 4 3) (Some (index_rows 4294967296 4)))) = None
   \<and> numTriangles (the_geom (snd (ElementMesh_init single_of_int
        (construct (grid 4 3) (Some (index_rows 4294967296 4))))) 0) = 0
   \<and> shape (array2 [[2147483648, 1, 2, 3 :: int]]) = [1, 4]
   \<and> fst (ElementMesh_init single_of_int
        (construct (grid 4 3) (Some (array2 [[2147483648, 1, 2, 3]])))) = Some OverflowError
   \<and> mapped (the_geom (snd (ElementMesh_init single_of_int
        (construct (grid 4 3) (Some (array2 [[2147483648, 1, 2, 3]]))))) 0) RTC_INDEX_BUFFER"
proof -
  have "fst (ElementMesh_init single_of_int
        (construct (grid 4 3) (Some (index_rows 4294967296 4)))) = None
   \<and> numTriangles (the_geom (snd (ElementMesh_init single_of_int
        (construct (grid 4 3) (Some (index_rows 4294967296 4))))) 0) = 0"
    by (simp add: exec_defs upt_rec single_of_int_exact)
  moreover have "fst (ElementMesh_init single_of_int
        (construct (grid 4 3) (Some (array2 [[2147483648, 1, 2, 3]])))) = Some OverflowError
   \<and> mapped (the_geom (snd (ElementMesh_init single_of_int
        (construct (grid 4 3) (Some (array2 [[2147483648, 1, 2, 3]]))))) 0) RTC_INDEX_BUFFER"
    by (simp add: exec_defs upt_rec single_of_int_exact)
  ultimately show ?thesis by simp
qed

subsection \<open>Indexed triangle meshes\<close>

text \<open>
  C4, as amended. For a vertex array of shape \<open>(nv, 3)\<close> and an index array of shape
  \<open>(nt, 3)\<close> with \<open>nv \<le> INT_MAX\<close> and \<open>nt \<le> INT_MAX\<close>, whose coordinates convert to a C
  float and whose indices fit a C int, TriangleMesh construction succeeds, allocates a
  slot of \<open>nt\<close> triangles and \<open>nv\<close> vertices, and copies both arrays entry for entry, in
  order: vertex slot \<open>i\<close> holds the three coordinates of row \<open>i\<close> of the vertex array, each
  as the conversion gives it (the coordinate itself when a C float represents it), and
  index entry \<open>t\<close> is row \<open>t\<close> of the index array.
\<close>

theorem indexed_mesh_copy:
  assumes "indices_arg w = Some arr"
    and "shape (vertices_arg w) = [nv, 3]" and "shape arr = [nt, 3]"
    and "int nv \<le> INT_MAX" and "int nt \<le> INT_MAX"
    and "\<forall>i<nv. \<forall>c<3. as_float (item (vertices_arg w) [i, c]) = Inr (x i c)"
    and "\<forall>t<nt. \<forall>c<3. INT_MIN \<le> item arr [t, c] \<and> item arr [t, c] \<le> INT_MAX"
  shows "fst (TriangleMesh_init as_float w) = None
    \<and> hd (new_events w (snd (TriangleMesh_init as_float w)))
        = NewTriangleMesh (new_mesh w) (int nt) (int nv)
    \<and> numTriangles (the_geom (snd (TriangleMesh_init as_float w)) (new_mesh w)) = int nt
    \<and> numVertices (the_geom (snd (TriangleMesh_init as_float w)) (new_mesh w)) = int nv
    \<and> (\<forall>i<nv. vertex_buffer (the_geom (snd (TriangleMesh_init as_float w)) (new_mesh w)) i
          = Vertex (Some (x i 0)) (Some (x i 1)) (Some (x i 2)))
    \<and> (\<forall>t<nt. index_buffer (the_geom (snd (TriangleMesh_init as_float w)) (new_mesh w)) t
          = Triangle (Some (item arr [t, 0])) (Some (item arr [t, 1])) (Some (item arr [t, 2])))"
proof -
  have cvt: "converted as_float (vertices_arg w)
      \<lparr>shape = [nv, 3], item = (\<lambda>ks. x (ks ! 0) (ks ! 1))\<rparr>"
    by (rule converted_2I [OF assms(2,6)])
  have fit: "converted as_c_int arr arr"
    by (rule fits_2I [OF assms(3,7)])
  have "TriangleMesh_init as_float w = build_from_indices as_float w"
    using assms(1) by (simp add: TriangleMesh_init_def)
  then show ?thesis
    by (simp add: build_from_indices_closed [OF assms(1,2,4,3,5) cvt fit] new_mesh_def
        mesh_geometry_obs table_lengths vertex_row_def table_triangle_def tri_table_def)
qed

theorem indexed_mesh_copy_witness:
  "fst (TriangleMesh_init single_of_int (construct (grid 4 3) (Some (index_rows 2 3)))) = None
   \<and> numTriangles (the_geom (snd (TriangleMesh_init single_of_int
        (construct (grid 4 3) (Some (index_rows 2 3))))) 0) = 2
   \<and> numVertices (the_geom (snd (TriangleMesh_init single_of_int
        (construct (grid 4 3) (Some (index_rows 2 3))))) 0) = 4
   \<and> vertex_buffer (the_geom (snd (TriangleMesh_init single_of_int
        (construct (grid 4 3) (Some (index_rows 2 3))))) 0) 3
       = Vertex (Some 30) (Some 31) (Some 32)
   \<and> index_buffer (the_geom (snd (TriangleMesh_init single_of_int
        (construct (grid 4 3) (Some (index_rows 2 3))))) 0) 1
       = Triangle (Some 1) (Some 2) (Some 3)"
proof -
  let ?w = "construct (grid 4 3) (Some (index_rows 2 3)) :: (int, int) world"
  let ?x = "\<lambda>i c. 10 * int i + int c"
  have v: "\<forall>i<4. \<forall>c<3. single_of_int (item (vertices_arg ?w) [i, c]) = Inr (?x i c)"
    by (simp add: single_of_int_exact)
  have f: "\<forall>t<2. \<forall>c<3. INT_MIN \<le> item (index_rows 2 3) [t, c]
      \<and> item (index_rows 2 3) [t, c] \<le> INT_MAX"
    by (simp add: INT_MIN_def INT_MAX_def)
  have "\<forall>i<4. vertex_buffer (the_geom (snd (TriangleMesh_init single_of_int ?w)) 0) i
      = Vertex (Some (?x i 0)) (Some (?x i 1)) (Some (?x i 2))"
    and "\<forall>t<2. index_buffer (the_geom (snd (TriangleMesh_init single_of_int ?w)) 0) t
      = Triangle (Some (item (index_rows 2 3) [t, 0])) (Some (item (index_rows 2 3) [t, 1]))
          (Some (item (index_rows 2 3) [t, 2]))"
    and "fst (TriangleMesh_init single_of_int ?w) = None"
    and "numTriangles (the_geom (snd (TriangleMesh_init single_of_int ?w)) 0) = 2"
    and "numVertices (the_geom (snd (TriangleMesh_init single_of_int ?w)) 0) = 4"
    using indexed_mesh_copy [where w = ?w and arr = "index_rows 2 3" and nv = 4 and nt = 2
        and as_float = single_of_int and x = ?x, OF _ _ _ _ _ v f]
    by (simp_all add: INT_MAX_def)
  moreover have
    "vertex_buffer (the_geom (snd (TriangleMesh_init single_of_int ?w)) 0) 3
      = Vertex (Some (?x 3 0)) (Some (?x 3 1)) (Some (?x 3 2))"
    by (rule all1D [OF calculation(1)]) simp
  moreover have
    "index_buffer (the_geom (snd (TriangleMesh_init single_of_int ?w)) 0) 1
      = Triangle (Some (item (index_rows 2 3) [1, 0])) (Some (item (index_rows 2 3) [1, 1]))
          (Some (item (index_rows 2 3) [1, 2]))"
    by (rule all1D [OF calculation(2)]) simp
  ultimately show ?thesis by simp
qed

text \<open>
  C4 as stated fails. An index array of \<open>2\<^sup>3\<^sup>1\<close> triangles: the count goes through the C
  int \<open>nt\<close>, and the slot is declared with \<open>- 2\<^sup>3\<^sup>1\<close> triangles. A triangle with the
  index \<open>2\<^sup>3\<^sup>1\<close>: the index does not convert to the C int of the field, and the builder
  ends with OverflowError, the index buffer mapped. A vertex with the coordinate
  \<open>2\<^sup>2\<^sup>4 + 1\<close>, which no C float represents: the vertex slot holds \<open>2\<^sup>2\<^sup>4\<close>.
\<close>

theorem indexed_mesh_copy_counterexample:
  "shape (index_rows 2147483648 3) = [2147483648, 3]
   \<and> numTriangles (the_geom (snd (TriangleMesh_init single_of_int
        (construct (grid 4 3) (Some (index_rows 2147483648 3))))) 0) = - 2147483648
   \<and> shape (array2 [[0, 2147483648, 2 :: int]]) = [1, 3]
   \<and> fst (TriangleMesh_init single_of_int
        (construct (grid 4 3) (Some (array2 [[0, 2147483648, 2]])))) = Some OverflowError
   \<and> mapped (the_geom (snd (TriangleMesh_init single_of_int
        (construct (grid 4 3) (Some (array2 [[0, 2147483648, 2]]))))) 0) RTC_INDEX_BUFFER
   \<and> shape (array2 [[16777217, 0, 0 :: int]]) = [1, 3]
   \<and> fst (TriangleMesh_init single_of_int
        (construct (array2 [[16777217, 0, 0]]) (Some (array2 [[0, 0, 0]])))) = None
   \<and> vertex_buffer (the_geom (snd (TriangleMesh_init single_of_int
        (construct (array2 [[16777217, 0, 0]]) (Some (array2 [[0, 0, 0]]))))) 0) 0
       = Vertex (Some 16777216) (Some 0) (Some 0)"
proof -
  have "numTriangles (the_geom (snd (TriangleMesh_init single_of_int
        (construct (grid 4 3) (Some (index_rows 2147483648 3))))) 0) = - 2147483648"
    using build_indexed_counts(1) [of "construct (grid 4 3) (Some (index_rows 2147483648 3))"
        "index_rows 2147483648 3" 4 "[3]" 2147483648 "[3]" indices_index_fill single_of_int
        "\<lambda>nt. nt", OF _ _ _ indices_index_fill_only]
    by (simp add: TriangleMesh_init_def build_from_indices_def c_int_def)
  moreover have "fst (TriangleMesh_init single_of_int
        (construct (grid 4 3) (Some (array2 [[0, 2147483648, 2]])))) = Some OverflowError
   \<and> mapped (the_geom (snd (TriangleMesh_init single_of_int
        (construct (grid 4 3) (Some (array2 [[0, 2147483648, 2]]))))) 0) RTC_INDEX_BUFFER"
    by (simp add: exec_defs upt_rec single_of_int_exact)
  moreover have "single_of_int 16777217 = Inr 16777216"
    by (simp add: single_of_int_def round_to_def bit_length_eval Let_def)
  then have "fst (TriangleMesh_init single_of_int
        (construct (array2 [[16777217, 0, 0]]) (Some (array2 [[0, 0, 0]])))) = None
   \<and> vertex_buffer (the_geom (snd (TriangleMesh_init single_of_int
        (construct (array2 [[16777217, 0, 0]]) (Some (array2 [[0, 0, 0]]))))) 0) 0
       = Vertex (Some 16777216) (Some 0) (Some 0)"
    by (simp add: exec_defs upt_rec single_of_int_exact)
  ultimately show ?thesis by simp
qed

subsection \<open>Arity dispatch of ElementMesh\<close>

text \<open>
  C5. An ElementMesh construction whose index array has a second dimension other than 4
  or 8 fails with NotImplementedError (the spec's UnsupportedElementArity), and it fails
  before anything is done: the whole state is the one the call started in, so no
  geometry slot has been allocated, no buffer acquired and nothing logged.
\<close>

theorem ElementMesh_unsupported_arity:
  assumes "indices_arg w = Some arr"
    and "1 < length (shape arr)"
    and "shape arr ! 1 \<noteq> 8"
    and "shape arr ! 1 \<noteq> 4"
  shows "ElementMesh_init as_float w = (Some NotImplementedError, w)"
  using assms by (simp add: ElementMesh_init_def shape_at_def)

theorem ElementMesh_unsupported_arity_witness:
  "ElementMesh_init single_of_int (construct (grid 4 3) (Some (index_rows 2 3)))
     = (Some NotImplementedError, construct (grid 4 3) (Some (index_rows 2 3)))"
  by (rule ElementMesh_unsupported_arity [where arr = "index_rows 2 3"]) simp_all

subsection \<open>The buffer protocol\<close>




subsection \<open>Mis-shaped inputs\<close>




subsection \<open>The vertex buffer of an element mesh\<close>

text \<open>
  C9, as amended. In both ElementMesh paths, for a vertex array of shape \<open>(nv, 3)\<close> with
  \<open>nv \<le> INT_MAX\<close> whose coordinates convert to a C float, the slot has \<open>nv\<close> vertices and
  vertex \<open>i\<close> holds the three coordinates of row \<open>i\<close> of the vertex array, each as the
  conversion gives it (the coordinate itself when a C float represents it), for every
  \<open>i < nv\<close>: nothing is duplicated, dropped or reordered, whatever the index fill does
  afterwards.
\<close>

theorem element_mesh_vertex_copy:
  assumes "indices_arg w = Some arr" and "shape arr = [ne, d]" and "d = 8 \<or> d = 4"
    and "shape (vertices_arg w) = [nv, 3]" and "int nv \<le> INT_MAX"
    and "\<forall>i<nv. \<forall>c<3. as_float (item (vertices_arg w) [i, c]) = Inr (x i c)"
  shows "numVertices (the_geom (snd (ElementMesh_init as_float w)) (new_mesh w)) = int nv
    \<and> (\<forall>i<nv. vertex_buffer (the_geom (snd (ElementMesh_init as_float w)) (new_mesh w)) i
          = Vertex (Some (x i 0)) (Some (x i 1)) (Some (x i 2)))"
proof -
  have cvt: "converted as_float (vertices_arg w)
      \<lparr>shape = [nv, 3], item = (\<lambda>ks. x (ks ! 0) (ks ! 1))\<rparr>"
    by (rule converted_2I [OF assms(4,6)])
  show ?thesis
    using ElementMesh_init_vertex_copy [OF assms(1-5) cvt] by (simp add: vertex_row_def)
qed

theorem element_mesh_vertex_copy_witness:
  "numVertices (the_geom (snd (ElementMesh_init single_of_int
      (construct (grid 8 3) (Some (index_rows 1 8))))) 0) = 8
   \<and> vertex_buffer (the_geom (snd (ElementMesh_init single_of_int
        (construct (grid 8 3) (Some (index_rows 1 8))))) 0) 7
       = Vertex (Some 70) (Some 71) (Some 72)"
proof -
  let ?w = "construct (grid 8 3) (Some (index_rows 1 8)) :: (int, int) world"
  let ?x = "\<lambda>i c. 10 * int i + int c"
  have v: "\<forall>i<8. \<forall>c<3. single_of_int (item (vertices_arg ?w) [i, c]) = Inr (?x i c)"
    by (simp add: single_of_int_exact)
  have "\<forall>i<8. vertex_buffer (the_geom (snd (ElementMesh_init single_of_int ?w)) 0) i
      = Vertex (Some (?x i 0)) (Some (?x i 1)) (Some (?x i 2))"
    and "numVertices (the_geom (snd (ElementMesh_init single_of_int ?w)) 0) = 8"
    using element_mesh_vertex_copy [where w = ?w and arr = "index_rows 1 8" and ne = 1
        and d = 8 and nv = 8 and as_float = single_of_int and x = ?x, OF _ _ _ _ _ v]
    by (simp_all add: INT_MAX_def)
  moreover have
    "vertex_buffer (the_geom (snd (ElementMesh_init single_of_int ?w)) 0) 7
      = Vertex (Some (?x 7 0)) (Some (?x 7 1)) (Some (?x 7 2))"
    by (rule all1D [OF calculation(1)]) simp
  ultimately show ?thesis by simp
qed

text \<open>
  C9 as stated fails. A vertex array of \<open>2\<^sup>3\<^sup>1\<close> rows and one tetrahedron: the C int
  \<open>nv\<close> is negative, the vertex loop does not run, and vertex 0 of the slot is never
  written. One vertex with the coordinate \<open>2\<^sup>2\<^sup>4 + 1\<close>, which no C float represents:
  the vertex slot holds \<open>2\<^sup>2\<^sup>4\<close>, not the coordinate of the row.
\<close>

theorem element_mesh_vertex_copy_counterexample:
  "shape (vertices_arg (construct (grid 2147483648 3) (Some (index_rows 1 4))
      :: (int, int) world)) = [2147483648, 3]
   \<and> vertex_buffer (the_geom (snd (ElementMesh_init single_of_int
        (construct (grid 2147483648 3) (Some (index_rows 1 4))))) 0) 0
     = Vertex None None None
   \<and> shape (array2 [[16777217, 0, 0 :: int]]) = [1, 3]
   \<and> fst (ElementMesh_init single_of_int
        (construct (array2 [[16777217, 0, 0]]) (Some (array2 [[0, 0, 0, 0]])))) = None
   \<and> vertex_buffer (the_geom (snd (ElementMesh_init single_of_int
        (construct (array2 [[16777217, 0, 0]]) (Some (array2 [[0, 0, 0, 0]]))))) 0) 0
       = Vertex (Some 16777216) (Some 0) (Some 0)"
proof -
  have "vertex_buffer (the_geom (snd (ElementMesh_init single_of_int
        (construct (grid 2147483648 3) (Some (index_rows 1 4))))) 0) 0
     = Vertex None None None"
    using build_indexed_no_vertices [of "construct (grid 2147483648 3) (Some (index_rows 1 4))"
        "index_rows 1 4" 2147483648 "[3]" 1 "[4]" triangles_index_fill single_of_int
        "\<lambda>ne. c_int (4 * ne)", OF _ _ _ _ triangles_index_fill_only]
    by (simp add: ElementMesh_init_def shape_at_def build_from_triangles_def c_int_def)
  moreover have "single_of_int 16777217 = Inr 16777216"
    by (simp add: single_of_int_def round_to_def bit_length_eval Let_def)
  then have "fst (ElementMesh_init single_of_int
        (construct (array2 [[16777217, 0, 0]]) (Some (array2 [[0, 0, 0, 0]])))) = None
   \<and> vertex_buffer (the_geom (snd (ElementMesh_init single_of_int
        (construct (array2 [[16777217, 0, 0]]) (Some (array2 [[0, 0, 0, 0]]))))) 0) 0
       = Vertex (Some 16777216) (Some 0) (Some 0)"
    by (simp add: exec_defs upt_rec single_of_int_exact)
  ultimately show ?thesis by simp
qed

subsection \<open>The input arrays\<close>

text \<open>
  C10. No construction mutates its inputs: after a TriangleMesh or an ElementMesh
  construction, whether it succeeded or failed, the caller's vertex array and index
  array are the ones it passed.
\<close>

theorem construction_reads_inputs_only:
  "vertices_arg (snd (TriangleMesh_init as_float w)) = vertices_arg w
   \<and> indices_arg (snd (TriangleMesh_init as_float w)) = indices_arg w
   \<and> vertices_arg (snd (ElementMesh_init as_float w)) = vertices_arg w
   \<and> indices_arg (snd (ElementMesh_init as_float w)) = indices_arg w"
proof -
  have "vertices_arg (snd (TriangleMesh_init as_float w)) = vertices_arg w
      \<and> indices_arg (snd (TriangleMesh_init as_float w)) = indices_arg w"
    using TriangleMesh_init_outcome [where cv = as_float and w = w, OF prod.collapse [symmetric]]
    by (auto simp: allocated_run_def split: if_splits)
  moreover have "vertices_arg (snd (ElementMesh_init as_float w)) = vertices_arg w
      \<and> indices_arg (snd (ElementMesh_init as_float w)) = indices_arg w"
    using ElementMesh_init_outcome [where cv = as_float and w = w, OF prod.collapse [symmetric]]
    by (auto simp: allocated_run_def split: if_splits)
  ultimately show ?thesis by simp
qed

subsection \<open>Determinism\<close>

text \<open>
  C8. Two constructions on equal input arrays (the same shape, the same element at every
  index inside the shape) and on scenes that hand out the same next handle end the same
  way, with the same error if any, and the slots they allocate are equal: the same
  triangle count and vertex count, the same vertex-buffer and index-buffer contents.
  Nothing else the two calls may differ in (what memory holds outside the arrays, the
  other geometries of the scene, its history, the object under construction) has any
  influence.
\<close>

theorem construction_is_deterministic:
  assumes "same_array (vertices_arg w1) (vertices_arg w2)"
    and "rel_option same_array (indices_arg w1) (indices_arg w2)"
    and "new_mesh w1 = new_mesh w2"
  shows "fst (constructor_of as_float p w1) = fst (constructor_of as_float p w2)
    \<and> allocated_slot w1 (snd (constructor_of as_float p w1))
      = allocated_slot w2 (snd (constructor_of as_float p w2))"
  using assms by (intro constructor_of_agree) (simp add: same_inputs_def)

theorem construction_is_deterministic_witness:
  "fst (TriangleMesh_init single_of_int (construct (grid 4 3) (Some (index_rows 2 3))))
     = fst (TriangleMesh_init single_of_int
         (construct_elsewhere (padded (grid 4 3)) (Some (padded (index_rows 2 3)))))
   \<and> allocated_slot (construct (grid 4 3) (Some (index_rows 2 3)))
       (snd (TriangleMesh_init single_of_int (construct (grid 4 3) (Some (index_rows 2 3)))))
     = allocated_slot (construct_elsewhere (padded (grid 4 3)) (Some (padded (index_rows 2 3))))
       (snd (TriangleMesh_init single_of_int
         (construct_elsewhere (padded (grid 4 3)) (Some (padded (index_rows 2 3))))))"
  using construction_is_deterministic [of "construct (grid 4 3) (Some (index_rows 2 3))"
      "construct_elsewhere (padded (grid 4 3)) (Some (padded (index_rows 2 3)))"
      single_of_int Indexed]
  by (simp add: same_array_padded)

end
